theory Spec2Isabelle
  imports Complex_Main
begin

section \<open>Python exceptions and the for statement\<close>

text \<open>
  The exceptions the modelled code raises, by their Python class. The source has no
  exception classes of its own: a rejected configuration or an unusable checkpoint file
  is reported by \<open>raise ValueError(...)\<close> or by a failing \<open>assert\<close>.
\<close>

datatype error =
    ValueError string
  | AssertionError string
  | IndexError
  | KeyError string
  | ZeroDivisionError
  | TypeError string
  | UnboundLocalError string
  | NameError string
  | AttributeError string
  | NoSuchNodeError string
  | NodeError string
  | IOError string
  | OverflowError string
  | Unmodelled string

text \<open>A \<open>for\<close> loop whose body may raise: the first exception leaves the loop.\<close>

fun for_each :: "('a \<Rightarrow> error + unit) \<Rightarrow> 'a list \<Rightarrow> error + unit" where
  "for_each f [] = Inr ()"
| "for_each f (x # xs) = (case f x of Inl e \<Rightarrow> Inl e | Inr _ \<Rightarrow> for_each f xs)"

section \<open>Thermodynamic and sampler states\<close>

text \<open>
  \<open>ThermodynamicState\<close> carries a temperature, an optional pressure (\<open>None\<close> for NVT)
  and a reference to a system. The type of the \<open>system\<close> field is a parameter: an address
  into a store of systems where the code mutates systems in place, the system itself
  where it only reads them.
\<close>

record 's thermodynamic_state =
  temperature :: real
  pressure :: "real option"
  system :: 's

record sampler_state =
  potential_energy :: real

section \<open>parallel\_tempering.py: \<open>ParallelTempering._compute_energies\<close>\<close>

text \<open>
  The fields of the engine that \<open>_compute_energies\<close> reads and writes. \<open>u_kl\<close> is the
  two-dimensional array of reduced potentials, row \<open>replica_index\<close>, column
  \<open>state_index\<close>.
\<close>

record 's replica_exchange =
  n_states :: nat
  thermodynamic_states :: "'s thermodynamic_state list"
  sampler_states :: "sampler_state list"
  u_kl :: "real list list"

text \<open>
  The inner loop, \<open>for state_index in range(self.n_states)\<close>, over the indices still to
  visit. Indexing a Python list or a numpy array out of range raises \<open>IndexError\<close>, and
  \<open>1.0 / (kB * T)\<close> raises \<open>ZeroDivisionError\<close> on a zero denominator. \<open>kB\<close> is the
  constant of \<open>repex.constants\<close>.
\<close>

fun compute_energies_row ::
  "real \<Rightarrow> 's thermodynamic_state list \<Rightarrow> real \<Rightarrow> nat \<Rightarrow> nat list \<Rightarrow> real list list
    \<Rightarrow> error + real list list" where
  "compute_energies_row kB ts U i [] u = Inr u"
| "compute_energies_row kB ts U i (k # ks) u =
     (if length ts \<le> k then Inl IndexError
      else if kB * temperature (ts ! k) = 0 then Inl ZeroDivisionError
      else if length u \<le> i \<or> length (u ! i) \<le> k then Inl IndexError
      else compute_energies_row kB ts U i ks
             (u[i := (u ! i)[k := (1 / (kB * temperature (ts ! k))) * U]]))"

text \<open>The outer loop, \<open>for replica_index in range(self.n_states)\<close>.\<close>

fun compute_energies_loop ::
  "real \<Rightarrow> 's thermodynamic_state list \<Rightarrow> sampler_state list \<Rightarrow> nat \<Rightarrow> nat list
    \<Rightarrow> real list list \<Rightarrow> error + real list list" where
  "compute_energies_loop kB ts ss n [] u = Inr u"
| "compute_energies_loop kB ts ss n (i # is) u =
     (if length ss \<le> i then Inl IndexError
      else case compute_energies_row kB ts (potential_energy (ss ! i)) i [0..<n] u of
             Inl e \<Rightarrow> Inl e
           | Inr u' \<Rightarrow> compute_energies_loop kB ts ss n is u')"

definition compute_energies :: "real \<Rightarrow> 's replica_exchange \<Rightarrow> error + 's replica_exchange" where
  "compute_energies kB self =
     (case compute_energies_loop kB (thermodynamic_states self) (sampler_states self)
             (n_states self) [0..<n_states self] (u_kl self) of
        Inl e \<Rightarrow> Inl e
      | Inr u' \<Rightarrow> Inr (self\<lparr>u_kl := u'\<rparr>))"

text \<open>The inverse temperature of state \<open>k\<close>, as the claim writes it.\<close>

definition beta :: "real \<Rightarrow> 's thermodynamic_state list \<Rightarrow> nat \<Rightarrow> real" where
  "beta kB ts k = 1 / (kB * temperature (ts ! k))"

text \<open>An \<open>n\<close> by \<open>n\<close> array.\<close>

definition square :: "nat \<Rightarrow> 'a list list \<Rightarrow> bool" where
  "square n u \<longleftrightarrow> length u = n \<and> list_all (\<lambda>row. length row = n) u"

section \<open>hamiltonian\_exchange.py: \<open>HamiltonianExchange._check_self_consistency\<close>\<close>

definition hex_check_self_consistency :: "'s thermodynamic_state list \<Rightarrow> error + unit" where
  "hex_check_self_consistency states =
     (case for_each (\<lambda>s0. for_each (\<lambda>s1.
               if pressure s0 \<noteq> pressure s1
               then Inl (ValueError ''For HamiltonianExchange, ThermodynamicState objects cannot have different pressures!'')
               else Inr ()) states) states of
        Inl e \<Rightarrow> Inl e
      | Inr _ \<Rightarrow>
          for_each (\<lambda>s0. for_each (\<lambda>s1.
               if temperature s0 \<noteq> temperature s1
               then Inl (ValueError ''For HamiltonianExchange, ThermodynamicState objects cannot have different temperatures!'')
               else Inr ()) states) states)"

text \<open>
  \<open>HamiltonianExchange.__init__\<close>: the check, then the constructor of the base class
  \<open>ReplicaExchange\<close>, which is a parameter here (\<open>base_init\<close>).
\<close>

definition hex_init ::
  "('s thermodynamic_state list \<Rightarrow> error + 'e) \<Rightarrow> 's thermodynamic_state list \<Rightarrow> error + 'e" where
  "hex_init base_init states =
     (case hex_check_self_consistency states of
        Inl e \<Rightarrow> Inl e
      | Inr _ \<Rightarrow> base_init states)"

section \<open>parallel\_tempering.py: \<open>IgnoreBarostat\<close>\<close>

text \<open>
  An OpenMM system is a number of particles and a list of forces. The one force the code
  singles out, by its class name, is \<open>MonteCarloBarostat\<close>, with its default pressure,
  its temperature and its random number seed; every other force is kept by a description.
  Systems are objects that the helper mutates in place through
  \<open>state.system.getForces()\<close>, and two thermodynamic states may hold the same system
  object: a state refers to its system by an address into a store.
\<close>

datatype force =
    MonteCarloBarostat real real int
  | OtherForce string

record openmm_system =
  particles :: nat
  forces :: "force list"

type_synonym address = nat
type_synonym store = "address \<Rightarrow> openmm_system"

fun is_barostat :: "force \<Rightarrow> bool" where
  "is_barostat (MonteCarloBarostat p t s) = True"
| "is_barostat (OtherForce d) = False"

text \<open>The counting loop of \<open>get_num_barostats\<close>.\<close>

fun count_barostats :: "force list \<Rightarrow> nat \<Rightarrow> nat" where
  "count_barostats [] num = num"
| "count_barostats (f # fs) num =
     (if is_barostat f then count_barostats fs (num + 1) else count_barostats fs num)"

definition get_num_barostats :: "store \<Rightarrow> address thermodynamic_state \<Rightarrow> error + nat" where
  "get_num_barostats h state =
     (let num_barostats = count_barostats (forces (h (system state))) 0
      in if num_barostats > 1 then Inl (ValueError ''Found multiple barostats!'')
         else Inr num_barostats)"

record IgnoreBarostat =
  num_barostats :: nat
  ib_thermodynamic_states :: "address thermodynamic_state list"
  temperatures :: "real list"
  seeds :: "int list"

text \<open>
  The loop of \<open>get_barostat_state\<close> leaves in \<open>temperature, seed\<close> the values of the last
  barostat it meets; they are unbound when it meets none.
\<close>

fun last_barostat_state :: "force list \<Rightarrow> (real \<times> int) option \<Rightarrow> (real \<times> int) option" where
  "last_barostat_state [] found = found"
| "last_barostat_state (MonteCarloBarostat p t s # fs) found = last_barostat_state fs (Some (t, s))"
| "last_barostat_state (OtherForce d # fs) found = last_barostat_state fs found"

definition get_barostat_state ::
  "IgnoreBarostat \<Rightarrow> store \<Rightarrow> address thermodynamic_state \<Rightarrow> error + (real \<times> int)" where
  "get_barostat_state self h state =
     (if num_barostats self \<le> 0 then Inl (ValueError ''Found no barostats!'')
      else case last_barostat_state (forces (h (system state))) None of
             None \<Rightarrow> Inl (UnboundLocalError ''temperature'')
           | Some ts \<Rightarrow> Inr ts)"

text \<open>\<open>f.setTemperature(temperature); f.setRandomNumberSeed(seed)\<close> on every barostat.\<close>

fun set_barostat_force :: "real \<Rightarrow> int \<Rightarrow> force \<Rightarrow> force" where
  "set_barostat_force t s (MonteCarloBarostat p t0 s0) = MonteCarloBarostat p t s"
| "set_barostat_force t s (OtherForce d) = OtherForce d"

definition set_barostat_system :: "real \<Rightarrow> int \<Rightarrow> openmm_system \<Rightarrow> openmm_system" where
  "set_barostat_system t s sys = sys\<lparr>forces := map (set_barostat_force t s) (forces sys)\<rparr>"

definition set_barostat_state ::
  "IgnoreBarostat \<Rightarrow> store \<Rightarrow> address thermodynamic_state \<Rightarrow> real \<Rightarrow> int \<Rightarrow> error + store" where
  "set_barostat_state self h state t s =
     (if num_barostats self \<le> 0 then Inl (ValueError ''Found no barostats!'')
      else Inr (h(system state := set_barostat_system t s (h (system state)))))"

text \<open>The list comprehension of \<open>__init__\<close>: the first state with several barostats raises.\<close>

fun map_num_barostats :: "store \<Rightarrow> address thermodynamic_state list \<Rightarrow> error + nat list" where
  "map_num_barostats h [] = Inr []"
| "map_num_barostats h (state # states) =
     (case get_num_barostats h state of
        Inl e \<Rightarrow> Inl e
      | Inr n \<Rightarrow> (case map_num_barostats h states of
                    Inl e \<Rightarrow> Inl e
                  | Inr ns \<Rightarrow> Inr (n # ns)))"

text \<open>
  \<open>IgnoreBarostat.__init__\<close>. numpy's \<open>min\<close> of an empty array raises \<open>ValueError\<close>; the
  \<open>assert\<close> wants the same number of barostats in every state.
\<close>

definition IgnoreBarostat_init ::
  "store \<Rightarrow> address thermodynamic_state list \<Rightarrow> error + IgnoreBarostat" where
  "IgnoreBarostat_init h states =
     (case map_num_barostats h states of
        Inl e \<Rightarrow> Inl e
      | Inr [] \<Rightarrow> Inl (ValueError ''zero-size array to reduction operation minimum which has no identity'')
      | Inr (n # ns) \<Rightarrow>
          if Min (set (n # ns)) \<noteq> Max (set (n # ns)) then Inl (AssertionError [])
          else Inr \<lparr>num_barostats = n, ib_thermodynamic_states = states,
                    temperatures = [], seeds = []\<rparr>)"

text \<open>
  The loop of \<open>__enter__\<close>: save the state's barostat temperature and seed, set both to 1,
  read them again for the log. The store is returned with the result, since an exception
  leaves behind what the loop has already changed.
\<close>

fun enter_loop ::
  "IgnoreBarostat \<Rightarrow> address thermodynamic_state list \<Rightarrow> store \<Rightarrow> (error + IgnoreBarostat) \<times> store" where
  "enter_loop self [] h = (Inr self, h)"
| "enter_loop self (state # states) h =
     (case get_barostat_state self h state of
        Inl e \<Rightarrow> (Inl e, h)
      | Inr (t, s) \<Rightarrow>
          (let self1 = self\<lparr>temperatures := temperatures self @ [t], seeds := seeds self @ [s]\<rparr>
           in case set_barostat_state self1 h state 1 1 of
                Inl e \<Rightarrow> (Inl e, h)
              | Inr h1 \<Rightarrow>
                  (case get_barostat_state self1 h1 state of
                     Inl e \<Rightarrow> (Inl e, h1)
                   | Inr _ \<Rightarrow> enter_loop self1 states h1)))"

definition IgnoreBarostat_enter :: "IgnoreBarostat \<Rightarrow> store \<Rightarrow> (error + IgnoreBarostat) \<times> store" where
  "IgnoreBarostat_enter self h =
     (let self0 = self\<lparr>temperatures := [], seeds := []\<rparr>
      in if num_barostats self0 > 0 then enter_loop self0 (ib_thermodynamic_states self0) h
         else (Inr self0, h))"

text \<open>The loop of \<open>__exit__\<close>, \<open>for k, state in enumerate(self.thermodynamic_states)\<close>.\<close>

fun exit_loop ::
  "IgnoreBarostat \<Rightarrow> nat \<Rightarrow> address thermodynamic_state list \<Rightarrow> store \<Rightarrow> (error + unit) \<times> store" where
  "exit_loop self k [] h = (Inr (), h)"
| "exit_loop self k (state # states) h =
     (if length (temperatures self) \<le> k \<or> length (seeds self) \<le> k then (Inl IndexError, h)
      else case set_barostat_state self h state (temperatures self ! k) (seeds self ! k) of
             Inl e \<Rightarrow> (Inl e, h)
           | Inr h1 \<Rightarrow> exit_loop self (k + 1) states h1)"

text \<open>\<open>__exit__\<close> returns \<open>False\<close>: an exception of the body is not suppressed.\<close>

definition IgnoreBarostat_exit :: "IgnoreBarostat \<Rightarrow> store \<Rightarrow> (error + bool) \<times> store" where
  "IgnoreBarostat_exit self h =
     (if num_barostats self > 0
      then (case exit_loop self 0 (ib_thermodynamic_states self) h of
              (Inl e, h1) \<Rightarrow> (Inl e, h1)
            | (Inr _, h1) \<Rightarrow> (Inr False, h1))
      else (Inr False, h))"

text \<open>
  \<open>with IgnoreBarostat(thermodynamic_states): body\<close>, as Python runs a \<open>with\<close> statement:
  the constructor, \<open>__enter__\<close>, the body, then \<open>__exit__\<close> whether the body raised or not;
  the body's exception goes on unless \<open>__exit__\<close> returns true. The bodies considered
  read the store and do not change it.
\<close>

definition with_IgnoreBarostat ::
  "store \<Rightarrow> address thermodynamic_state list \<Rightarrow> (store \<Rightarrow> error + unit) \<Rightarrow> (error + unit) \<times> store" where
  "with_IgnoreBarostat h states body =
     (case IgnoreBarostat_init h states of
        Inl e \<Rightarrow> (Inl e, h)
      | Inr self \<Rightarrow>
          (case IgnoreBarostat_enter self h of
             (Inl e, h1) \<Rightarrow> (Inl e, h1)
           | (Inr self1, h1) \<Rightarrow>
               (let r = body h1
                in case IgnoreBarostat_exit self1 h1 of
                     (Inl e, h2) \<Rightarrow> (Inl e, h2)
                   | (Inr suppress, h2) \<Rightarrow>
                       (case r of
                          Inl e \<Rightarrow> (if suppress then (Inr (), h2) else (Inl e, h2))
                        | Inr u \<Rightarrow> (Inr u, h2)))))"

section \<open>parallel\_tempering.py: \<open>ParallelTempering._check_self_consistency\<close>\<close>

text \<open>
  \<open>system.__getstate__()\<close> is the serialised system; two systems serialise to the same
  text exactly when they are the same system definition, so the model compares the
  systems themselves.
\<close>

definition pt_check_self_consistency ::
  "store \<Rightarrow> address thermodynamic_state list \<Rightarrow> (error + unit) \<times> store" where
  "pt_check_self_consistency h states =
     (case for_each (\<lambda>s0. for_each (\<lambda>s1.
               if pressure s0 \<noteq> pressure s1
               then Inl (ValueError ''For ParallelTempering, ThermodynamicState objects cannot have different pressures!'')
               else Inr ()) states) states of
        Inl e \<Rightarrow> (Inl e, h)
      | Inr _ \<Rightarrow>
          with_IgnoreBarostat h states (\<lambda>h1.
            for_each (\<lambda>s0. for_each (\<lambda>s1.
               if h1 (system s0) \<noteq> h1 (system s1)
               then Inl (ValueError ''For ParallelTempering, ThermodynamicState objects cannot have different systems!'')
               else Inr ()) states) states))"

text \<open>
  \<open>ParallelTempering.__init__\<close>: the check, then the constructor of \<open>ReplicaExchange\<close>
  (the parameter \<open>base_init\<close>).
\<close>

definition pt_init ::
  "(store \<Rightarrow> address thermodynamic_state list \<Rightarrow> (error + 'e) \<times> store)
    \<Rightarrow> store \<Rightarrow> address thermodynamic_state list \<Rightarrow> (error + 'e) \<times> store" where
  "pt_init base_init h states =
     (case pt_check_self_consistency h states of
        (Inl e, h1) \<Rightarrow> (Inl e, h1)
      | (Inr _, h1) \<Rightarrow> base_init h1 states)"

text \<open>
  A system "modulo barostat temperature and random seed": the system with both set to
  the sentinel 1, which is what \<open>set_barostat_state(state, 1, 1)\<close> makes of it.
\<close>

definition modulo_barostat :: "openmm_system \<Rightarrow> openmm_system" where
  "modulo_barostat sys = set_barostat_system 1 1 sys"

text \<open>
  The store after \<open>__enter__\<close>: the systems of the states in \<open>A\<close> with their barostat
  at the sentinel values. \<open>saved\<close> is the pair \<open>__enter__\<close> records for a state.
\<close>

definition normalised :: "address set \<Rightarrow> store \<Rightarrow> store" where
  "normalised A h = (\<lambda>a. if a \<in> A then modulo_barostat (h a) else h a)"

definition saved :: "store \<Rightarrow> address thermodynamic_state \<Rightarrow> real \<times> int" where
  "saved h state = the (last_barostat_state (forces (h (system state))) None)"

section \<open>Example inputs\<close>

text \<open>Two replicas at 300 K and 400 K with raw potential energies 100 and 120.\<close>

definition pt2 :: "nat replica_exchange" where
  "pt2 = \<lparr>n_states = 2,
     thermodynamic_states = [\<lparr>temperature = 300, pressure = None, system = 0\<rparr>,
                             \<lparr>temperature = 400, pressure = None, system = 1\<rparr>],
     sampler_states = [\<lparr>potential_energy = 100\<rparr>, \<lparr>potential_energy = 120\<rparr>],
     u_kl = [ [0, 0], [0, 0] ]\<rparr>"

text \<open>Two states at different temperatures for Hamiltonian exchange.\<close>

definition hex_states :: "unit thermodynamic_state list" where
  "hex_states = [\<lparr>temperature = 300, pressure = None, system = ()\<rparr>,
                 \<lparr>temperature = 400, pressure = None, system = ()\<rparr>]"

text \<open>Two NPT states whose systems differ in a force other than the barostat.\<close>

definition pt_store :: store where
  "pt_store = (\<lambda>a. if a = 0 then \<lparr>particles = 3, forces = [OtherForce ''HarmonicBondForce'', MonteCarloBarostat 1 300 7]\<rparr>
                    else \<lparr>particles = 3, forces = [OtherForce ''NonbondedForce'', MonteCarloBarostat 1 400 8]\<rparr>)"

definition pt_states :: "address thermodynamic_state list" where
  "pt_states = [\<lparr>temperature = 300, pressure = Some 1, system = 0\<rparr>,
                \<lparr>temperature = 400, pressure = Some 1, system = 1\<rparr>]"

text \<open>
  Two NPT states that hold the same system object (address 0), whose barostat is at
  300 K with seed 7.
\<close>

definition shared_store :: store where
  "shared_store = (\<lambda>a. \<lparr>particles = 3, forces = [OtherForce ''HarmonicBondForce'', MonteCarloBarostat 1 300 7]\<rparr>)"

definition shared_states :: "address thermodynamic_state list" where
  "shared_states = [\<lparr>temperature = 300, pressure = Some 1, system = 0\<rparr>,
                    \<lparr>temperature = 400, pressure = Some 1, system = 0\<rparr>]"

section \<open>parallel\_tempering.py: \<open>ParallelTempering.create\<close>\<close>

text \<open>
  The list comprehension that spaces \<open>n_temps\<close> temperatures exponentially between
  \<open>T_min\<close> and \<open>T_max\<close>:
  \<^verbatim>\<open>[T_min + (T_max - T_min) * (np.exp(float(i) / float(n_temps-1)) - 1.0) / (np.e - 1.0)
     for i in range(n_temps)]\<close>
  \<open>range(n_temps)\<close> is empty for \<open>n_temps \<le> 0\<close>; for \<open>n_temps = 1\<close> the division
  \<open>float(0) / float(0)\<close> raises \<open>ZeroDivisionError\<close>.
\<close>

definition ladder_temperature :: "real \<Rightarrow> real \<Rightarrow> int \<Rightarrow> nat \<Rightarrow> real" where
  "ladder_temperature T_min T_max n_temps i =
     T_min + (T_max - T_min) * (exp (real i / real_of_int (n_temps - 1)) - 1) / (exp 1 - 1)"

definition temperature_ladder :: "real \<Rightarrow> real \<Rightarrow> int \<Rightarrow> error + real list" where
  "temperature_ladder T_min T_max n_temps =
     (if n_temps \<le> 0 then Inr []
      else if n_temps - 1 = 0 then Inl ZeroDivisionError
      else Inr (map (ladder_temperature T_min T_max n_temps) [0..<nat n_temps]))"

text \<open>
  The first statement of \<open>create\<close>: the temperatures and their number, from the explicit
  list (the argument \<open>temperatures\<close>, here \<open>temps\<close>) or from the range. An argument left
  at its default \<open>None\<close> is \<open>None\<close> here.
\<close>

definition create_temperatures ::
  "real option \<Rightarrow> real option \<Rightarrow> real list option \<Rightarrow> int option \<Rightarrow> error + (real list \<times> int)" where
  "create_temperatures T_min T_max temps n_temps =
     (case temps of
        Some ts \<Rightarrow> Inr (ts, int (length ts))
      | None \<Rightarrow>
          (case (T_min, T_max, n_temps) of
             (Some lo, Some hi, Some n) \<Rightarrow>
               (case temperature_ladder lo hi n of
                  Inl e \<Rightarrow> Inl e
                | Inr ts \<Rightarrow> Inr (ts, n))
           | _ \<Rightarrow> Inl (ValueError ''Either 'temperatures' or 'T_min', 'T_max', and 'n_temps' must be provided.'')))"

text \<open>
  \<open>create\<close> then builds one \<open>ThermodynamicState\<close> per temperature, all on the system it
  was given (the constructor, of \<open>repex.thermodynamics\<close>, is taken to build the record and
  not to raise), and calls \<open>replica_exchange.validate_coordinates\<close>. No statement of the
  module binds a name \<open>replica_exchange\<close>: \<open>import repex.replica_exchange\<close> binds \<open>repex\<close>,
  and the other imports bind \<open>time\<close>, \<open>np\<close>, \<open>ThermodynamicState\<close>, \<open>ReplicaExchange\<close>,
  \<open>netcdf_io\<close>, \<open>SamplerState\<close>, \<open>logging\<close> and \<open>kB\<close>. The call raises \<open>NameError\<close>, and
  the statements after it (the database, the sampler states, the engine and
  \<open>_run_iteration_zero\<close>) are not reached.
\<close>

definition create ::
  "'s \<Rightarrow> 'c \<Rightarrow> string \<Rightarrow> real option \<Rightarrow> real option \<Rightarrow> real list option \<Rightarrow> int option
    \<Rightarrow> real option \<Rightarrow> error + 's replica_exchange" where
  "create sys coords filename T_min T_max temps n_temps press =
     (case create_temperatures T_min T_max temps n_temps of
        Inl e \<Rightarrow> Inl e
      | Inr (ts, n) \<Rightarrow>
          (let states = map (\<lambda>i. \<lparr>temperature = ts ! i, pressure = press, system = sys\<rparr>)
                          [0..<nat n]
           in Inl (NameError ''replica_exchange'')))"

section \<open>hdf\_io.py: \<open>HDF5MultiTrajectoryFile.write\<close>\<close>

text \<open>
  A numpy array: a number, or a sequence of arrays along the first axis. The arrays of a
  node of the file are kept as the list of their frames.
\<close>

datatype ndarray = Num real | Arr "ndarray list"

fun shape :: "ndarray \<Rightarrow> nat list" where
  "shape (Num x) = []"
| "shape (Arr []) = [0]"
| "shape (Arr (x # xs)) = Suc (length xs) # shape x"

fun frames :: "ndarray \<Rightarrow> ndarray list" where
  "frames (Num x) = [Num x]"
| "frames (Arr xs) = xs"

text \<open>
  The file object: the mode it was opened in, whether the headers are still to be
  written, the frame index, and the nodes under the root of the file by name. Attributes
  (units, conventions, title) are left out.
\<close>

record hdf5_file =
  mode :: string
  needs_initialization :: bool
  frame_index :: nat
  file_n_atoms :: nat
  nodes :: "string \<rightharpoonup> ndarray list"

text \<open>The arguments of \<open>write\<close>; all but \<open>coordinates\<close> default to \<open>None\<close>.\<close>

record write_args =
  coordinates :: ndarray
  time :: "ndarray option"
  cell_lengths :: "ndarray option"
  cell_angles :: "ndarray option"
  velocities :: "ndarray option"
  kineticEnergy :: "ndarray option"
  potentialEnergy :: "ndarray option"
  temperature_arg :: "ndarray option"
  alchemicalLambda :: "ndarray option"

text \<open>
  \<open>in_units_of\<close> and \<open>ensure_type\<close> come from \<open>mdtraj.utils\<close> and are parameters:
  \<open>in_units_of value units\<close> converts a value (\<open>None\<close> stays \<open>None\<close>), and
  \<open>ensure_type value ndim name shape can_be_none\<close> returns the checked array or raises.
  The prepared arguments are the converted and checked arrays with the number of frames
  and of atoms read off the shape of the coordinates.
\<close>

type_synonym in_units_of = "ndarray option \<Rightarrow> string \<Rightarrow> ndarray option"
type_synonym ensure_type =
  "ndarray option \<Rightarrow> nat \<Rightarrow> string \<Rightarrow> nat option list \<Rightarrow> bool \<Rightarrow> error + ndarray option"

record prepared =
  p_n_frames :: nat
  p_n_atoms :: nat
  p_fields :: "(string \<times> ndarray option) list"
  p_lambda :: "ndarray option"

text \<open>One optional per-frame field through \<open>ensure_type\<close>, then the remaining ones.\<close>

fun ensure_fields ::
  "ensure_type \<Rightarrow> (string \<times> ndarray option \<times> nat \<times> string \<times> nat option list) list
    \<Rightarrow> error + (string \<times> ndarray option) list" where
  "ensure_fields et [] = Inr []"
| "ensure_fields et ((field, val, ndim, name, shp) # rest) =
     (case et val ndim name shp True of
        Inl e \<Rightarrow> Inl e
      | Inr checked \<Rightarrow>
          (case ensure_fields et rest of
             Inl e \<Rightarrow> Inl e
           | Inr others \<Rightarrow> Inr ((field, checked) # others)))"

definition write_prepare :: "in_units_of \<Rightarrow> ensure_type \<Rightarrow> write_args \<Rightarrow> error + prepared" where
  "write_prepare iu et args =
     (case et (iu (Some (coordinates args)) ''nanometers'') 3 ''coordinates'' [None, None, Some 3] False of
        Inl e \<Rightarrow> Inl e
      | Inr None \<Rightarrow> Inl (AttributeError ''shape'')
      | Inr (Some coords) \<Rightarrow>
          (case shape coords of
             n_frames # n_atoms # _ \<Rightarrow>
               (case ensure_fields et
                  [(''time'', iu (time args) ''picoseconds'', 1, ''time'', [Some n_frames]),
                   (''cell_lengths'', iu (cell_lengths args) ''nanometers'', 2, ''cell_lengths'', [Some n_frames, Some 3]),
                   (''cell_angles'', iu (cell_angles args) ''degrees'', 2, ''cell_angles'', [Some n_frames, Some 3]),
                   (''velocities'', iu (velocities args) ''nanometers/picosecond'', 3, ''velocoties'',
                      [Some n_frames, Some n_atoms, Some 3]),
                   (''kineticEnergy'', iu (kineticEnergy args) ''kilojoules_per_mole'', 1, ''kineticEnergy'', [Some n_frames]),
                   (''potentialEnergy'', iu (potentialEnergy args) ''kilojoules_per_mole'', 1, ''potentialEnergy'', [Some n_frames]),
                   (''temperature'', iu (temperature_arg args) ''kelvin'', 1, ''temperature'', [Some n_frames]),
                   (''lambda'', iu (alchemicalLambda args) ''dimensionless'', 1, ''alchemicalLambda'', [Some n_frames])] of
                  Inl e \<Rightarrow> Inl e
                | Inr [t, cl, ca, v, ke, pe, te, la] \<Rightarrow>
                    Inr \<lparr>p_n_frames = n_frames, p_n_atoms = n_atoms,
                         p_fields = [(''coordinates'', Some coords), t, ca, cl, v, ke, pe, te],
                         p_lambda = snd la\<rparr>
                | Inr _ \<Rightarrow> Inl (ValueError []))
           | _ \<Rightarrow> Inl (ValueError ''need more than 1 value to unpack'')))"

text \<open>
  \<open>_initialize_headers\<close>: an empty extendable array for every field that is set. PyTables
  refuses to create a node that exists (\<open>NodeError\<close>); the nodes created before stay.
\<close>

fun create_earrays :: "string list \<Rightarrow> (string \<rightharpoonup> ndarray list) \<Rightarrow> (string \<rightharpoonup> ndarray list) \<times> error option" where
  "create_earrays [] ns = (ns, None)"
| "create_earrays (name # names) ns =
     (case ns name of
        Some _ \<Rightarrow> (ns, Some (NodeError name))
      | None \<Rightarrow> create_earrays names (ns(name \<mapsto> [])))"

definition initialize_headers :: "hdf5_file \<Rightarrow> nat \<Rightarrow> bool list \<Rightarrow> hdf5_file \<times> error option" where
  "initialize_headers self n_atoms flags =
     (case flags of
        [set_coordinates, set_time, set_cell, set_velocities, set_kineticEnergy,
         set_potentialEnergy, set_temperature, set_alchemicalLambda] \<Rightarrow>
          (case create_earrays
                  ((if set_coordinates then [''coordinates''] else [])
                   @ (if set_time then [''time''] else [])
                   @ (if set_cell then [''cell_lengths'', ''cell_angles''] else [])
                   @ (if set_velocities then [''velocities''] else [])
                   @ (if set_kineticEnergy then [''kineticEnergy''] else [])
                   @ (if set_potentialEnergy then [''potentialEnergy''] else [])
                   @ (if set_temperature then [''temperature''] else [])
                   @ (if set_alchemicalLambda then [''lambda''] else []))
                  (nodes self) of
             (ns, err) \<Rightarrow> (self\<lparr>file_n_atoms := n_atoms, nodes := ns\<rparr>, err))
      | _ \<Rightarrow> (self, Some (TypeError ''_initialize_headers() takes exactly 10 arguments'')))"

text \<open>
  The loop in the \<open>try\<close> block: a field that is given is appended to its node
  (\<open>NoSuchNodeError\<close> when the file has no such node), and a field that is not given must
  have no node in the file (\<open>AssertionError\<close> otherwise). What was appended before an
  exception stays appended.
\<close>

fun append_fields ::
  "(string \<times> ndarray option) list \<Rightarrow> (string \<rightharpoonup> ndarray list) \<Rightarrow> (string \<rightharpoonup> ndarray list) \<times> error option" where
  "append_fields [] ns = (ns, None)"
| "append_fields ((name, Some contents) # rest) ns =
     (case ns name of
        None \<Rightarrow> (ns, Some (NoSuchNodeError name))
      | Some node \<Rightarrow> append_fields rest (ns(name \<mapsto> node @ frames contents)))"
| "append_fields ((name, None) # rest) ns =
     (case ns name of
        Some _ \<Rightarrow> (ns, Some (AssertionError name))
      | None \<Rightarrow> append_fields rest ns)"

text \<open>The two \<open>except\<close> clauses turn both exceptions into a \<open>ValueError\<close> naming the field.\<close>

fun write_except :: "error \<Rightarrow> error" where
  "write_except (NoSuchNodeError name) =
     ValueError (''The file that you're trying to save to doesn't contain the field '' @ name)"
| "write_except (AssertionError name) =
     ValueError (''The file that you're saving to expects each frame to contain '' @ name @ '' information'')"
| "write_except e = e"

text \<open>
  \<open>write\<close> (here \<open>hdf5_write\<close>), under its decorator \<open>ensure_mode('w', 'a')\<close>. The file is
  returned with the exception, since an exception does not undo what was written before
  it.
\<close>

definition hdf5_write :: "in_units_of \<Rightarrow> ensure_type \<Rightarrow> hdf5_file \<Rightarrow> write_args \<Rightarrow> hdf5_file \<times> error option" where
  "hdf5_write iu et self args =
     (if mode self \<notin> {''w'', ''a''}
      then (self, Some (ValueError (''This operation is only available when a file is open in mode='' @ mode self)))
      else if cell_lengths args = None \<and> cell_angles args \<noteq> None
      then (self, Some (ValueError ''cell_lengths were given, but no cell_angles''))
      else if cell_lengths args \<noteq> None \<and> cell_angles args = None
      then (self, Some (ValueError ''cell_angles were given, but no cell_lengths''))
      else case write_prepare iu et args of
             Inl e \<Rightarrow> (self, Some e)
           | Inr p \<Rightarrow>
               (case (if needs_initialization self
                      then (case initialize_headers self (p_n_atoms p)
                                   (True # map (\<lambda>name. map_of (p_fields p) name \<notin> {None, Some None})
                                              [''time'']
                                    @ [map_of (p_fields p) ''cell_lengths'' \<notin> {None, Some None}
                                       \<or> map_of (p_fields p) ''cell_angles'' \<notin> {None, Some None}]
                                    @ map (\<lambda>name. map_of (p_fields p) name \<notin> {None, Some None})
                                        [''velocities'', ''kineticEnergy'', ''potentialEnergy'', ''temperature'']
                                    @ [p_lambda p \<noteq> None]) of
                              (self1, None) \<Rightarrow> (self1\<lparr>needs_initialization := False\<rparr>, None)
                            | (self1, Some e) \<Rightarrow> (self1, Some e))
                      else (self, None)) of
                  (self1, Some e) \<Rightarrow> (self1, Some e)
                | (self1, None) \<Rightarrow>
                    (case append_fields (p_fields p @ [(''lambda'', p_lambda p)]) (nodes self1) of
                       (ns, Some e) \<Rightarrow> (self1\<lparr>nodes := ns\<rparr>, Some (write_except e))
                     | (ns, None) \<Rightarrow>
                         (self1\<lparr>nodes := ns, frame_index := frame_index self1 + p_n_frames p\<rparr>, None))))"

text \<open>A file opened for writing and one frame of two atoms, with cell lengths only.\<close>

definition fresh_h5 :: hdf5_file where
  "fresh_h5 = \<lparr>mode = ''w'', needs_initialization = True, frame_index = 0, file_n_atoms = 0,
               nodes = Map.empty\<rparr>"

definition one_frame :: ndarray where
  "one_frame = Arr [Arr [Arr [Num 0, Num 0, Num 0], Arr [Num 1, Num 0, Num 0]]]"

definition lengths_only :: write_args where
  "lengths_only = \<lparr>coordinates = one_frame, time = None,
     cell_lengths = Some (Arr [Arr [Num 3, Num 3, Num 3]]), cell_angles = None,
     velocities = None, kineticEnergy = None, potentialEnergy = None, temperature_arg = None,
     alchemicalLambda = None\<rparr>"

definition plain_frame :: write_args where
  "plain_frame = lengths_only\<lparr>cell_lengths := None\<rparr>"

section \<open>netcdf\_io.py: the NetCDF dataset\<close>

text \<open>
  A Python float: a finite number, or one of the special values \<open>inf\<close>, \<open>-inf\<close> and
  \<open>nan\<close>. The rounding of finite numbers to doubles is not part of this type.
\<close>

datatype py_float = Finite real | PosInf | NegInf | NaN

text \<open>
  Python values that reach the database: options and the keyword arguments of
  \<open>output_iteration\<close>. A \<open>Quantity\<close> is a value with a unit of \<open>simtk.unit\<close>; the type of
  units is a parameter.
\<close>

datatype 'u py_value =
    PyNone
  | PyBool bool
  | PyInt int
  | PyFloat py_float
  | PyStr string
  | PyArray ndarray
  | Quantity "'u py_value" 'u

text \<open>
  A variable of the dataset has a type (\<open>'f'\<close> is a 32-bit float, \<open>'i'\<close> and \<open>'l'\<close> a 32-bit
  integer, \<open>str\<close> a string), named dimensions, and one row for each index along its first
  dimension, \<open>iteration\<close>, which is unlimited. A row that was never written reads as fill
  values.
\<close>

datatype nc_type = NC_FLOAT | NC_INT | NC_STRING

datatype nc_row = Numeric ndarray | Text string | Fill

record nc_variable =
  var_type :: nc_type
  var_dimensions :: "string list"
  var_data :: "nc_row list"

text \<open>
  The group \<open>thermodynamic_states\<close>: the variables \<open>n_states\<close>, \<open>temperatures\<close>,
  \<open>pressures\<close> (only written for NPT) and \<open>systems\<close>. A serialised system is kept as the
  system it describes.
\<close>

record 'sys states_group =
  sg_n_states :: int
  sg_temperatures :: "real list"
  sg_pressures :: "real list option"
  sg_systems :: "'sys list"

text \<open>
  A variable of the group \<open>options\<close>: a scalar with the attribute \<open>type\<close> and, for a
  quantity, the attribute \<open>units\<close>. The group keeps its variables in the order of their
  creation. The scalar is a 64-bit integer, a 64-bit float or a string.
\<close>

datatype nc_scalar = NcInt int | NcFloat py_float | NcStr string

record option_ncvar =
  ov_value :: nc_scalar
  ov_type :: string
  ov_units :: "string option"

record 'sys ncfile =
  dimensions :: "string \<rightharpoonup> nat"
  variables :: "string \<rightharpoonup> nc_variable"
  grp_thermodynamic_states :: "'sys states_group option"
  grp_options :: "(string \<times> option_ncvar) list option"
  grp_timings :: "(string \<rightharpoonup> nc_variable) option"

fun has_shape :: "nat list \<Rightarrow> ndarray \<Rightarrow> bool" where
  "has_shape [] (Num x) = True"
| "has_shape (n # ns) (Arr xs) = (length xs = n \<and> (\<forall>x \<in> set xs. has_shape ns x))"
| "has_shape [] (Arr xs) = False"
| "has_shape (n # ns) (Num x) = False"

fun cast_array :: "(real \<Rightarrow> real) \<Rightarrow> ndarray \<Rightarrow> ndarray" where
  "cast_array f (Num x) = Num (f x)"
| "cast_array f (Arr xs) = Arr (map (cast_array f) xs)"

fun full :: "nat list \<Rightarrow> real \<Rightarrow> ndarray" where
  "full [] x = Num x"
| "full (n # ns) x = Arr (replicate n (full ns x))"

definition dimension_size :: "'sys ncfile \<Rightarrow> string \<Rightarrow> nat" where
  "dimension_size nc d = (case dimensions nc d of Some n \<Rightarrow> n | None \<Rightarrow> 0)"

definition var_shape :: "'sys ncfile \<Rightarrow> nc_variable \<Rightarrow> nat list" where
  "var_shape nc var = map (dimension_size nc) (var_dimensions var)"

definition row_shape :: "'sys ncfile \<Rightarrow> nc_variable \<Rightarrow> nat list" where
  "row_shape nc var = tl (var_shape nc var)"

text \<open>A Python index against an axis of the given size: a negative index counts from the end.\<close>

definition nc_index :: "nat \<Rightarrow> int \<Rightarrow> error + nat" where
  "nc_index n i =
     (if 0 \<le> i then Inr (nat i)
      else if - i \<le> int n then Inr (nat (int n + i))
      else Inl IndexError)"

text \<open>
  What a variable stores for an assigned value: an array of the shape of a row, cast to
  the type of the variable; a scalar fills the row; a string goes to a string variable.
  \<open>f32\<close> is the rounding of a Python float to a 32-bit float. Integers are taken to fit
  their 32 bits, and numpy's broadcasting of arrays of another shape is not modelled (it
  is an error here). Arrays hold finite numbers, so a scalar \<open>inf\<close> or \<open>nan\<close> is not
  modelled either.
\<close>

definition nc_convert ::
  "(real \<Rightarrow> real) \<Rightarrow> nc_type \<Rightarrow> nat list \<Rightarrow> 'u py_value \<Rightarrow> error + nc_row" where
  "nc_convert f32 ty shp v =
     (case (ty, v) of
        (NC_FLOAT, PyArray a) \<Rightarrow>
          if has_shape shp a then Inr (Numeric (cast_array f32 a)) else Inl (ValueError ''shape mismatch'')
      | (NC_FLOAT, PyFloat (Finite x)) \<Rightarrow> Inr (Numeric (full shp (f32 x)))
      | (NC_FLOAT, PyFloat _) \<Rightarrow> Inl (Unmodelled ''a float that is not finite'')
      | (NC_FLOAT, PyInt i) \<Rightarrow> Inr (Numeric (full shp (f32 (real_of_int i))))
      | (NC_INT, PyArray a) \<Rightarrow>
          if has_shape shp a then Inr (Numeric a) else Inl (ValueError ''shape mismatch'')
      | (NC_INT, PyInt i) \<Rightarrow> Inr (Numeric (full shp (real_of_int i)))
      | (NC_STRING, PyStr s) \<Rightarrow>
          if shp = [] then Inr (Text s) else Inl (ValueError ''shape mismatch'')
      | _ \<Rightarrow> Inl (TypeError ''cannot store this value in the variable''))"

text \<open>
  \<open>ncfile.variables[name][iteration] = value\<close>. Writing at or beyond the size of the
  unlimited dimension grows it; the rows in between stay unwritten.
\<close>

definition nc_assign ::
  "(real \<Rightarrow> real) \<Rightarrow> 'sys ncfile \<Rightarrow> string \<Rightarrow> int \<Rightarrow> 'u py_value \<Rightarrow> error + 'sys ncfile" where
  "nc_assign f32 nc name i v =
     (case variables nc name of
        None \<Rightarrow> Inl (KeyError name)
      | Some var \<Rightarrow>
          (case nc_index (dimension_size nc ''iteration'') i of
             Inl e \<Rightarrow> Inl e
           | Inr idx \<Rightarrow>
               (case nc_convert f32 (var_type var) (row_shape nc var) v of
                  Inl e \<Rightarrow> Inl e
                | Inr row \<Rightarrow>
                    Inr (nc\<lparr>dimensions := (dimensions nc)
                               (''iteration'' \<mapsto> max (dimension_size nc ''iteration'') (idx + 1)),
                            variables := (variables nc)
                               (name \<mapsto> var\<lparr>var_data :=
                                  (var_data var @ replicate (idx + 1 - length (var_data var)) Fill)
                                    [idx := row]\<rparr>)\<rparr>))))"

text \<open>The default fill value of a netCDF float.\<close>

definition nc_fill_float :: real where
  "nc_fill_float = 9969209968386869 * 10 ^ 21"

text \<open>\<open>ncfile.variables[name][iteration]\<close> for a numeric variable: the row as an array.\<close>

definition nc_read :: "'sys ncfile \<Rightarrow> string \<Rightarrow> int \<Rightarrow> error + ndarray" where
  "nc_read nc name i =
     (case variables nc name of
        None \<Rightarrow> Inl (KeyError name)
      | Some var \<Rightarrow>
          (case nc_index (dimension_size nc ''iteration'') i of
             Inl e \<Rightarrow> Inl e
           | Inr idx \<Rightarrow>
               if dimension_size nc ''iteration'' \<le> idx then Inl IndexError
               else if length (var_data var) \<le> idx then Inr (full (row_shape nc var) nc_fill_float)
               else (case var_data var ! idx of
                       Numeric a \<Rightarrow> Inr a
                     | Fill \<Rightarrow> Inr (full (row_shape nc var) nc_fill_float)
                     | Text s \<Rightarrow> Inl (TypeError ''string row''))))"

section \<open>netcdf\_io.py: \<open>NetCDFDatabase.output_iteration\<close>\<close>

definition required_keys :: "string list" where
  "required_keys = [''iteration'', ''coordinates'', ''box_vectors'', ''volumes'',
     ''replica_states'', ''energies'', ''proposed'', ''accepted'', ''time'']"

text \<open>
  The assignments of \<open>output_iteration\<close>, in their order; the first exception ends them.
  Each assignment writes to the file at once, so an exception leaves in the file what the
  assignments before it have written: the result is then the exception together with the
  dataset at that point.
\<close>

fun assign_all ::
  "(real \<Rightarrow> real) \<Rightarrow> 'sys ncfile \<Rightarrow> int \<Rightarrow> (string \<times> 'u py_value) list
    \<Rightarrow> (error \<times> 'sys ncfile) + 'sys ncfile" where
  "assign_all f32 nc i [] = Inr nc"
| "assign_all f32 nc i ((name, v) # rest) =
     (case nc_assign f32 nc name i v of
        Inl e \<Rightarrow> Inl (e, nc)
      | Inr nc1 \<Rightarrow> assign_all f32 nc1 i rest)"

definition output_iteration ::
  "(real \<Rightarrow> real) \<Rightarrow> 'sys ncfile \<Rightarrow> (string \<rightharpoonup> 'u py_value) \<Rightarrow> (error \<times> 'sys ncfile) + 'sys ncfile" where
  "output_iteration f32 nc kwargs =
     (if set required_keys \<noteq> dom kwargs
      then Inl (AssertionError ''Wrong keys provided to output_iteration!'', nc)
      else case the (kwargs ''iteration'') of
             PyInt i \<Rightarrow>
               assign_all f32 nc i
                 [(''positions'', the (kwargs ''coordinates'')),
                  (''box_vectors'', the (kwargs ''box_vectors'')),
                  (''volumes'', the (kwargs ''volumes'')),
                  (''states'', the (kwargs ''replica_states'')),
                  (''energies'', the (kwargs ''energies'')),
                  (''proposed'', the (kwargs ''proposed'')),
                  (''accepted'', the (kwargs ''accepted'')),
                  (''timestamp'', the (kwargs ''time''))]
           | _ \<Rightarrow> Inl (TypeError ''iteration is not an integer'', nc))"

section \<open>netcdf\_io.py: \<open>NetCDFDatabase._load_last_iteration\<close>\<close>

text \<open>
  \<open>variables[name][iteration, replica_index, :, :]\<close> for each replica in turn; the
  conversion to 64-bit floats changes no value.
\<close>

fun read_replicas :: "'sys ncfile \<Rightarrow> string \<Rightarrow> int \<Rightarrow> nat list \<Rightarrow> error + ndarray list" where
  "read_replicas nc name i [] = Inr []"
| "read_replicas nc name i (replica_index # rest) =
     (case nc_read nc name i of
        Inl e \<Rightarrow> Inl e
      | Inr (Num x) \<Rightarrow> Inl IndexError
      | Inr (Arr xs) \<Rightarrow>
          if length xs \<le> replica_index then Inl IndexError
          else (case read_replicas nc name i rest of
                  Inl e \<Rightarrow> Inl e
                | Inr others \<Rightarrow> Inr (xs ! replica_index # others)))"

definition load_last_iteration ::
  "'sys ncfile \<Rightarrow> error + (ndarray list \<times> ndarray list \<times> ndarray \<times> int)" where
  "load_last_iteration nc =
     (case variables nc ''positions'' of
        None \<Rightarrow> Inl (KeyError ''positions'')
      | Some positions \<Rightarrow>
          (case var_shape nc positions of
             n_iterations # n_replicas # n_atoms # _ \<Rightarrow>
               (let iteration = int n_iterations - 1
                in case read_replicas nc ''positions'' iteration [0..<n_replicas] of
                     Inl e \<Rightarrow> Inl e
                   | Inr replica_coordinates \<Rightarrow>
                       (case read_replicas nc ''box_vectors'' iteration [0..<n_replicas] of
                          Inl e \<Rightarrow> Inl e
                        | Inr replica_box_vectors \<Rightarrow>
                            (case nc_read nc ''states'' iteration of
                               Inl e \<Rightarrow> Inl e
                             | Inr replica_states \<Rightarrow>
                                 (case nc_read nc ''energies'' iteration of
                                    Inl e \<Rightarrow> Inl e
                                  | Inr energies \<Rightarrow>
                                      Inr (replica_coordinates, replica_box_vectors, energies,
                                           iteration + 1)))))
           | _ \<Rightarrow> Inl IndexError))"

text \<open>
  The time series that \<open>_initialize_netcdf\<close> creates, for a dataset of the given numbers
  of replicas and atoms.
\<close>

definition series :: "(string \<times> nc_type \<times> string list) list" where
  "series =
     [(''positions'', NC_FLOAT, [''iteration'', ''replica'', ''atom'', ''spatial'']),
      (''states'', NC_INT, [''iteration'', ''replica'']),
      (''energies'', NC_FLOAT, [''iteration'', ''replica'', ''replica'']),
      (''proposed'', NC_INT, [''iteration'', ''replica'', ''replica'']),
      (''accepted'', NC_INT, [''iteration'', ''replica'', ''replica'']),
      (''box_vectors'', NC_FLOAT, [''iteration'', ''replica'', ''spatial'', ''spatial'']),
      (''volumes'', NC_FLOAT, [''iteration'', ''replica'']),
      (''timestamp'', NC_STRING, [''iteration''])]"

definition repex_dataset :: "'sys ncfile \<Rightarrow> nat \<Rightarrow> nat \<Rightarrow> bool" where
  "repex_dataset nc n_replicas n_atoms \<longleftrightarrow>
     dimensions nc ''replica'' = Some n_replicas
   \<and> dimensions nc ''atom'' = Some n_atoms
   \<and> dimensions nc ''spatial'' = Some 3
   \<and> list_all (\<lambda>(name, ty, dims).
        case variables nc name of
          None \<Rightarrow> False
        | Some var \<Rightarrow> var_type var = ty \<and> var_dimensions var = dims) series"

section \<open>netcdf\_io.py: options\<close>

definition options_to_store :: "string list" where
  "options_to_store = [''collision_rate'', ''constraint_tolerance'', ''timestep'',
     ''nsteps_per_iteration'', ''number_of_iterations'', ''equilibration_timestep'',
     ''number_of_equilibration_iterations'', ''title'', ''minimize'', ''replica_mixing_scheme'',
     ''online_analysis'', ''show_mixing_statistics'']"

text \<open>
  One turn of the loop of \<open>_store_options\<close>, for the value \<open>self.options.get(option_name)\<close>.
  A quantity is divided by its unit, which leaves its value, and the unit is kept; the
  Python type is taken after that; a boolean is stored as an integer; then the variable is
  created with the type of the value (netCDF has a type for \<open>int\<close>, \<open>float\<close> and \<open>str\<close>
  and none for \<open>NoneType\<close>, an array or a quantity: \<open>createVariable\<close> raises), and gets
  the attributes \<open>units\<close> (for a quantity) and \<open>type\<close>. \<open>unit_str\<close> is \<open>str\<close> on units.
  The variable of an integer has 64 bits: \<open>assignValue\<close> raises \<open>OverflowError\<close> for an
  integer that does not fit them. The variable of a float is a double, which holds every
  Python float, \<open>inf\<close> and \<open>nan\<close> included.
\<close>

definition strip_units :: "'u py_value \<Rightarrow> 'u py_value \<times> 'u option" where
  "strip_units option_value =
     (case option_value of
        Quantity v u \<Rightarrow> (v, Some u)
      | _ \<Rightarrow> (option_value, None))"

definition int64 :: "int \<Rightarrow> bool" where
  "int64 i \<longleftrightarrow> - (2 ^ 63) \<le> i \<and> i < 2 ^ 63"

definition store_option :: "('u \<Rightarrow> string) \<Rightarrow> 'u py_value \<Rightarrow> error + option_ncvar" where
  "store_option unit_str option_value0 =
     (case strip_units option_value0 of
        (option_value, option_unit) \<Rightarrow>
          (case option_value of
             PyBool b \<Rightarrow>
               Inr \<lparr>ov_value = NcInt (if b then 1 else 0), ov_type = ''bool'',
                    ov_units = map_option unit_str option_unit\<rparr>
           | PyInt i \<Rightarrow>
               if int64 i
               then Inr \<lparr>ov_value = NcInt i, ov_type = ''int'',
                         ov_units = map_option unit_str option_unit\<rparr>
               else Inl (OverflowError ''Python int too large to convert to C long'')
           | PyFloat x \<Rightarrow>
               Inr \<lparr>ov_value = NcFloat x, ov_type = ''float'', ov_units = map_option unit_str option_unit\<rparr>
           | PyStr s \<Rightarrow>
               Inr \<lparr>ov_value = NcStr s, ov_type = ''str'', ov_units = map_option unit_str option_unit\<rparr>
           | _ \<Rightarrow> Inl (TypeError ''illegal primitive data type'')))"

fun store_options_loop ::
  "('u \<Rightarrow> string) \<Rightarrow> (string \<rightharpoonup> 'u py_value) \<Rightarrow> string list \<Rightarrow> error + (string \<times> option_ncvar) list" where
  "store_options_loop unit_str opts [] = Inr []"
| "store_options_loop unit_str opts (option_name # names) =
     (case store_option unit_str (case opts option_name of None \<Rightarrow> PyNone | Some v \<Rightarrow> v) of
        Inl e \<Rightarrow> Inl e
      | Inr ncvar \<Rightarrow>
          (case store_options_loop unit_str opts names of
             Inl e \<Rightarrow> Inl e
           | Inr ncvars \<Rightarrow> Inr ((option_name, ncvar) # ncvars)))"

text \<open>\<open>_store_options\<close>: the dimension \<open>scalar\<close>, the group \<open>options\<close> and its variables.\<close>

definition store_options ::
  "('u \<Rightarrow> string) \<Rightarrow> (string \<rightharpoonup> 'u py_value) \<Rightarrow> 'sys ncfile \<Rightarrow> error + 'sys ncfile" where
  "store_options unit_str opts nc =
     (case store_options_loop unit_str opts options_to_store of
        Inl e \<Rightarrow> Inl e
      | Inr ncvars \<Rightarrow>
          Inr (nc\<lparr>dimensions := (if ''scalar'' \<in> dom (dimensions nc) then dimensions nc
                                  else (dimensions nc)(''scalar'' \<mapsto> 1)),
                  grp_options := Some ncvars\<rparr>))"

text \<open>
  \<open>eval(type_name + '(' + repr(option_value) + ')')\<close>: the text is evaluated as Python
  source. The name of the attribute \<open>type\<close> is looked up first: \<open>_store_options\<close> writes
  the names \<open>int\<close>, \<open>float\<close>, \<open>bool\<close> and \<open>str\<close>, and another name is taken to be
  unbound. Then the argument is evaluated: \<open>repr\<close> prints a finite number as a literal
  that denotes it, but it prints the floats that are not finite as \<open>inf\<close>, \<open>-inf\<close> and
  \<open>nan\<close>, which Python reads as names, and no such name is bound in the module: the
  evaluation raises \<open>NameError\<close>. Last the constructor is applied. Python's parsing of a
  string as a number, its printing of a number as a string and its rounding of a large
  integer to a float are not reproduced: these combinations, which \<open>_store_options\<close>
  never writes, give \<open>Unmodelled\<close>.
\<close>

definition py_construct :: "string \<Rightarrow> nc_scalar \<Rightarrow> error + 'u py_value" where
  "py_construct type_name v =
     (if type_name \<noteq> ''int'' \<and> type_name \<noteq> ''float'' \<and> type_name \<noteq> ''bool'' \<and> type_name \<noteq> ''str''
      then Inl (NameError type_name)
      else case v of
             NcFloat PosInf \<Rightarrow> Inl (NameError ''inf'')
           | NcFloat NegInf \<Rightarrow> Inl (NameError ''inf'')
           | NcFloat NaN \<Rightarrow> Inl (NameError ''nan'')
           | NcFloat (Finite x) \<Rightarrow>
               if type_name = ''int'' then Inr (PyInt (if 0 \<le> x then \<lfloor>x\<rfloor> else \<lceil>x\<rceil>))
               else if type_name = ''float'' then Inr (PyFloat (Finite x))
               else if type_name = ''bool'' then Inr (PyBool (x \<noteq> 0))
               else Inl (Unmodelled ''str(number)'')
           | NcInt i \<Rightarrow>
               if type_name = ''int'' then Inr (PyInt i)
               else if type_name = ''float'' then
                 (if \<bar>i\<bar> \<le> 2 ^ 53 then Inr (PyFloat (Finite (real_of_int i)))
                  else Inl (Unmodelled ''float(large int)''))
               else if type_name = ''bool'' then Inr (PyBool (i \<noteq> 0))
               else Inl (Unmodelled ''str(number)'')
           | NcStr s \<Rightarrow>
               if type_name = ''str'' then Inr (PyStr s)
               else if type_name = ''bool'' then Inr (PyBool (s \<noteq> []))
               else Inl (Unmodelled ''number(str)''))"

text \<open>
  One turn of the loop of \<open>load_options\<close>. \<open>eval_unit\<close> is \<open>eval(name, vars(units))\<close>, the
  unit that an expression over the unit names of \<open>simtk.unit\<close> denotes. A name that
  starts with \<open>/\<close> gets a \<open>1\<close> in front; indexing an empty name raises \<open>IndexError\<close>.
\<close>

definition load_option :: "(string \<Rightarrow> error + 'u) \<Rightarrow> option_ncvar \<Rightarrow> error + 'u py_value" where
  "load_option eval_unit option_ncvar =
     (case py_construct (ov_type option_ncvar) (ov_value option_ncvar) of
        Inl e \<Rightarrow> Inl e
      | Inr option_value \<Rightarrow>
          (case ov_units option_ncvar of
             None \<Rightarrow> Inr option_value
           | Some option_unit_name \<Rightarrow>
               (case option_unit_name of
                  [] \<Rightarrow> Inl IndexError
                | c # cs \<Rightarrow>
                    (case eval_unit (if c = CHR ''/'' then CHR ''1'' # option_unit_name
                                     else option_unit_name) of
                       Inl e \<Rightarrow> Inl e
                     | Inr option_unit \<Rightarrow> Inr (Quantity option_value option_unit)))))"

fun load_options_loop ::
  "(string \<Rightarrow> error + 'u) \<Rightarrow> (string \<times> option_ncvar) list \<Rightarrow> (string \<rightharpoonup> 'u py_value)
    \<Rightarrow> error + (string \<rightharpoonup> 'u py_value)" where
  "load_options_loop eval_unit [] opts = Inr opts"
| "load_options_loop eval_unit ((option_name, option_ncvar) # rest) opts =
     (case load_option eval_unit option_ncvar of
        Inl e \<Rightarrow> Inl e
      | Inr option_value \<Rightarrow> load_options_loop eval_unit rest (opts(option_name \<mapsto> option_value)))"

definition load_options ::
  "(string \<Rightarrow> error + 'u) \<Rightarrow> 'sys ncfile \<Rightarrow> error + (string \<rightharpoonup> 'u py_value)" where
  "load_options eval_unit nc =
     (case grp_options nc of
        None \<Rightarrow> Inl (ValueError ''Options not found in NetCDF file!'')
      | Some ncvars \<Rightarrow> load_options_loop eval_unit ncvars Map.empty)"

text \<open>
  The option values that survive: an integer of 64 bits, a finite float, a boolean, a
  string, or a quantity of one of these with a unit whose name, as \<open>load_options\<close> reads
  it, denotes that unit again.
\<close>

fun plain_scalar :: "'u py_value \<Rightarrow> bool" where
  "plain_scalar (PyBool b) = True"
| "plain_scalar (PyInt i) = int64 i"
| "plain_scalar (PyFloat (Finite x)) = True"
| "plain_scalar (PyStr s) = True"
| "plain_scalar _ = False"

definition unit_round_trips :: "('u \<Rightarrow> string) \<Rightarrow> (string \<Rightarrow> error + 'u) \<Rightarrow> 'u \<Rightarrow> bool" where
  "unit_round_trips unit_str eval_unit u \<longleftrightarrow>
     (case unit_str u of
        [] \<Rightarrow> False
      | c # cs \<Rightarrow> eval_unit (if c = CHR ''/'' then CHR ''1'' # c # cs else c # cs) = Inr u)"

fun storable :: "('u \<Rightarrow> string) \<Rightarrow> (string \<Rightarrow> error + 'u) \<Rightarrow> 'u py_value \<Rightarrow> bool" where
  "storable unit_str eval_unit (Quantity v u) = (plain_scalar v \<and> unit_round_trips unit_str eval_unit u)"
| "storable unit_str eval_unit v = plain_scalar v"

section \<open>netcdf\_io.py: thermodynamic states\<close>

text \<open>
  \<open>_store_thermodynamic_states\<close>. Temperatures and pressures are stored as 32-bit floats.
  The pressures are stored when the first state has one; a state without a pressure then
  has \<open>None\<close> divided by a unit, a \<open>TypeError\<close>.
\<close>

fun store_pressures :: "(real \<Rightarrow> real) \<Rightarrow> 'sys thermodynamic_state list \<Rightarrow> error + real list" where
  "store_pressures f32 [] = Inr []"
| "store_pressures f32 (state # states) =
     (case pressure state of
        None \<Rightarrow> Inl (TypeError ''unsupported operand type(s) for /: NoneType and Unit'')
      | Some p \<Rightarrow>
          (case store_pressures f32 states of
             Inl e \<Rightarrow> Inl e
           | Inr ps \<Rightarrow> Inr (f32 p # ps)))"

definition store_thermodynamic_states ::
  "(real \<Rightarrow> real) \<Rightarrow> 'sys thermodynamic_state list \<Rightarrow> 'sys ncfile \<Rightarrow> error + 'sys ncfile" where
  "store_thermodynamic_states f32 states nc =
     (case states of
        [] \<Rightarrow> Inl IndexError
      | state0 # _ \<Rightarrow>
          (case (if pressure state0 \<noteq> None
                 then (case store_pressures f32 states of
                         Inl e \<Rightarrow> Inl e
                       | Inr ps \<Rightarrow> Inr (Some ps))
                 else Inr None) of
             Inl e \<Rightarrow> Inl e
           | Inr ps \<Rightarrow>
               Inr (nc\<lparr>grp_thermodynamic_states :=
                     Some \<lparr>sg_n_states = int (length states),
                           sg_temperatures = map (\<lambda>s. f32 (temperature s)) states,
                           sg_pressures = ps,
                           sg_systems = map system states\<rparr>\<rparr>)))"

text \<open>\<open>load_thermodynamic_states\<close>: one state for each index in \<open>range(n_states)\<close>.\<close>

fun load_states_loop :: "'sys states_group \<Rightarrow> nat list \<Rightarrow> error + 'sys thermodynamic_state list" where
  "load_states_loop grp [] = Inr []"
| "load_states_loop grp (state_index # rest) =
     (if length (sg_temperatures grp) \<le> state_index then Inl IndexError
      else case (case sg_pressures grp of
                   None \<Rightarrow> Inr None
                 | Some ps \<Rightarrow> if length ps \<le> state_index then Inl IndexError
                              else Inr (Some (ps ! state_index))) of
             Inl e \<Rightarrow> Inl e
           | Inr p \<Rightarrow>
               if length (sg_systems grp) \<le> state_index then Inl IndexError
               else (case load_states_loop grp rest of
                       Inl e \<Rightarrow> Inl e
                     | Inr states \<Rightarrow>
                         Inr (\<lparr>temperature = sg_temperatures grp ! state_index, pressure = p,
                               system = sg_systems grp ! state_index\<rparr> # states)))"

definition load_thermodynamic_states :: "'sys ncfile \<Rightarrow> error + 'sys thermodynamic_state list" where
  "load_thermodynamic_states nc =
     (case grp_thermodynamic_states nc of
        None \<Rightarrow> Inl (ValueError ''thermodynamics_states not found in database!'')
      | Some grp \<Rightarrow> load_states_loop grp [0..<nat (sg_n_states grp)])"

section \<open>netcdf\_io.py: \<open>NetCDFDatabase\<close>\<close>

text \<open>The attributes of the database object that the constructor sets.\<close>

record ('sys, 'u) NetCDFDatabase =
  db_options :: "string \<rightharpoonup> 'u py_value"
  db_ncfile :: "'sys ncfile"
  db_title :: string
  db_thermodynamic_states :: "'sys thermodynamic_state list"
  db_coordinates :: "ndarray list"
  db_replica_box_vectors :: "ndarray list"
  db_u_kl :: "ndarray option"
  db_iteration :: "int option"

text \<open>
  \<open>restore_database\<close>: the thermodynamic states, the options, then the last iteration.
\<close>

definition restore_database ::
  "(string \<Rightarrow> error + 'u) \<Rightarrow> ('sys, 'u) NetCDFDatabase \<Rightarrow> error + ('sys, 'u) NetCDFDatabase" where
  "restore_database eval_unit self =
     (case load_thermodynamic_states (db_ncfile self) of
        Inl e \<Rightarrow> Inl e
      | Inr states \<Rightarrow>
          (case load_options eval_unit (db_ncfile self) of
             Inl e \<Rightarrow> Inl e
           | Inr opts \<Rightarrow>
               (case load_last_iteration (db_ncfile self) of
                  Inl e \<Rightarrow> Inl e
                | Inr (replica_coordinates, replica_box_vectors, energies, iteration) \<Rightarrow>
                    Inr (self\<lparr>db_thermodynamic_states := states, db_options := opts,
                              db_coordinates := replica_coordinates,
                              db_replica_box_vectors := replica_box_vectors,
                              db_u_kl := Some energies, db_iteration := Some iteration\<rparr>))))"

text \<open>
  \<open>_initialize_netcdf\<close>: the dimensions, the time series (all empty), the group of
  timings, the thermodynamic states and the options. \<open>len(self.coordinates[0])\<close> is the
  number of atoms.
\<close>

definition empty_variable :: "nc_type \<Rightarrow> string list \<Rightarrow> nc_variable" where
  "empty_variable ty dims = \<lparr>var_type = ty, var_dimensions = dims, var_data = []\<rparr>"

definition initialize_netcdf ::
  "(real \<Rightarrow> real) \<Rightarrow> ('u \<Rightarrow> string) \<Rightarrow> ('sys, 'u) NetCDFDatabase \<Rightarrow> error + ('sys, 'u) NetCDFDatabase" where
  "initialize_netcdf f32 unit_str self =
     (case db_coordinates self of
        [] \<Rightarrow> Inl IndexError
      | Num x # _ \<Rightarrow> Inl (TypeError ''len() of unsized object'')
      | Arr atoms # _ \<Rightarrow>
          if length (db_thermodynamic_states self) \<noteq> length (db_coordinates self)
          then Inl (AssertionError ''Error: inconsistent number of replicas.'')
          else
            (let nc = (db_ncfile self)
                   \<lparr>dimensions := (dimensions (db_ncfile self))
                      (''iteration'' \<mapsto> 0, ''replica'' \<mapsto> length (db_thermodynamic_states self),
                       ''atom'' \<mapsto> length atoms, ''spatial'' \<mapsto> 3),
                    variables := (variables (db_ncfile self)) ++
                      map_of (map (\<lambda>(name, ty, dims). (name, empty_variable ty dims)) series),
                    grp_timings := Some
                      [''iteration'' \<mapsto> empty_variable NC_FLOAT [''iteration''],
                       ''mixing'' \<mapsto> empty_variable NC_FLOAT [''iteration''],
                       ''propagate'' \<mapsto> empty_variable NC_FLOAT [''iteration'', ''replica'']]\<rparr>
             in case store_thermodynamic_states f32 (db_thermodynamic_states self) nc of
                  Inl e \<Rightarrow> Inl e
                | Inr nc1 \<Rightarrow>
                    (case store_options unit_str (db_options self) nc1 of
                       Inl e \<Rightarrow> Inl e
                     | Inr nc2 \<Rightarrow> Inr (self\<lparr>db_ncfile := nc2\<rparr>))))"

text \<open>\<open>initialize_database\<close>; \<open>None\<close> for an argument that is not given.\<close>

definition initialize_database ::
  "(real \<Rightarrow> real) \<Rightarrow> ('u \<Rightarrow> string) \<Rightarrow> ('sys, 'u) NetCDFDatabase
    \<Rightarrow> 'sys thermodynamic_state list option \<Rightarrow> ndarray list option
    \<Rightarrow> error + ('sys, 'u) NetCDFDatabase" where
  "initialize_database f32 unit_str self states coords =
     (case (states, coords) of
        (Some sts, Some cs) \<Rightarrow>
          initialize_netcdf f32 unit_str (self\<lparr>db_thermodynamic_states := sts, db_coordinates := cs\<rparr>)
      | _ \<Rightarrow> Inl (ValueError ''Cannot create database without inputting states and coordinates''))"

text \<open>
  What the file name leads to: no file, an empty file, a file that is not a NetCDF
  dataset, or a dataset.
\<close>

datatype 'sys disk_file = Absent | EmptyFile | NotNetCDF | Dataset "'sys ncfile"

definition empty_dataset :: "'sys ncfile" where
  "empty_dataset = \<lparr>dimensions = Map.empty, variables = Map.empty,
     grp_thermodynamic_states = None, grp_options = None, grp_timings = None\<rparr>"

text \<open>
  \<open>NetCDFDatabase.__init__\<close>. \<open>process_kwargs\<close> (of \<open>utils\<close>) and
  \<open>ThermodynamicState.is_compatible_with\<close> are parameters. The check of the ensemble comes
  last, after the file has been restored or initialised.
\<close>

definition NetCDFDatabase_init ::
  "(real \<Rightarrow> real) \<Rightarrow> ('u \<Rightarrow> string) \<Rightarrow> (string \<Rightarrow> error + 'u)
    \<Rightarrow> ((string \<rightharpoonup> 'u py_value) \<Rightarrow> (string \<rightharpoonup> 'u py_value))
    \<Rightarrow> ('sys thermodynamic_state \<Rightarrow> 'sys thermodynamic_state \<Rightarrow> bool)
    \<Rightarrow> 'sys disk_file \<Rightarrow> 'sys thermodynamic_state list option \<Rightarrow> ndarray list option
    \<Rightarrow> (string \<rightharpoonup> 'u py_value) \<Rightarrow> error + ('sys, 'u) NetCDFDatabase" where
  "NetCDFDatabase_init f32 unit_str eval_unit process_kwargs is_compatible_with file states coords kwargs =
     (let opts = process_kwargs kwargs;
          resume = (case file of Absent \<Rightarrow> False | EmptyFile \<Rightarrow> False | _ \<Rightarrow> True)
      in case (if resume
               then (if \<not> (states = None \<and> coords = None)
                     then Inl (AssertionError ''Cannot input states and coordinates if you are resuming from disk.'')
                     else (case file of
                             Dataset nc \<Rightarrow> Inr nc
                           | _ \<Rightarrow> Inl (IOError ''NetCDF: Unknown file format'')))
               else (if \<not> (states \<noteq> None \<and> coords \<noteq> None)
                     then Inl (AssertionError ''Must input states and coordinates if no existing database.'')
                     else if length (the states) \<noteq> length (the coords)
                     then Inl (AssertionError ''Must have same number of states and coordinate sets.'')
                     else Inr empty_dataset)) of
           Inl e \<Rightarrow> Inl e
         | Inr nc \<Rightarrow>
             (let self = \<lparr>db_options = opts, db_ncfile = nc, db_title = ''No Title.'',
                          db_thermodynamic_states = [], db_coordinates = [],
                          db_replica_box_vectors = [], db_u_kl = None, db_iteration = None\<rparr>
              in case (if resume then restore_database eval_unit self
                       else initialize_database f32 unit_str self states coords) of
                   Inl e \<Rightarrow> Inl e
                 | Inr self1 \<Rightarrow>
                     (case for_each (\<lambda>state.
                              if \<not> is_compatible_with state (hd (db_thermodynamic_states self1))
                              then Inl (ValueError ''Provided ThermodynamicState states must all be from the same thermodynamic ensemble.'')
                              else Inr ()) (db_thermodynamic_states self1) of
                        Inl e \<Rightarrow> Inl e
                      | Inr _ \<Rightarrow> Inr self1)))"

section \<open>Example options\<close>

text \<open>
  Units named by strings, with an evaluation that reads \<open>1/x\<close> as the unit \<open>/x\<close>, and a
  table of options with quantities, numbers, booleans and strings.
\<close>

definition example_eval_unit :: "string \<Rightarrow> error + string" where
  "example_eval_unit name =
     (case name of
        c1 # c2 # cs \<Rightarrow> if c1 = CHR ''1'' \<and> c2 = CHR ''/'' then Inr (c2 # cs) else Inr name
      | _ \<Rightarrow> Inr name)"

definition example_options :: "string \<rightharpoonup> string py_value" where
  "example_options =
     [''collision_rate'' \<mapsto> Quantity (PyFloat (Finite 20)) ''/picosecond'',
      ''constraint_tolerance'' \<mapsto> PyFloat (Finite (1 / 100000)),
      ''timestep'' \<mapsto> Quantity (PyFloat (Finite 2)) ''femtosecond'',
      ''nsteps_per_iteration'' \<mapsto> PyInt 500,
      ''number_of_iterations'' \<mapsto> PyInt 10,
      ''equilibration_timestep'' \<mapsto> Quantity (PyFloat (Finite 1)) ''femtosecond'',
      ''number_of_equilibration_iterations'' \<mapsto> PyInt 0,
      ''title'' \<mapsto> PyStr ''Replica-exchange simulation'',
      ''minimize'' \<mapsto> PyBool True,
      ''replica_mixing_scheme'' \<mapsto> PyStr ''swap-all'',
      ''online_analysis'' \<mapsto> PyBool False,
      ''show_mixing_statistics'' \<mapsto> PyBool True]"

text \<open>
  The same table with a tolerance that is not finite; and storing a table of options in
  a file, then loading the options of that file.
\<close>

definition inf_options :: "string \<rightharpoonup> string py_value" where
  "inf_options = example_options(''constraint_tolerance'' \<mapsto> PyFloat PosInf)"

definition store_then_load ::
  "('u \<Rightarrow> string) \<Rightarrow> (string \<Rightarrow> error + 'u) \<Rightarrow> (string \<rightharpoonup> 'u py_value) \<Rightarrow> 'sys ncfile
    \<Rightarrow> error + (string \<rightharpoonup> 'u py_value)" where
  "store_then_load unit_str eval_unit opts nc =
     (case store_options unit_str opts nc of
        Inl e \<Rightarrow> Inl e
      | Inr nc' \<Rightarrow> load_options eval_unit nc')"

section \<open>Notions for the iterations of a dataset\<close>

text \<open>The variable after a row has been written at index \<open>n\<close>.\<close>

definition written_row :: "nat \<Rightarrow> nc_row \<Rightarrow> nc_variable \<Rightarrow> nc_variable" where
  "written_row n row var =
     var\<lparr>var_data := (var_data var @ replicate (n + 1 - length (var_data var)) Fill)[n := row]\<rparr>"

text \<open>Arrays that agree entry by entry up to a relation on their numbers.\<close>

fun rel_array :: "(real \<Rightarrow> real \<Rightarrow> bool) \<Rightarrow> ndarray \<Rightarrow> ndarray \<Rightarrow> bool" where
  "rel_array tol (Num x) (Num y) = tol x y"
| "rel_array tol (Arr xs) (Arr ys) = list_all2 (rel_array tol) xs ys"
| "rel_array tol (Num x) (Arr ys) = False"
| "rel_array tol (Arr xs) (Num y) = False"

text \<open>What a run of assignments at index \<open>n\<close> has changed in the dataset.\<close>

definition assigned ::
  "(real \<Rightarrow> real) \<Rightarrow> nat \<Rightarrow> (string \<times> 'u py_value) list \<Rightarrow> 'sys ncfile \<Rightarrow> 'sys ncfile \<Rightarrow> bool" where
  "assigned f32 n kvs nc nc' \<longleftrightarrow>
       (\<forall>name. name \<notin> fst ` set kvs \<longrightarrow> variables nc' name = variables nc name)
     \<and> (\<forall>name v var row. (name, v) \<in> set kvs \<longrightarrow> variables nc name = Some var
           \<longrightarrow> nc_convert f32 (var_type var) (row_shape nc var) v = Inr row
           \<longrightarrow> variables nc' name = Some (written_row n row var))
     \<and> (\<forall>d. d \<noteq> ''iteration'' \<longrightarrow> dimensions nc' d = dimensions nc d)
     \<and> (kvs \<noteq> [] \<longrightarrow> dimension_size nc' ''iteration'' = max (dimension_size nc ''iteration'') (n + 1))
     \<and> grp_thermodynamic_states nc' = grp_thermodynamic_states nc
     \<and> grp_options nc' = grp_options nc"

text \<open>
  The call \<open>output_iteration(iteration=..., coordinates=..., box_vectors=..., volumes=...,
  replica_states=..., energies=..., proposed=..., accepted=..., time=...)\<close>.
\<close>

definition iteration_kwargs ::
  "int \<Rightarrow> ndarray \<Rightarrow> ndarray \<Rightarrow> ndarray \<Rightarrow> ndarray \<Rightarrow> ndarray \<Rightarrow> ndarray \<Rightarrow> ndarray \<Rightarrow> string
    \<Rightarrow> (string \<rightharpoonup> 'u py_value)" where
  "iteration_kwargs i c b vol st e p a t =
     [''iteration'' \<mapsto> PyInt i, ''coordinates'' \<mapsto> PyArray c, ''box_vectors'' \<mapsto> PyArray b,
      ''volumes'' \<mapsto> PyArray vol, ''replica_states'' \<mapsto> PyArray st, ''energies'' \<mapsto> PyArray e,
      ''proposed'' \<mapsto> PyArray p, ''accepted'' \<mapsto> PyArray a, ''time'' \<mapsto> PyStr t]"

text \<open>
  The row that a variable holds at an index (\<open>Fill\<close> when it was never written), and a
  complete row of the dataset: every time series holds a written row at that index, of
  the shape of its rows.
\<close>

definition stored_row :: "'sys ncfile \<Rightarrow> string \<Rightarrow> nat \<Rightarrow> nc_row" where
  "stored_row nc name k =
     (case variables nc name of
        None \<Rightarrow> Fill
      | Some var \<Rightarrow> if k < length (var_data var) then var_data var ! k else Fill)"

definition complete_row :: "'sys ncfile \<Rightarrow> nat \<Rightarrow> bool" where
  "complete_row nc k \<longleftrightarrow>
     list_all (\<lambda>(name, ty, dims).
        case stored_row nc name k of
          Fill \<Rightarrow> False
        | Text s \<Rightarrow> ty = NC_STRING
        | Numeric a \<Rightarrow> ty \<noteq> NC_STRING \<and> has_shape (map (dimension_size nc) (tl dims)) a) series"

section \<open>Example datasets\<close>

text \<open>
  A small dataset with one written iteration, two replicas of one atom, the states of two
  NVT temperatures and no options; and the record of a second iteration.
\<close>

definition example_dataset :: "unit ncfile" where
  "example_dataset =
     \<lparr>dimensions = [''iteration'' \<mapsto> 1, ''replica'' \<mapsto> 2, ''atom'' \<mapsto> 1, ''spatial'' \<mapsto> 3],
      variables =
        [''positions'' \<mapsto> \<lparr>var_type = NC_FLOAT,
            var_dimensions = [''iteration'', ''replica'', ''atom'', ''spatial''],
            var_data = [Numeric (Arr [Arr [Arr [Num 0, Num 0, Num 0]], Arr [Arr [Num 1, Num 1, Num 1]]])]\<rparr>,
         ''states'' \<mapsto> \<lparr>var_type = NC_INT, var_dimensions = [''iteration'', ''replica''],
            var_data = [Numeric (Arr [Num 0, Num 1])]\<rparr>,
         ''energies'' \<mapsto> \<lparr>var_type = NC_FLOAT, var_dimensions = [''iteration'', ''replica'', ''replica''],
            var_data = [Numeric (Arr [Arr [Num 4, Num 3], Arr [Num 5, Num 4]])]\<rparr>,
         ''proposed'' \<mapsto> \<lparr>var_type = NC_INT, var_dimensions = [''iteration'', ''replica'', ''replica''],
            var_data = [Numeric (Arr [Arr [Num 0, Num 0], Arr [Num 0, Num 0]])]\<rparr>,
         ''accepted'' \<mapsto> \<lparr>var_type = NC_INT, var_dimensions = [''iteration'', ''replica'', ''replica''],
            var_data = [Numeric (Arr [Arr [Num 0, Num 0], Arr [Num 0, Num 0]])]\<rparr>,
         ''box_vectors'' \<mapsto> \<lparr>var_type = NC_FLOAT,
            var_dimensions = [''iteration'', ''replica'', ''spatial'', ''spatial''],
            var_data = [Numeric (Arr [Arr [Arr [Num 2, Num 0, Num 0], Arr [Num 0, Num 2, Num 0], Arr [Num 0, Num 0, Num 2]],
                                      Arr [Arr [Num 2, Num 0, Num 0], Arr [Num 0, Num 2, Num 0], Arr [Num 0, Num 0, Num 2]]])]\<rparr>,
         ''volumes'' \<mapsto> \<lparr>var_type = NC_FLOAT, var_dimensions = [''iteration'', ''replica''],
            var_data = [Numeric (Arr [Num 8, Num 8])]\<rparr>,
         ''timestamp'' \<mapsto> \<lparr>var_type = NC_STRING, var_dimensions = [''iteration''],
            var_data = [Text ''Wed Nov  4 12:00:00 2026'']\<rparr>],
      grp_thermodynamic_states = Some \<lparr>sg_n_states = 2, sg_temperatures = [300, 400],
            sg_pressures = None, sg_systems = [(), ()]\<rparr>,
      grp_options = Some [],
      grp_timings = None\<rparr>"

definition example_coordinates :: ndarray where
  "example_coordinates = Arr [Arr [Arr [Num (1 / 3), Num 0, Num 0]], Arr [Arr [Num 1, Num (5 / 4), Num 1]]]"

definition example_box_vectors :: ndarray where
  "example_box_vectors =
     Arr [Arr [Arr [Num 2, Num 0, Num 0], Arr [Num 0, Num 2, Num 0], Arr [Num 0, Num 0, Num 2]],
          Arr [Arr [Num 2, Num 0, Num 0], Arr [Num 0, Num 2, Num 0], Arr [Num 0, Num 0, Num 2]]]"

definition example_energies :: ndarray where
  "example_energies = Arr [Arr [Num (7 / 2), Num 3], Arr [Num 5, Num (9 / 2)]]"

definition example_counts :: ndarray where
  "example_counts = Arr [Arr [Num 0, Num 1], Arr [Num 1, Num 0]]"

text \<open>A rounding to multiples of \<open>1/1024\<close>, standing for the rounding to 32-bit floats.\<close>

definition example_f32 :: "real \<Rightarrow> real" where
  "example_f32 x = real_of_int \<lfloor>x * 1024\<rfloor> / 1024"

text \<open>A dataset with the thermodynamic states and without the group of options.\<close>

definition no_options_dataset :: "unit ncfile" where
  "no_options_dataset = example_dataset\<lparr>grp_options := None\<rparr>"

text \<open>Two coordinate sets of one atom each, for the two states \<open>hex_states\<close>.\<close>

definition example_replica_coordinates :: "ndarray list" where
  "example_replica_coordinates = [Arr [Arr [Num 0, Num 0, Num 0]], Arr [Arr [Num 1, Num 1, Num 1]]]"

text \<open>
  The record of a second iteration whose energies are \<open>None\<close>, and the dataset in which
  the positions, box vectors, volumes and states of row 1 have been written and nothing
  else.
\<close>

definition interrupted_kwargs :: "string \<rightharpoonup> string py_value" where
  "interrupted_kwargs =
     (iteration_kwargs 1 example_coordinates example_box_vectors (Arr [Num 8, Num 8])
        (Arr [Num 1, Num 0]) example_energies example_counts example_counts
        ''Wed Nov  4 12:05:00 2026'')(''energies'' \<mapsto> PyNone)"

definition half_written_dataset :: "unit ncfile" where
  "half_written_dataset =
     example_dataset
       \<lparr>dimensions := (dimensions example_dataset)(''iteration'' \<mapsto> 2),
        variables := (variables example_dataset)
          (''positions'' \<mapsto> written_row 1 (Numeric (cast_array example_f32 example_coordinates))
                               (the (variables example_dataset ''positions'')),
           ''box_vectors'' \<mapsto> written_row 1 (Numeric (cast_array example_f32 example_box_vectors))
                               (the (variables example_dataset ''box_vectors'')),
           ''volumes'' \<mapsto> written_row 1 (Numeric (cast_array example_f32 (Arr [Num 8, Num 8])))
                               (the (variables example_dataset ''volumes'')),
           ''states'' \<mapsto> written_row 1 (Numeric (Arr [Num 1, Num 0]))
                               (the (variables example_dataset ''states'')))\<rparr>"

text \<open>The dataset with all the time series of row 1 written.\<close>

definition two_row_dataset :: "unit ncfile" where
  "two_row_dataset =
     example_dataset
       \<lparr>dimensions := (dimensions example_dataset)(''iteration'' \<mapsto> 2),
        variables := (variables example_dataset)
          (''positions'' \<mapsto> written_row 1 (Numeric (cast_array example_f32 example_coordinates))
                               (the (variables example_dataset ''positions'')),
           ''box_vectors'' \<mapsto> written_row 1 (Numeric (cast_array example_f32 example_box_vectors))
                               (the (variables example_dataset ''box_vectors'')),
           ''volumes'' \<mapsto> written_row 1 (Numeric (cast_array example_f32 (Arr [Num 8, Num 8])))
                               (the (variables example_dataset ''volumes'')),
           ''states'' \<mapsto> written_row 1 (Numeric (Arr [Num 1, Num 0]))
                               (the (variables example_dataset ''states'')),
           ''energies'' \<mapsto> written_row 1 (Numeric (cast_array example_f32 example_energies))
                               (the (variables example_dataset ''energies'')),
           ''proposed'' \<mapsto> written_row 1 (Numeric example_counts)
                               (the (variables example_dataset ''proposed'')),
           ''accepted'' \<mapsto> written_row 1 (Numeric example_counts)
                               (the (variables example_dataset ''accepted'')),
           ''timestamp'' \<mapsto> written_row 1 (Text ''Wed Nov  4 12:05:00 2026'')
                               (the (variables example_dataset ''timestamp'')))\<rparr>"

section \<open>The for statement: general facts\<close>

lemma for_each_Inr_iff:
  "for_each f xs = Inr () \<longleftrightarrow> (\<forall>x \<in> set xs. f x = Inr ())"
  by (induction xs) (auto split: sum.splits)

lemma for_each_Inl:
  "for_each f xs = Inl e \<Longrightarrow> \<exists>x \<in> set xs. f x = Inl e"
  by (induction xs) (auto split: sum.splits)

lemma for_each_const_error:
  assumes "\<And>x. x \<in> set xs \<Longrightarrow> f x = Inr () \<or> f x = Inl e"
    and "\<exists>x \<in> set xs. f x \<noteq> Inr ()"
  shows "for_each f xs = Inl e"
  using assms
proof (induction xs)
  case Nil
  then show ?case by simp
next
  case (Cons x xs)
  show ?case
  proof (cases "f x")
    case (Inl e')
    with Cons.prems(1) [of x] show ?thesis by simp
  next
    case (Inr u)
    then have "\<exists>y \<in> set xs. f y \<noteq> Inr ()"
      using Cons.prems(2) by auto
    with Cons Inr show ?thesis by simp
  qed
qed

text \<open>A doubly nested loop that compares every pair and raises \<open>e\<close> at the first mismatch.\<close>

lemma for_each_pairs:
  "for_each (\<lambda>s0. for_each (\<lambda>s1. if P s0 s1 then Inl e else Inr ()) xs) xs =
     (if \<exists>s0 \<in> set xs. \<exists>s1 \<in> set xs. P s0 s1 then Inl e else Inr ())"
proof -
  let ?inner = "\<lambda>s0. for_each (\<lambda>s1. if P s0 s1 then Inl e else Inr ()) xs"
  have inner: "?inner s0 = (if \<exists>s1 \<in> set xs. P s0 s1 then Inl e else Inr ())" for s0
  proof (cases "\<exists>s1 \<in> set xs. P s0 s1")
    case True
    then have "for_each (\<lambda>s1. if P s0 s1 then Inl e else Inr ()) xs = Inl e"
      by (intro for_each_const_error) auto
    with True show ?thesis by simp
  next
    case False
    then show ?thesis by (simp add: for_each_Inr_iff)
  qed
  show ?thesis
  proof (cases "\<exists>s0 \<in> set xs. \<exists>s1 \<in> set xs. P s0 s1")
    case True
    then have "for_each ?inner xs = Inl e"
      by (intro for_each_const_error) (auto simp: inner)
    with True show ?thesis by simp
  next
    case False
    then have "for_each ?inner xs = Inr ()"
      by (simp add: for_each_Inr_iff inner)
    with False show ?thesis by simp
  qed
qed

section \<open>\<open>_compute_energies\<close> fills the whole energy matrix\<close>

lemma compute_energies_row_ok:
  assumes "\<forall>k \<in> set ks. k < length ts \<and> kB * temperature (ts ! k) \<noteq> 0 \<and> k < length (u ! i)"
    and "i < length u"
  shows "\<exists>u'. compute_energies_row kB ts U i ks u = Inr u' \<and> length u' = length u
        \<and> (\<forall>j. j \<noteq> i \<longrightarrow> u' ! j = u ! j)
        \<and> length (u' ! i) = length (u ! i)
        \<and> (\<forall>k \<in> set ks. u' ! i ! k = beta kB ts k * U)
        \<and> (\<forall>k. k \<notin> set ks \<longrightarrow> u' ! i ! k = u ! i ! k)"
  using assms
proof (induction ks arbitrary: u)
  case Nil
  then show ?case by simp
next
  case (Cons k ks)
  let ?v = "(1 / (kB * temperature (ts ! k))) * U"
  let ?u1 = "u[i := (u ! i)[k := ?v]]"
  have k: "k < length ts" "kB * temperature (ts ! k) \<noteq> 0" "k < length (u ! i)"
    using Cons.prems(1) by auto
  have step: "compute_energies_row kB ts U i (k # ks) u = compute_energies_row kB ts U i ks ?u1"
    using k Cons.prems(2) by simp
  have row1: "?u1 ! i = (u ! i)[k := ?v]"
    using Cons.prems(2) by simp
  have pre: "\<forall>k' \<in> set ks. k' < length ts \<and> kB * temperature (ts ! k') \<noteq> 0 \<and> k' < length (?u1 ! i)"
    using Cons.prems(1) row1 by simp
  have len: "i < length ?u1" using Cons.prems(2) by simp
  from Cons.IH [OF pre len] obtain u' where u':
    "compute_energies_row kB ts U i ks ?u1 = Inr u'" "length u' = length ?u1"
    "\<forall>j. j \<noteq> i \<longrightarrow> u' ! j = ?u1 ! j" "length (u' ! i) = length (?u1 ! i)"
    "\<forall>k \<in> set ks. u' ! i ! k = beta kB ts k * U"
    "\<forall>k. k \<notin> set ks \<longrightarrow> u' ! i ! k = ?u1 ! i ! k"
    by blast
  have "u' ! i ! k = beta kB ts k * U"
  proof (cases "k \<in> set ks")
    case True
    with u'(5) show ?thesis by blast
  next
    case False
    with u'(6) have "u' ! i ! k = ?u1 ! i ! k" by blast
    also have "\<dots> = ?v" using row1 k(3) by simp
    finally show ?thesis by (simp add: beta_def)
  qed
  moreover have "\<forall>k'. k' \<notin> set (k # ks) \<longrightarrow> u' ! i ! k' = u ! i ! k'"
    using u'(6) row1 by auto
  moreover have "\<forall>j. j \<noteq> i \<longrightarrow> u' ! j = u ! j"
    using u'(3) by simp
  moreover have "length (u' ! i) = length (u ! i)"
    using u'(4) row1 by simp
  ultimately show ?case
    using step u'(1,2,5) by simp
qed

lemma compute_energies_loop_ok:
  assumes "\<forall>i \<in> set is. i < length ss \<and> i < n"
    and "length ts = n" and "square n u"
    and "\<forall>k < n. kB * temperature (ts ! k) \<noteq> 0"
  shows "\<exists>u'. compute_energies_loop kB ts ss n is u = Inr u' \<and> square n u'
        \<and> (\<forall>i \<in> set is. \<forall>k < n. u' ! i ! k = beta kB ts k * potential_energy (ss ! i))
        \<and> (\<forall>i. i \<notin> set is \<longrightarrow> u' ! i = u ! i)"
  using assms
proof (induction "is" arbitrary: u)
  case Nil
  then show ?case by simp
next
  case (Cons i "is")
  let ?U = "potential_energy (ss ! i)"
  have i: "i < length ss" "i < n" using Cons.prems(1) by auto
  have sq: "length u = n" "\<forall>j < n. length (u ! j) = n"
    using Cons.prems(3) by (auto simp: square_def list_all_length)
  have "\<forall>k \<in> set [0..<n]. k < length ts \<and> kB * temperature (ts ! k) \<noteq> 0 \<and> k < length (u ! i)"
    using Cons.prems(2,4) sq i by simp
  moreover have "i < length u" using sq i by simp
  ultimately obtain u1 where u1:
    "compute_energies_row kB ts ?U i [0..<n] u = Inr u1" "length u1 = length u"
    "\<forall>j. j \<noteq> i \<longrightarrow> u1 ! j = u ! j" "length (u1 ! i) = length (u ! i)"
    "\<forall>k \<in> set [0..<n]. u1 ! i ! k = beta kB ts k * ?U"
    using compute_energies_row_ok [of "[0..<n]" ts kB u i ?U] by blast
  have sq1: "square n u1"
    unfolding square_def list_all_length
  proof (intro conjI allI impI)
    show "length u1 = n" using u1(2) sq by simp
  next
    fix j assume "j < length u1"
    then have "j < n" using u1(2) sq by simp
    then show "length (u1 ! j) = n"
      using u1(3,4) sq by (cases "j = i") auto
  qed
  have pre: "\<forall>i \<in> set is. i < length ss \<and> i < n" using Cons.prems(1) by simp
  from Cons.IH [OF pre Cons.prems(2) sq1 Cons.prems(4)] obtain u' where u':
    "compute_energies_loop kB ts ss n is u1 = Inr u'" "square n u'"
    "\<forall>i \<in> set is. \<forall>k < n. u' ! i ! k = beta kB ts k * potential_energy (ss ! i)"
    "\<forall>i. i \<notin> set is \<longrightarrow> u' ! i = u1 ! i"
    by blast
  have "\<forall>k < n. u' ! i ! k = beta kB ts k * ?U"
  proof (cases "i \<in> set is")
    case True
    with u'(3) show ?thesis by blast
  next
    case False
    with u'(4) have "u' ! i = u1 ! i" by blast
    with u1(5) show ?thesis by simp
  qed
  moreover have "\<forall>j. j \<notin> set (i # is) \<longrightarrow> u' ! j = u ! j"
    using u'(4) u1(3) by simp
  moreover have "compute_energies_loop kB ts ss n (i # is) u = Inr u'"
    using i u1(1) u'(1) by simp
  ultimately show ?case using u'(2,3) by auto
qed


text \<open>
  Claim C1. For the parallel-tempering engine, on an engine whose lists of thermodynamic
  states and sampler states have \<open>n_states\<close> entries, whose matrix \<open>u_kl\<close> is
  \<open>n_states\<close> by \<open>n_states\<close> and whose temperatures make \<open>kB * T\<close> nonzero,
  \<open>_compute_energies\<close> returns, and afterwards every entry \<open>u_kl[i][k]\<close> with
  \<open>i, k < n_states\<close> is \<open>\<beta>\<^sub>k * U\<^sub>i\<close>, where \<open>\<beta>\<^sub>k = 1 / (kB * T\<^sub>k)\<close> and \<open>U\<^sub>i\<close> is the cached
  potential energy of replica \<open>i\<close>. No entry keeps its old value: the new matrix does not
  depend on the old one. Arithmetic is that of the real numbers.
\<close>

theorem compute_energies_entries:
  assumes "n_states self = n"
    and "length (thermodynamic_states self) = n"
    and "length (sampler_states self) = n"
    and "square n (u_kl self)"
    and "\<forall>k < n. kB * temperature (thermodynamic_states self ! k) \<noteq> 0"
  shows "\<exists>u'. compute_energies kB self = Inr (self\<lparr>u_kl := u'\<rparr>) \<and> square n u'
        \<and> (\<forall>i < n. \<forall>k < n. u' ! i ! k =
              beta kB (thermodynamic_states self) k * potential_energy (sampler_states self ! i))"
proof -
  have "\<forall>i \<in> set [0..<n]. i < length (sampler_states self) \<and> i < n"
    using assms(3) by simp
  from compute_energies_loop_ok [OF this assms(2) assms(4) assms(5)]
  obtain u' where u':
    "compute_energies_loop kB (thermodynamic_states self) (sampler_states self) n [0..<n] (u_kl self) = Inr u'"
    "square n u'"
    "\<forall>i \<in> set [0..<n]. \<forall>k < n. u' ! i ! k =
        beta kB (thermodynamic_states self) k * potential_energy (sampler_states self ! i)"
    by blast
  have "compute_energies kB self = Inr (self\<lparr>u_kl := u'\<rparr>)"
    using u'(1) assms(1) by (simp add: compute_energies_def)
  with u'(2,3) show ?thesis by auto
qed

theorem compute_energies_entries_witness:
  "\<exists>u'. compute_energies (1 / 120) pt2 = Inr (pt2\<lparr>u_kl := u'\<rparr>) \<and> square 2 u'
        \<and> (\<forall>i < 2. \<forall>k < 2. u' ! i ! k =
              beta (1 / 120) (thermodynamic_states pt2) k * potential_energy (sampler_states pt2 ! i))"
proof -
  have "\<forall>k < 2. (1 / 120) * temperature (thermodynamic_states pt2 ! k) \<noteq> 0"
    by (auto simp: pt2_def less_2_cases_iff)
  then show ?thesis
    using compute_energies_entries [of pt2 2 "1 / 120"]
    by (simp add: pt2_def square_def)
qed

section \<open>Self-consistency checks and the barostat helper\<close>

lemma hex_check_eq:
  "hex_check_self_consistency states =
     (if \<exists>s0 \<in> set states. \<exists>s1 \<in> set states. pressure s0 \<noteq> pressure s1
      then Inl (ValueError ''For HamiltonianExchange, ThermodynamicState objects cannot have different pressures!'')
      else if \<exists>s0 \<in> set states. \<exists>s1 \<in> set states. temperature s0 \<noteq> temperature s1
      then Inl (ValueError ''For HamiltonianExchange, ThermodynamicState objects cannot have different temperatures!'')
      else Inr ())"
  apply (subst hex_check_self_consistency_def)
  apply (subst for_each_pairs)
  apply (subst for_each_pairs)
  apply (cases "\<exists>s0 \<in> set states. \<exists>s1 \<in> set states. pressure s0 \<noteq> pressure s1")
   apply (simp_all only: if_True if_False sum.case)
  done

lemma count_barostats_acc: "count_barostats fs n = n + count_barostats fs 0"
proof (induction fs arbitrary: n)
  case Nil then show ?case by simp
next
  case (Cons f fs)
  show ?case using Cons.IH [of "n + 1"] Cons.IH [of n] Cons.IH [of 1] by simp
qed

lemma count_barostats_filter: "count_barostats fs 0 = length (filter is_barostat fs)"
proof (induction fs)
  case Nil then show ?case by simp
next
  case (Cons f fs)
  then show ?case using count_barostats_acc [of fs 1] by simp
qed

lemma is_barostat_set [simp]: "is_barostat (set_barostat_force t s f) = is_barostat f"
  by (cases f) simp_all

lemma set_barostat_force_twice [simp]:
  "set_barostat_force t s (set_barostat_force t' s' f) = set_barostat_force t s f"
  by (cases f) simp_all

lemma set_barostat_system_twice [simp]:
  "set_barostat_system t s (set_barostat_system t' s' sys) = set_barostat_system t s sys"
  by (simp add: set_barostat_system_def)

lemma count_set_barostat_system [simp]:
  "count_barostats (forces (set_barostat_system t s sys)) 0 = count_barostats (forces sys) 0"
  by (simp add: set_barostat_system_def count_barostats_filter filter_map o_def)

lemma last_barostat_state_Some:
  "last_barostat_state fs (Some x) \<noteq> None"
  by (induction fs "Some x" arbitrary: x rule: last_barostat_state.induct) auto

lemma last_barostat_state_found:
  "0 < count_barostats fs 0 \<Longrightarrow> last_barostat_state fs found \<noteq> None"
proof (induction fs found rule: last_barostat_state.induct)
  case (1 found)
  then show ?case by simp
next
  case (2 p t s fs found)
  then show ?case by (simp add: last_barostat_state_Some)
next
  case (3 d fs found)
  then show ?case by simp
qed

lemma no_barostats:
  "count_barostats fs 0 = 0 \<Longrightarrow>
     last_barostat_state fs found = found \<and> map (set_barostat_force t s) fs = fs"
proof (induction fs)
  case Nil then show ?case by simp
next
  case (Cons f fs)
  then show ?case
    using count_barostats_acc [of fs 1] by (cases f) simp_all
qed

lemma set_barostat_system_none:
  "count_barostats (forces sys) 0 = 0 \<Longrightarrow> set_barostat_system t s sys = sys"
  by (simp add: set_barostat_system_def no_barostats)

lemma one_barostat_restore:
  "count_barostats fs 0 \<le> 1 \<Longrightarrow> last_barostat_state fs None = Some (t, s) \<Longrightarrow>
     map (set_barostat_force t s) fs = fs"
proof (induction fs)
  case Nil then show ?case by simp
next
  case (Cons f fs)
  show ?case
  proof (cases f)
    case (MonteCarloBarostat p t0 s0)
    then have zero: "count_barostats fs 0 = 0"
      using Cons.prems(1) count_barostats_acc [of fs 1] by simp
    then have "last_barostat_state fs (Some (t0, s0)) = Some (t0, s0)"
      and "map (set_barostat_force t s) fs = fs"
      using no_barostats by blast+
    with Cons.prems(2) MonteCarloBarostat show ?thesis by simp
  next
    case (OtherForce d)
    with Cons show ?thesis by simp
  qed
qed

lemma set_barostat_system_restore:
  assumes "count_barostats (forces sys) 0 \<le> 1"
    and "last_barostat_state (forces sys) None = Some (t, s)"
  shows "set_barostat_system t s (set_barostat_system t' s' sys) = sys"
proof -
  have "set_barostat_system t s sys = sys"
    using one_barostat_restore [OF assms] by (simp add: set_barostat_system_def)
  then show ?thesis by simp
qed

lemma map_num_barostats_Inr:
  "map_num_barostats h states = Inr ns \<Longrightarrow>
     ns = map (\<lambda>s. count_barostats (forces (h (system s))) 0) states \<and> (\<forall>n \<in> set ns. n \<le> 1)"
proof (induction states arbitrary: ns)
  case Nil then show ?case by simp
next
  case (Cons s states)
  then show ?case
    by (auto simp: get_num_barostats_def Let_def split: sum.splits if_splits)
qed

lemma IgnoreBarostat_init_Inr:
  assumes "IgnoreBarostat_init h states = Inr self"
  shows "states \<noteq> [] \<and> ib_thermodynamic_states self = states
       \<and> temperatures self = [] \<and> seeds self = [] \<and> num_barostats self \<le> 1
       \<and> (\<forall>s \<in> set states. count_barostats (forces (h (system s))) 0 = num_barostats self)"
proof -
  from assms obtain n ns where ns: "map_num_barostats h states = Inr (n # ns)"
    and mm: "Min (set (n # ns)) = Max (set (n # ns))"
    and self: "self = \<lparr>num_barostats = n, ib_thermodynamic_states = states, temperatures = [], seeds = []\<rparr>"
    by (auto simp: IgnoreBarostat_init_def split: sum.splits list.splits if_splits)
  from map_num_barostats_Inr [OF ns]
  have eq: "n # ns = map (\<lambda>s. count_barostats (forces (h (system s))) 0) states"
    and le: "\<forall>m \<in> set (n # ns). m \<le> 1" by blast+
  have all: "m = n" if "m \<in> set (n # ns)" for m
  proof -
    have "Min (set (n # ns)) \<le> m" "m \<le> Max (set (n # ns))"
      using that by (auto intro: Min_le Max_ge)
    moreover have "Min (set (n # ns)) \<le> n" "n \<le> Max (set (n # ns))"
      by (auto intro: Min_le Max_ge)
    ultimately show ?thesis using mm by linarith
  qed
  have "\<forall>s \<in> set states. count_barostats (forces (h (system s))) 0 = n"
  proof
    fix s assume "s \<in> set states"
    then have "count_barostats (forces (h (system s))) 0 \<in> set (n # ns)"
      unfolding eq by simp
    then show "count_barostats (forces (h (system s))) 0 = n" by (rule all)
  qed
  moreover have "states \<noteq> []" using eq by auto
  moreover have "n \<le> 1" using le by simp
  ultimately show ?thesis using self by simp
qed


lemma enter_loop_ok:
  assumes "0 < num_barostats self"
    and "\<forall>s \<in> set states. 0 < count_barostats (forces (h (system s))) 0"
  shows "\<exists>self'. enter_loop self states h = (Inr self', normalised (system ` set states) h)
        \<and> num_barostats self' = num_barostats self
        \<and> ib_thermodynamic_states self' = ib_thermodynamic_states self
        \<and> length (temperatures self') = length (temperatures self) + length states
        \<and> length (seeds self') = length (seeds self) + length states
        \<and> (distinct (map system states) \<longrightarrow>
              temperatures self' = temperatures self @ map (\<lambda>s. fst (saved h s)) states
            \<and> seeds self' = seeds self @ map (\<lambda>s. snd (saved h s)) states)"
  using assms
proof (induction states arbitrary: self h)
  case Nil
  then show ?case by (simp add: normalised_def)
next
  case (Cons state states)
  let ?a = "system state"
  have cnt: "0 < count_barostats (forces (h ?a)) 0" using Cons.prems(2) by simp
  then obtain t s where ts: "last_barostat_state (forces (h ?a)) None = Some (t, s)"
    using last_barostat_state_found [of "forces (h ?a)" None] by (cases "last_barostat_state (forces (h ?a)) None") auto
  let ?self1 = "self\<lparr>temperatures := temperatures self @ [t], seeds := seeds self @ [s]\<rparr>"
  let ?h1 = "h(?a := set_barostat_system 1 1 (h ?a))"
  have get0: "get_barostat_state self h state = Inr (t, s)"
    using Cons.prems(1) ts by (simp add: get_barostat_state_def)
  have set1: "set_barostat_state ?self1 h state 1 1 = Inr ?h1"
    using Cons.prems(1) by (simp add: set_barostat_state_def)
  have "0 < count_barostats (forces (?h1 ?a)) 0" using cnt by simp
  then have "last_barostat_state (forces (?h1 ?a)) None \<noteq> None"
    by (rule last_barostat_state_found)
  then obtain ts1 where get1: "get_barostat_state ?self1 ?h1 state = Inr ts1"
    using Cons.prems(1) by (auto simp: get_barostat_state_def)
  have step: "enter_loop self (state # states) h = enter_loop ?self1 states ?h1"
    using get0 set1 get1 by (simp add: Let_def)
  have pre1: "0 < num_barostats ?self1" using Cons.prems(1) by simp
  have pre2: "\<forall>s \<in> set states. 0 < count_barostats (forces (?h1 (system s))) 0"
    using Cons.prems(2) by simp
  from Cons.IH [OF pre1 pre2] obtain self' where self':
    "enter_loop ?self1 states ?h1 = (Inr self', normalised (system ` set states) ?h1)"
    "num_barostats self' = num_barostats ?self1"
    "ib_thermodynamic_states self' = ib_thermodynamic_states ?self1"
    "length (temperatures self') = length (temperatures ?self1) + length states"
    "length (seeds self') = length (seeds ?self1) + length states"
    "distinct (map system states) \<longrightarrow>
        temperatures self' = temperatures ?self1 @ map (\<lambda>s. fst (saved ?h1 s)) states
      \<and> seeds self' = seeds ?self1 @ map (\<lambda>s. snd (saved ?h1 s)) states"
    by blast
  have norm: "normalised (system ` set states) ?h1 = normalised (system ` set (state # states)) h"
    by (rule ext) (simp add: normalised_def modulo_barostat_def)
  have dist: "temperatures self' = temperatures self @ map (\<lambda>s. fst (saved h s)) (state # states)
      \<and> seeds self' = seeds self @ map (\<lambda>s. snd (saved h s)) (state # states)"
    if d: "distinct (map system (state # states))"
  proof -
    have "\<forall>x \<in> set states. saved ?h1 x = saved h x"
    proof
      fix x assume "x \<in> set states"
      then have "system x \<in> system ` set states" by (rule imageI)
      moreover have "?a \<notin> system ` set states" using d by simp
      ultimately have "system x \<noteq> ?a" by metis
      then show "saved ?h1 x = saved h x" by (simp add: saved_def)
    qed
    moreover have "saved h state = (t, s)" using ts by (simp add: saved_def)
    ultimately show ?thesis using self'(6) d by simp
  qed
  show ?case
    using step self'(1-5) norm dist by simp
qed

lemma exit_loop_ok:
  assumes "0 < num_barostats self"
    and "k + length states \<le> length (temperatures self)"
    and "k + length states \<le> length (seeds self)"
  shows "\<exists>h'. exit_loop self k states h = (Inr (), h')
        \<and> (\<forall>a. a \<notin> system ` set states \<longrightarrow> h' a = h a)
        \<and> (distinct (map system states) \<longrightarrow>
             (\<forall>j < length states. h' (system (states ! j)) =
                set_barostat_system (temperatures self ! (k + j)) (seeds self ! (k + j))
                  (h (system (states ! j)))))"
  using assms
proof (induction states arbitrary: k h)
  case Nil
  then show ?case by simp
next
  case (Cons state states)
  let ?a = "system state"
  let ?h1 = "h(?a := set_barostat_system (temperatures self ! k) (seeds self ! k) (h ?a))"
  have step: "exit_loop self k (state # states) h = exit_loop self (k + 1) states ?h1"
    using Cons.prems by (simp add: set_barostat_state_def)
  have "k + 1 + length states \<le> length (temperatures self)"
    "k + 1 + length states \<le> length (seeds self)"
    using Cons.prems by simp_all
  from Cons.IH [OF Cons.prems(1) this] obtain h' where h':
    "exit_loop self (k + 1) states ?h1 = (Inr (), h')"
    "\<forall>a. a \<notin> system ` set states \<longrightarrow> h' a = ?h1 a"
    "distinct (map system states) \<longrightarrow>
       (\<forall>j < length states. h' (system (states ! j)) =
          set_barostat_system (temperatures self ! (k + 1 + j)) (seeds self ! (k + 1 + j))
            (?h1 (system (states ! j))))"
    by blast
  have frame: "\<forall>a. a \<notin> system ` set (state # states) \<longrightarrow> h' a = h a"
    using h'(2) by simp
  have dist: "h' (system ((state # states) ! j)) =
        set_barostat_system (temperatures self ! (k + j)) (seeds self ! (k + j))
          (h (system ((state # states) ! j)))"
    if d: "distinct (map system (state # states))" and j: "j < length (state # states)" for j
  proof (cases j)
    case 0
    have "?a \<notin> system ` set states" using d by auto
    with h'(2) have "h' ?a = ?h1 ?a" by blast
    with 0 show ?thesis by simp
  next
    case (Suc i)
    then have i: "i < length states" using j by simp
    then have "system (states ! i) \<in> system ` set states" by simp
    moreover have "?a \<notin> system ` set states" using d by simp
    ultimately have "system (states ! i) \<noteq> ?a" by metis
    moreover have "h' (system (states ! i)) =
          set_barostat_system (temperatures self ! (k + 1 + i)) (seeds self ! (k + 1 + i))
            (?h1 (system (states ! i)))"
      using h'(3) d i by simp
    ultimately show ?thesis using Suc by simp
  qed
  show ?case using step h'(1) frame dist by auto
qed

lemma IgnoreBarostat_exit_cases:
  "(\<exists>e h'. IgnoreBarostat_exit self h = (Inl e, h')) \<or> (\<exists>h'. IgnoreBarostat_exit self h = (Inr False, h'))"
  by (auto simp: IgnoreBarostat_exit_def split: prod.splits sum.splits)

lemma normalised_none:
  assumes "\<forall>s \<in> set states. count_barostats (forces (h (system s))) 0 = 0"
  shows "normalised (system ` set states) h = h"
proof (rule ext)
  fix a
  show "normalised (system ` set states) h a = h a"
  proof (cases "a \<in> system ` set states")
    case True
    then obtain s where "s \<in> set states" "a = system s" by auto
    with assms have "count_barostats (forces (h a)) 0 = 0" by simp
    then show ?thesis
      using True by (simp add: normalised_def modulo_barostat_def set_barostat_system_none)
  next
    case False
    then show ?thesis by (simp add: normalised_def)
  qed
qed

lemma IgnoreBarostat_enter_ok:
  assumes "IgnoreBarostat_init h states = Inr self"
  shows "\<exists>self'. IgnoreBarostat_enter self h = (Inr self', normalised (system ` set states) h)
        \<and> num_barostats self' = num_barostats self
        \<and> ib_thermodynamic_states self' = states
        \<and> (0 < num_barostats self \<longrightarrow>
              length (temperatures self') = length states \<and> length (seeds self') = length states
            \<and> (distinct (map system states) \<longrightarrow>
                  temperatures self' = map (\<lambda>s. fst (saved h s)) states
                \<and> seeds self' = map (\<lambda>s. snd (saved h s)) states))"
proof -
  note init = IgnoreBarostat_init_Inr [OF assms]
  let ?self0 = "self\<lparr>temperatures := [], seeds := []\<rparr>"
  show ?thesis
  proof (cases "0 < num_barostats self")
    case True
    then have pre1: "0 < num_barostats ?self0" by simp
    have pre2: "\<forall>s \<in> set states. 0 < count_barostats (forces (h (system s))) 0"
      using init True by simp
    from enter_loop_ok [OF pre1 pre2] obtain self' where
      "enter_loop ?self0 states h = (Inr self', normalised (system ` set states) h)"
      "num_barostats self' = num_barostats ?self0"
      "ib_thermodynamic_states self' = ib_thermodynamic_states ?self0"
      "length (temperatures self') = length (temperatures ?self0) + length states"
      "length (seeds self') = length (seeds ?self0) + length states"
      "distinct (map system states) \<longrightarrow>
          temperatures self' = temperatures ?self0 @ map (\<lambda>s. fst (saved h s)) states
        \<and> seeds self' = seeds ?self0 @ map (\<lambda>s. snd (saved h s)) states"
      by blast
    then show ?thesis using True init by (simp add: IgnoreBarostat_enter_def Let_def)
  next
    case False
    then have "\<forall>s \<in> set states. count_barostats (forces (h (system s))) 0 = 0"
      using init by simp
    then have "normalised (system ` set states) h = h" by (rule normalised_none)
    then show ?thesis using False init by (simp add: IgnoreBarostat_enter_def Let_def)
  qed
qed

lemma IgnoreBarostat_exit_ok:
  assumes "ib_thermodynamic_states self = states"
    and "0 < num_barostats self \<longrightarrow>
           length (temperatures self) = length states \<and> length (seeds self) = length states"
  shows "\<exists>h'. IgnoreBarostat_exit self h = (Inr False, h')
        \<and> (\<forall>a. a \<notin> system ` set states \<longrightarrow> h' a = h a)
        \<and> (num_barostats self = 0 \<longrightarrow> h' = h)
        \<and> (0 < num_barostats self \<and> distinct (map system states) \<longrightarrow>
             (\<forall>j < length states. h' (system (states ! j)) =
                set_barostat_system (temperatures self ! j) (seeds self ! j) (h (system (states ! j)))))"
proof (cases "0 < num_barostats self")
  case True
  with assms(2) have "0 + length states \<le> length (temperatures self)"
    "0 + length states \<le> length (seeds self)" by simp_all
  from exit_loop_ok [OF True this, of h] obtain h' where
    "exit_loop self 0 states h = (Inr (), h')"
    "\<forall>a. a \<notin> system ` set states \<longrightarrow> h' a = h a"
    "distinct (map system states) \<longrightarrow>
       (\<forall>j < length states. h' (system (states ! j)) =
          set_barostat_system (temperatures self ! (0 + j)) (seeds self ! (0 + j))
            (h (system (states ! j))))"
    by blast
  then show ?thesis using True assms(1) by (simp add: IgnoreBarostat_exit_def)
next
  case False
  then show ?thesis by (simp add: IgnoreBarostat_exit_def)
qed

lemma with_IgnoreBarostat_init_error:
  "IgnoreBarostat_init h states = Inl e \<Longrightarrow> with_IgnoreBarostat h states body = (Inl e, h)"
  by (simp add: with_IgnoreBarostat_def)

lemma with_IgnoreBarostat_run:
  assumes "IgnoreBarostat_init h states = Inr self"
    and "IgnoreBarostat_enter self h = (Inr self', h1)"
    and "IgnoreBarostat_exit self' h1 = (Inr False, h')"
  shows "with_IgnoreBarostat h states body = (body h1, h')"
  unfolding with_IgnoreBarostat_def Let_def
  by (simp add: assms split: sum.splits)

lemma with_IgnoreBarostat_body:
  assumes "IgnoreBarostat_init h states = Inr self"
  shows "\<exists>h'. with_IgnoreBarostat h states body = (body (normalised (system ` set states) h), h')
        \<and> (distinct (map system states) \<longrightarrow> h' = h)"
proof -
  note init = IgnoreBarostat_init_Inr [OF assms]
  let ?h1 = "normalised (system ` set states) h"
  from IgnoreBarostat_enter_ok [OF assms] obtain self' where enter0:
    "IgnoreBarostat_enter self h = (Inr self', ?h1)
     \<and> num_barostats self' = num_barostats self
     \<and> ib_thermodynamic_states self' = states
     \<and> (0 < num_barostats self \<longrightarrow>
        length (temperatures self') = length states \<and> length (seeds self') = length states
      \<and> (distinct (map system states) \<longrightarrow>
            temperatures self' = map (\<lambda>s. fst (saved h s)) states
          \<and> seeds self' = map (\<lambda>s. snd (saved h s)) states))" ..
  note enter = enter0 [THEN conjunct1] enter0 [THEN conjunct2, THEN conjunct1]
    enter0 [THEN conjunct2, THEN conjunct2, THEN conjunct1]
    enter0 [THEN conjunct2, THEN conjunct2, THEN conjunct2]
  have lens: "0 < num_barostats self' \<longrightarrow>
      length (temperatures self') = length states \<and> length (seeds self') = length states"
    using enter(2,4) by simp
  from IgnoreBarostat_exit_ok [OF enter(3) lens, of ?h1] obtain h' where exit0:
    "IgnoreBarostat_exit self' ?h1 = (Inr False, h')
     \<and> (\<forall>a. a \<notin> system ` set states \<longrightarrow> h' a = ?h1 a)
     \<and> (num_barostats self' = 0 \<longrightarrow> h' = ?h1)
     \<and> (0 < num_barostats self' \<and> distinct (map system states) \<longrightarrow>
       (\<forall>j < length states. h' (system (states ! j)) =
          set_barostat_system (temperatures self' ! j) (seeds self' ! j) (?h1 (system (states ! j)))))" ..
  note exit = exit0 [THEN conjunct1] exit0 [THEN conjunct2, THEN conjunct1]
    exit0 [THEN conjunct2, THEN conjunct2, THEN conjunct1]
    exit0 [THEN conjunct2, THEN conjunct2, THEN conjunct2]
  have res: "with_IgnoreBarostat h states body = (body ?h1, h')"
    by (rule with_IgnoreBarostat_run [OF assms enter(1) exit(1)])
  have "h' = h" if d: "distinct (map system states)"
  proof (cases "0 < num_barostats self")
    case False
    then have "\<forall>s \<in> set states. count_barostats (forces (h (system s))) 0 = 0"
      using init by simp
    then have "?h1 = h" by (rule normalised_none)
    moreover have "h' = ?h1" using False exit(3) enter(2) by simp
    ultimately show ?thesis by simp
  next
    case pos: True
    have saved_eq: "temperatures self' = map (\<lambda>s. fst (saved h s)) states"
      "seeds self' = map (\<lambda>s. snd (saved h s)) states"
      using enter(4) pos d by simp_all
    have restore: "\<forall>j < length states. h' (system (states ! j)) =
          set_barostat_system (temperatures self' ! j) (seeds self' ! j) (?h1 (system (states ! j)))"
      using exit(4) enter(2) pos d by simp
    show ?thesis
    proof (rule ext)
      fix a
      show "h' a = h a"
      proof (cases "a \<in> system ` set states")
        case False
        then have "h' a = ?h1 a" using exit(2) by blast
        also have "\<dots> = h a" using False by (simp add: normalised_def)
        finally show ?thesis .
      next
        case True
        then obtain j where j: "j < length states" and a: "a = system (states ! j)"
          by (auto simp: in_set_conv_nth)
        define s where "s = states ! j"
        have mem: "s \<in> set states" using j by (simp add: s_def)
        have cnt: "count_barostats (forces (h a)) 0 = num_barostats self"
          using init mem a s_def by blast
        then have "last_barostat_state (forces (h a)) None \<noteq> None"
          using pos last_barostat_state_found by simp
        then have sv: "last_barostat_state (forces (h a)) None
                       = Some (fst (saved h s), snd (saved h s))"
          by (auto simp: saved_def a s_def)
        have le: "count_barostats (forces (h a)) 0 \<le> 1" using cnt init by simp
        have e1: "h' a = set_barostat_system (temperatures self' ! j) (seeds self' ! j) (?h1 a)"
          using restore j a by simp
        have e2: "temperatures self' ! j = fst (saved h s)" "seeds self' ! j = snd (saved h s)"
          using saved_eq j by (simp_all add: s_def)
        have e3: "?h1 a = set_barostat_system 1 1 (h a)"
          using True by (simp add: normalised_def modulo_barostat_def)
        have e4: "set_barostat_system (fst (saved h s)) (snd (saved h s))
                     (set_barostat_system 1 1 (h a)) = h a"
          by (rule set_barostat_system_restore [OF le sv])
        show ?thesis
          unfolding e1 e2 e3 by (rule e4)
      qed
    qed
  qed
  with res show ?thesis by blast
qed

lemma map_num_barostats_Inl:
  "map_num_barostats h states = Inl e \<Longrightarrow> e = ValueError ''Found multiple barostats!''"
  by (induction states) (auto simp: get_num_barostats_def Let_def split: sum.splits if_splits)

lemma IgnoreBarostat_init_Inl:
  assumes "IgnoreBarostat_init h states = Inl e"
  shows "(\<exists>msg. e = ValueError msg) \<or> e = AssertionError []"
proof (cases "map_num_barostats h states")
  case (Inl e')
  then show ?thesis using assms map_num_barostats_Inl [OF Inl]
    by (auto simp: IgnoreBarostat_init_def)
next
  case (Inr ns)
  then show ?thesis using assms
    by (cases ns) (auto simp: IgnoreBarostat_init_def split: if_splits)
qed

lemma pt_check_unfold:
  "pt_check_self_consistency h states =
     (if \<exists>s0 \<in> set states. \<exists>s1 \<in> set states. pressure s0 \<noteq> pressure s1
      then (Inl (ValueError ''For ParallelTempering, ThermodynamicState objects cannot have different pressures!''), h)
      else with_IgnoreBarostat h states (\<lambda>h1.
             if \<exists>s0 \<in> set states. \<exists>s1 \<in> set states. h1 (system s0) \<noteq> h1 (system s1)
             then Inl (ValueError ''For ParallelTempering, ThermodynamicState objects cannot have different systems!'')
             else Inr ()))"
  apply (subst pt_check_self_consistency_def)
  apply (subst for_each_pairs)
  apply (subst for_each_pairs)
  apply (cases "\<exists>s0 \<in> set states. \<exists>s1 \<in> set states. pressure s0 \<noteq> pressure s1")
   apply (simp_all only: if_True if_False sum.case)
  done

lemma pt_check_pressures:
  assumes "\<exists>s0 \<in> set states. \<exists>s1 \<in> set states. pressure s0 \<noteq> pressure s1"
  shows "pt_check_self_consistency h states =
     (Inl (ValueError ''For ParallelTempering, ThermodynamicState objects cannot have different pressures!''), h)"
  by (subst pt_check_unfold) (simp only: assms if_True)

lemma normalised_state:
  "s \<in> set states \<Longrightarrow> normalised (system ` set states) h (system s) = modulo_barostat (h (system s))"
  by (simp add: normalised_def)

lemma pt_check_systems:
  assumes "\<exists>s0 \<in> set states. \<exists>s1 \<in> set states.
             modulo_barostat (h (system s0)) \<noteq> modulo_barostat (h (system s1))"
  shows "\<exists>e h'. pt_check_self_consistency h states = (Inl e, h')
           \<and> ((\<exists>msg. e = ValueError msg) \<or> e = AssertionError [])"
proof (cases "\<exists>s0 \<in> set states. \<exists>s1 \<in> set states. pressure s0 \<noteq> pressure s1")
  case True
  then show ?thesis by (simp add: pt_check_pressures)
next
  case False
  let ?msg = "''For ParallelTempering, ThermodynamicState objects cannot have different systems!''"
  let ?body = "\<lambda>h1. if \<exists>s0 \<in> set states. \<exists>s1 \<in> set states. h1 (system s0) \<noteq> h1 (system s1)
                    then Inl (ValueError ?msg) else Inr ()"
  have eq: "pt_check_self_consistency h states = with_IgnoreBarostat h states ?body"
    by (subst pt_check_unfold) (simp only: False if_False)
  show ?thesis
  proof (cases "IgnoreBarostat_init h states")
    case (Inl e)
    then have "with_IgnoreBarostat h states ?body = (Inl e, h)"
      by (rule with_IgnoreBarostat_init_error)
    with eq IgnoreBarostat_init_Inl [OF Inl] show ?thesis by simp
  next
    case (Inr self)
    let ?h1 = "normalised (system ` set states) h"
    from with_IgnoreBarostat_body [OF Inr, of ?body] obtain h' where
      w: "with_IgnoreBarostat h states ?body = (?body ?h1, h')" by blast
    have "\<exists>s0 \<in> set states. \<exists>s1 \<in> set states. ?h1 (system s0) \<noteq> ?h1 (system s1)"
      using assms by (auto simp: normalised_state)
    then have "?body ?h1 = Inl (ValueError ?msg)"
      by (simp only: if_True)
    with w eq show ?thesis by simp
  qed
qed


text \<open>
  Claim C2. Constructing a Hamiltonian-exchange run whose states contain two states of
  different temperature or of different pressure fails with the \<open>ValueError\<close> of
  \<open>_check_self_consistency\<close>, whatever the constructor of the base class would do: it is
  not reached, so no iteration runs. Constructing a parallel-tempering run whose states
  contain two states of different pressure, or whose systems differ once barostat
  temperature and random seed are set aside, fails too: with a \<open>ValueError\<close>, or with the
  \<open>AssertionError\<close> of \<open>IgnoreBarostat.__init__\<close> when the states do not have the same
  number of barostats. These exceptions are what the code raises for a rejected
  configuration.
\<close>

theorem self_consistency_rejects:
  "((\<exists>s0 \<in> set hstates. \<exists>s1 \<in> set hstates.
        temperature s0 \<noteq> temperature s1 \<or> pressure s0 \<noteq> pressure s1)
      \<longrightarrow> (\<exists>msg. hex_init hbase hstates = Inl (ValueError msg)))
   \<and> ((\<exists>s0 \<in> set states. \<exists>s1 \<in> set states.
        pressure s0 \<noteq> pressure s1
        \<or> modulo_barostat (h (system s0)) \<noteq> modulo_barostat (h (system s1)))
      \<longrightarrow> (\<exists>e h'. pt_init base h states = (Inl e, h')
             \<and> ((\<exists>msg. e = ValueError msg) \<or> e = AssertionError [])))"
proof (intro conjI impI)
  assume "\<exists>s0 \<in> set hstates. \<exists>s1 \<in> set hstates.
        temperature s0 \<noteq> temperature s1 \<or> pressure s0 \<noteq> pressure s1"
  then have "\<exists>msg. hex_check_self_consistency hstates = Inl (ValueError msg)"
    by (subst hex_check_eq) auto
  then show "\<exists>msg. hex_init hbase hstates = Inl (ValueError msg)"
    by (auto simp: hex_init_def)
next
  assume a: "\<exists>s0 \<in> set states. \<exists>s1 \<in> set states.
        pressure s0 \<noteq> pressure s1
        \<or> modulo_barostat (h (system s0)) \<noteq> modulo_barostat (h (system s1))"
  have "\<exists>e h'. pt_check_self_consistency h states = (Inl e, h')
           \<and> ((\<exists>msg. e = ValueError msg) \<or> e = AssertionError [])"
  proof (cases "\<exists>s0 \<in> set states. \<exists>s1 \<in> set states. pressure s0 \<noteq> pressure s1")
    case True
    then show ?thesis by (simp add: pt_check_pressures)
  next
    case False
    with a have "\<exists>s0 \<in> set states. \<exists>s1 \<in> set states.
             modulo_barostat (h (system s0)) \<noteq> modulo_barostat (h (system s1))" by blast
    then show ?thesis by (rule pt_check_systems)
  qed
  then obtain e h' where "pt_check_self_consistency h states = (Inl e, h')"
    "(\<exists>msg. e = ValueError msg) \<or> e = AssertionError []" by blast
  then show "\<exists>e h'. pt_init base h states = (Inl e, h')
             \<and> ((\<exists>msg. e = ValueError msg) \<or> e = AssertionError [])"
    by (simp add: pt_init_def)
qed


theorem self_consistency_rejects_witness:
  "(\<exists>s0 \<in> set hex_states. \<exists>s1 \<in> set hex_states. temperature s0 \<noteq> temperature s1)
   \<and> (\<exists>msg. hex_init (\<lambda>states. Inr states) hex_states = Inl (ValueError msg))
   \<and> (\<exists>s0 \<in> set pt_states. \<exists>s1 \<in> set pt_states.
         modulo_barostat (pt_store (system s0)) \<noteq> modulo_barostat (pt_store (system s1)))
   \<and> (\<exists>e h'. pt_init (\<lambda>h states. (Inr states, h)) pt_store pt_states = (Inl e, h')
             \<and> ((\<exists>msg. e = ValueError msg) \<or> e = AssertionError []))"
proof -
  have a: "\<exists>s0 \<in> set hex_states. \<exists>s1 \<in> set hex_states. temperature s0 \<noteq> temperature s1"
    by (auto simp: hex_states_def)
  have b: "\<exists>s0 \<in> set pt_states. \<exists>s1 \<in> set pt_states.
         modulo_barostat (pt_store (system s0)) \<noteq> modulo_barostat (pt_store (system s1))"
    by (auto simp: pt_states_def pt_store_def modulo_barostat_def set_barostat_system_def)
  show ?thesis
    using a b self_consistency_rejects [where hstates = hex_states and states = pt_states
        and h = pt_store and hbase = "\<lambda>states. Inr states"
        and base = "\<lambda>h states. (Inr states, h)"]
    by blast
qed

section \<open>\<open>IgnoreBarostat\<close> and shared systems\<close>

text \<open>
  When the states hold pairwise different system objects, the \<open>with\<close> statement leaves the
  store as it found it, whether the constructor, the body or nothing raised: every
  barostat has its temperature and seed again, and nothing else was touched.
\<close>

lemma IgnoreBarostat_restores_distinct:
  assumes "distinct (map system states)"
  shows "snd (with_IgnoreBarostat h states body) = h"
proof (cases "IgnoreBarostat_init h states")
  case (Inl e)
  then show ?thesis by (simp add: with_IgnoreBarostat_init_error)
next
  case (Inr self)
  from with_IgnoreBarostat_body [OF Inr, of body] assms show ?thesis by auto
qed

text \<open>The exception of the body, if any, is the result: \<open>__exit__\<close> does not suppress it.\<close>

lemma IgnoreBarostat_result:
  assumes "IgnoreBarostat_init h states = Inr self"
  shows "fst (with_IgnoreBarostat h states body) = body (normalised (system ` set states) h)"
  using with_IgnoreBarostat_body [OF assms, of body] by auto

lemmas ib_defs = with_IgnoreBarostat_def IgnoreBarostat_init_def IgnoreBarostat_enter_def
  IgnoreBarostat_exit_def get_num_barostats_def get_barostat_state_def set_barostat_state_def
  set_barostat_system_def

text \<open>
  Claim C5, as the code has it. Two states that hold the same system object, whose
  barostat is at 300 K with seed 7: \<open>__enter__\<close> saves (300, 7) for the first state and sets
  the barostat to (1, 1), then saves (1, 1) for the second state, reading the same
  barostat; \<open>__exit__\<close> sets (300, 7) and then (1, 1). After the \<open>with\<close> statement, with a
  body that returns normally, the barostat is at temperature 1 with seed 1, not at the
  values it had on entry.
\<close>

theorem IgnoreBarostat_shared_system_not_restored:
  "with_IgnoreBarostat shared_store shared_states (\<lambda>h. Inr ()) =
     (Inr (), shared_store (0 := \<lparr>particles = 3,
                 forces = [OtherForce ''HarmonicBondForce'', MonteCarloBarostat 1 1 1]\<rparr>))"
  by (simp add: ib_defs shared_store_def shared_states_def Let_def)

text \<open>
  The self-consistency check of parallel tempering accepts these two states and leaves
  their barostat at the sentinel values.
\<close>

lemma pt_check_shared_system:
  "pt_check_self_consistency shared_store shared_states =
     (Inr (), shared_store (0 := \<lparr>particles = 3,
                 forces = [OtherForce ''HarmonicBondForce'', MonteCarloBarostat 1 1 1]\<rparr>))"
  by (simp add: pt_check_self_consistency_def ib_defs shared_store_def shared_states_def Let_def)







lemma create_never_returns:
  "\<exists>e. create sys coords filename T_min T_max temps n_temps press = Inl e"
  by (simp add: create_def Let_def split: sum.splits prod.splits)

text \<open>
  Claim C10. \<open>write\<close> called with \<open>cell_lengths\<close> and no \<open>cell_angles\<close>, or with
  \<open>cell_angles\<close> and no \<open>cell_lengths\<close>, raises \<open>ValueError\<close> and leaves the file as it
  was: nothing has been appended.
\<close>

theorem write_rejects_half_cell:
  assumes "(cell_lengths args \<noteq> None \<and> cell_angles args = None)
         \<or> (cell_angles args \<noteq> None \<and> cell_lengths args = None)"
  shows "\<exists>msg. hdf5_write iu et self args = (self, Some (ValueError msg))"
  using assms by (auto simp: hdf5_write_def)

theorem write_rejects_half_cell_witness:
  "cell_lengths lengths_only \<noteq> None \<and> cell_angles lengths_only = None
   \<and> (\<exists>msg. hdf5_write (\<lambda>v u. v) (\<lambda>v ndim name shp can_be_none. Inr v) fresh_h5 lengths_only
              = (fresh_h5, Some (ValueError msg)))"
  using write_rejects_half_cell [of lengths_only "\<lambda>v u. v" "\<lambda>v ndim name shp can_be_none. Inr v" fresh_h5]
  by (simp add: lengths_only_def)

text \<open>The same call without the cell lengths writes the frame.\<close>

lemma write_plain_frame:
  "hdf5_write (\<lambda>v u. v) (\<lambda>v ndim name shp can_be_none. Inr v) fresh_h5 plain_frame =
     (fresh_h5\<lparr>needs_initialization := False, frame_index := 1, file_n_atoms := 2,
        nodes := [''coordinates'' \<mapsto> frames one_frame]\<rparr>, None)"
  by (simp add: hdf5_write_def write_prepare_def initialize_headers_def plain_frame_def
      lengths_only_def fresh_h5_def one_frame_def)

section \<open>Options survive storing and loading\<close>

lemma store_load_plain:
  assumes "plain_scalar v"
  shows "\<exists>ncvar. store_option unit_str v = Inr ncvar \<and> ov_units ncvar = None
           \<and> py_construct (ov_type ncvar) (ov_value ncvar) = (Inr v :: error + 'u py_value)"
  using assms
  by (cases v rule: plain_scalar.cases) (simp_all add: store_option_def strip_units_def py_construct_def)

lemma store_load_option:
  assumes "storable unit_str eval_unit v"
  shows "\<exists>ncvar. store_option unit_str v = Inr ncvar \<and> load_option eval_unit ncvar = Inr v"
proof (cases v)
  case (Quantity w u)
  with assms have w: "plain_scalar w" and u: "unit_round_trips unit_str eval_unit u" by simp_all
  from u obtain c cs where name: "unit_str u = c # cs"
    and ev: "eval_unit (if c = CHR ''/'' then CHR ''1'' # c # cs else c # cs) = Inr u"
    by (auto simp: unit_round_trips_def split: list.splits)
  from w show ?thesis
    using Quantity name ev
    by (cases w rule: plain_scalar.cases)
      (simp_all add: store_option_def strip_units_def load_option_def py_construct_def)
next
  case PyNone
  with assms show ?thesis by simp
next
  case (PyBool b)
  then show ?thesis
    by (simp add: store_option_def strip_units_def load_option_def py_construct_def)
next
  case (PyInt i)
  with assms show ?thesis
    by (simp add: store_option_def strip_units_def load_option_def py_construct_def)
next
  case (PyFloat x)
  with assms show ?thesis
    by (cases x) (simp_all add: store_option_def strip_units_def load_option_def py_construct_def)
next
  case (PyStr s)
  then show ?thesis
    by (simp add: store_option_def strip_units_def load_option_def py_construct_def)
next
  case (PyArray a)
  with assms show ?thesis by simp
qed

lemma store_options_loop_ok:
  assumes "\<forall>name \<in> set names. \<exists>v. opts name = Some v \<and> storable unit_str eval_unit v"
  shows "\<exists>ncvars. store_options_loop unit_str opts names = Inr ncvars
           \<and> map fst ncvars = names
           \<and> (\<forall>(name, ncvar) \<in> set ncvars. load_option eval_unit ncvar = Inr (the (opts name)))"
  using assms
proof (induction names)
  case Nil
  then show ?case by simp
next
  case (Cons name names)
  then obtain v where v: "opts name = Some v" "storable unit_str eval_unit v" by auto
  from store_load_option [OF v(2)] obtain ncvar where
    ncvar: "store_option unit_str v = Inr ncvar" "load_option eval_unit ncvar = Inr v" by blast
  from Cons obtain ncvars where
    ncvars: "store_options_loop unit_str opts names = Inr ncvars" "map fst ncvars = names"
      "\<forall>(name, ncvar) \<in> set ncvars. load_option eval_unit ncvar = Inr (the (opts name))"
    by auto
  show ?case using v ncvar ncvars by simp
qed

lemma load_options_loop_ok:
  assumes "\<forall>(name, ncvar) \<in> set ncvars. load_option eval_unit ncvar = Inr (the (opts name))"
  shows "\<exists>loaded. load_options_loop eval_unit ncvars acc = Inr loaded
           \<and> (\<forall>name. loaded name =
                 (if name \<in> fst ` set ncvars then Some (the (opts name)) else acc name))"
  using assms
proof (induction ncvars arbitrary: acc)
  case Nil
  then show ?case by simp
next
  case (Cons p ncvars)
  obtain name ncvar where p: "p = (name, ncvar)" by (cases p)
  have l: "load_option eval_unit ncvar = Inr (the (opts name))" using Cons.prems p by simp
  have "\<forall>(name, ncvar) \<in> set ncvars. load_option eval_unit ncvar = Inr (the (opts name))"
    using Cons.prems by simp
  from Cons.IH [OF this, of "acc(name \<mapsto> the (opts name))"] obtain loaded where
    "load_options_loop eval_unit ncvars (acc(name \<mapsto> the (opts name))) = Inr loaded"
    "\<forall>n. loaded n = (if n \<in> fst ` set ncvars then Some (the (opts n))
                      else (acc(name \<mapsto> the (opts name))) n)"
    by blast
  then show ?case using p l by auto
qed

text \<open>
  Claim C7. When every option in \<open>options_to_store\<close> has a value that is an integer of
  64 bits, a finite float, a boolean, a string, or a quantity of one of these whose unit
  is denoted again by the name stored for it (\<open>str\<close> of the unit, evaluated in
  \<open>simtk.unit\<close> with a \<open>1\<close> in front of a leading \<open>/\<close>), then \<open>_store_options\<close>
  succeeds, and \<open>load_options\<close> on the file it wrote returns a table with exactly these
  options, each with the value it had: the same Python type, and for a quantity the same
  value and unit.
\<close>

theorem options_round_trip:
  assumes "\<forall>name \<in> set options_to_store. \<exists>v. opts name = Some v \<and> storable unit_str eval_unit v"
  shows "\<exists>nc' loaded. store_options unit_str opts nc = Inr nc'
           \<and> load_options eval_unit nc' = Inr loaded
           \<and> (\<forall>name \<in> set options_to_store. loaded name = opts name)
           \<and> dom loaded = set options_to_store"
proof -
  from store_options_loop_ok [OF assms] obtain ncvars where
    ncvars: "store_options_loop unit_str opts options_to_store = Inr ncvars"
      "map fst ncvars = options_to_store"
      "\<forall>(name, ncvar) \<in> set ncvars. load_option eval_unit ncvar = Inr (the (opts name))"
    by blast
  from load_options_loop_ok [OF ncvars(3), of Map.empty] obtain loaded where
    loaded: "load_options_loop eval_unit ncvars Map.empty = Inr loaded"
      "\<forall>name. loaded name = (if name \<in> fst ` set ncvars then Some (the (opts name)) else None)"
    by auto
  have names: "fst ` set ncvars = set options_to_store"
    using ncvars(2) by (metis set_map)
  let ?nc' = "nc\<lparr>dimensions := (if ''scalar'' \<in> dom (dimensions nc) then dimensions nc
                                  else (dimensions nc)(''scalar'' \<mapsto> 1)),
                  grp_options := Some ncvars\<rparr>"
  have "store_options unit_str opts nc = Inr ?nc'"
    using ncvars(1) by (simp add: store_options_def)
  moreover have "load_options eval_unit ?nc' = Inr loaded"
    using loaded(1) by (simp add: load_options_def)
  moreover have "\<forall>name \<in> set options_to_store. loaded name = opts name"
    using loaded(2) names assms by auto
  moreover have "dom loaded = set options_to_store"
    using loaded(2) names by (auto simp: dom_def)
  ultimately show ?thesis by blast
qed

lemma example_options_storable:
  "\<forall>name \<in> set options_to_store.
     \<exists>v. example_options name = Some v \<and> storable (\<lambda>u. u) example_eval_unit v"
  by (simp add: options_to_store_def example_options_def unit_round_trips_def example_eval_unit_def
      int64_def)

theorem options_round_trip_witness:
  "\<exists>nc' loaded. store_options (\<lambda>u. u) example_options (empty_dataset :: unit ncfile) = Inr nc'
           \<and> load_options example_eval_unit nc' = Inr loaded
           \<and> loaded ''collision_rate'' = Some (Quantity (PyFloat (Finite 20)) ''/picosecond'')
           \<and> loaded ''minimize'' = Some (PyBool True)
           \<and> loaded ''number_of_iterations'' = Some (PyInt 10)"
proof -
  note h = example_options_storable
  from options_round_trip [OF h, of "empty_dataset :: unit ncfile"]
  obtain nc' loaded where r:
    "store_options (\<lambda>u. u) example_options (empty_dataset :: unit ncfile) = Inr nc'"
    "load_options example_eval_unit nc' = Inr loaded"
    "\<forall>name \<in> set options_to_store. loaded name = example_options name"
    by blast
  have "loaded ''collision_rate'' = example_options ''collision_rate''"
    "loaded ''minimize'' = example_options ''minimize''"
    "loaded ''number_of_iterations'' = example_options ''number_of_iterations''"
    using r(3) by (simp_all add: options_to_store_def)
  then have "loaded ''collision_rate'' = Some (Quantity (PyFloat (Finite 20)) ''/picosecond'')"
    "loaded ''minimize'' = Some (PyBool True)"
    "loaded ''number_of_iterations'' = Some (PyInt 10)"
    by (simp_all add: example_options_def)
  with r(1,2) show ?thesis by blast
qed

text \<open>
  A float that is not finite does not survive. \<open>_store_options\<close> stores \<open>inf\<close> in a
  variable of type \<open>float\<close>; \<open>load_options\<close> then evaluates the text \<open>float(inf)\<close>, in
  which \<open>inf\<close> is a name that nothing binds, and raises \<open>NameError\<close>: with such a value
  in the table, the options are stored and cannot be loaded. An integer that does not fit
  64 bits is not stored at all.
\<close>

theorem options_round_trip_not_finite:
  "store_option (\<lambda>u. u) (PyFloat PosInf :: string py_value)
     = Inr \<lparr>ov_value = NcFloat PosInf, ov_type = ''float'', ov_units = None\<rparr>
   \<and> load_option example_eval_unit \<lparr>ov_value = NcFloat PosInf, ov_type = ''float'', ov_units = None\<rparr>
     = (Inl (NameError ''inf'') :: error + string py_value)
   \<and> \<not> isl (store_options (\<lambda>u. u) inf_options (empty_dataset :: unit ncfile))
   \<and> store_then_load (\<lambda>u. u) example_eval_unit inf_options (empty_dataset :: unit ncfile)
     = Inl (NameError ''inf'')
   \<and> store_option (\<lambda>u. u) (PyInt (2 ^ 63) :: string py_value)
     = Inl (OverflowError ''Python int too large to convert to C long'')"
  by (simp add: store_then_load_def store_options_def options_to_store_def store_option_def
      strip_units_def inf_options_def example_options_def load_options_def load_option_def
      py_construct_def example_eval_unit_def int64_def)

lemma assignedD:
  assumes "assigned f32 n kvs nc nc'"
  shows "name \<notin> fst ` set kvs \<Longrightarrow> variables nc' name = variables nc name"
    and "(name, v) \<in> set kvs \<Longrightarrow> variables nc name = Some var
           \<Longrightarrow> nc_convert f32 (var_type var) (row_shape nc var) v = Inr row
           \<Longrightarrow> variables nc' name = Some (written_row n row var)"
    and "d \<noteq> ''iteration'' \<Longrightarrow> dimensions nc' d = dimensions nc d"
    and "kvs \<noteq> [] \<Longrightarrow> dimension_size nc' ''iteration'' = max (dimension_size nc ''iteration'') (n + 1)"
    and "grp_thermodynamic_states nc' = grp_thermodynamic_states nc"
    and "grp_options nc' = grp_options nc"
proof -
  note a = assms [unfolded assigned_def]
  show "name \<notin> fst ` set kvs \<Longrightarrow> variables nc' name = variables nc name"
    using a [THEN conjunct1] by (rule allE) (erule mp)
  show "(name, v) \<in> set kvs \<Longrightarrow> variables nc name = Some var
           \<Longrightarrow> nc_convert f32 (var_type var) (row_shape nc var) v = Inr row
           \<Longrightarrow> variables nc' name = Some (written_row n row var)"
    using a [THEN conjunct2, THEN conjunct1, rule_format] .
  show "d \<noteq> ''iteration'' \<Longrightarrow> dimensions nc' d = dimensions nc d"
    using a [THEN conjunct2, THEN conjunct2, THEN conjunct1, rule_format] .
  show "kvs \<noteq> [] \<Longrightarrow> dimension_size nc' ''iteration'' = max (dimension_size nc ''iteration'') (n + 1)"
    using a [THEN conjunct2, THEN conjunct2, THEN conjunct2, THEN conjunct1, rule_format] .
  show "grp_thermodynamic_states nc' = grp_thermodynamic_states nc"
    using a [THEN conjunct2, THEN conjunct2, THEN conjunct2, THEN conjunct2, THEN conjunct1] .
  show "grp_options nc' = grp_options nc"
    using a [THEN conjunct2, THEN conjunct2, THEN conjunct2, THEN conjunct2, THEN conjunct2] .
qed

lemma assignedI:
  assumes "\<And>name. name \<notin> fst ` set kvs \<Longrightarrow> variables nc' name = variables nc name"
    and "\<And>name v var row. (name, v) \<in> set kvs \<Longrightarrow> variables nc name = Some var
           \<Longrightarrow> nc_convert f32 (var_type var) (row_shape nc var) v = Inr row
           \<Longrightarrow> variables nc' name = Some (written_row n row var)"
    and "\<And>d. d \<noteq> ''iteration'' \<Longrightarrow> dimensions nc' d = dimensions nc d"
    and "kvs \<noteq> [] \<Longrightarrow> dimension_size nc' ''iteration'' = max (dimension_size nc ''iteration'') (n + 1)"
    and "grp_thermodynamic_states nc' = grp_thermodynamic_states nc"
    and "grp_options nc' = grp_options nc"
  shows "assigned f32 n kvs nc nc'"
  unfolding assigned_def
  by (intro conjI allI impI) (fact assms | rule assms, assumption+)+


lemma nc_index_nat [simp]: "nc_index m (int n) = Inr n"
  by (simp add: nc_index_def)

lemma nc_assign_ok:
  assumes "variables nc name = Some var"
    and "nc_convert f32 (var_type var) (row_shape nc var) v = Inr row"
  shows "nc_assign f32 nc name (int n) v =
     Inr (nc\<lparr>dimensions := (dimensions nc)
                 (''iteration'' \<mapsto> max (dimension_size nc ''iteration'') (n + 1)),
             variables := (variables nc)(name \<mapsto> written_row n row var)\<rparr>)"
  using assms by (simp add: nc_assign_def written_row_def)

lemma row_shape_update:
  assumes "''iteration'' \<notin> set (tl (var_dimensions var))"
  shows "row_shape (nc\<lparr>dimensions := (dimensions nc)(''iteration'' \<mapsto> k), variables := vs\<rparr>) var
         = row_shape nc var"
proof -
  have "map (dimension_size (nc\<lparr>dimensions := (dimensions nc)(''iteration'' \<mapsto> k), variables := vs\<rparr>))
          (tl (var_dimensions var))
        = map (dimension_size nc) (tl (var_dimensions var))"
    using assms by (intro map_cong) (auto simp: dimension_size_def)
  then show ?thesis by (simp add: row_shape_def var_shape_def map_tl)
qed

lemma assign_all_ok:
  assumes "distinct (map fst kvs)"
    and "\<forall>(name, v) \<in> set kvs. \<exists>var row. variables nc name = Some var
           \<and> ''iteration'' \<notin> set (tl (var_dimensions var))
           \<and> nc_convert f32 (var_type var) (row_shape nc var) v = Inr row"
  shows "\<exists>nc'. assign_all f32 nc (int n) kvs = Inr nc' \<and> assigned f32 n kvs nc nc'"
  using assms
proof (induction kvs arbitrary: nc)
  case Nil
  then show ?case by (simp add: assigned_def)
next
  case (Cons kv kvs)
  obtain name v where kv: "kv = (name, v)" by (cases kv)
  from Cons.prems(2) kv obtain var row where var:
    "variables nc name = Some var" "''iteration'' \<notin> set (tl (var_dimensions var))"
    "nc_convert f32 (var_type var) (row_shape nc var) v = Inr row"
    by auto
  define k where "k = max (dimension_size nc ''iteration'') (n + 1)"
  define nc1 where "nc1 = nc\<lparr>dimensions := (dimensions nc)(''iteration'' \<mapsto> k),
                  variables := (variables nc)(name \<mapsto> written_row n row var)\<rparr>"
  have step: "nc_assign f32 nc name (int n) v = Inr nc1"
    unfolding nc1_def k_def by (rule nc_assign_ok [OF var(1,3)])
  have notin: "name \<notin> fst ` set kvs" using Cons.prems(1) kv by simp
  have d: "distinct (map fst kvs)" using Cons.prems(1) by simp
  have vars1: "variables nc1 name' = variables nc name'" if "name' \<noteq> name" for name'
    using that by (simp add: nc1_def)
  have shape1: "row_shape nc1 var' = row_shape nc var'"
    if "''iteration'' \<notin> set (tl (var_dimensions var'))" for var'
    unfolding nc1_def by (rule row_shape_update [OF that])
  have pre: "\<forall>(name', v') \<in> set kvs. \<exists>var' row'. variables nc1 name' = Some var'
           \<and> ''iteration'' \<notin> set (tl (var_dimensions var'))
           \<and> nc_convert f32 (var_type var') (row_shape nc1 var') v' = Inr row'"
  proof (clarify)
    fix name' v' assume mem: "(name', v') \<in> set kvs"
    then have ne: "name' \<noteq> name" using notin by force
    from Cons.prems(2) mem obtain var' row' where var':
      "variables nc name' = Some var'" "''iteration'' \<notin> set (tl (var_dimensions var'))"
      "nc_convert f32 (var_type var') (row_shape nc var') v' = Inr row'"
      by auto
    have "variables nc1 name' = Some var'" using var'(1) vars1 [OF ne] by simp
    moreover have "nc_convert f32 (var_type var') (row_shape nc1 var') v' = Inr row'"
      using var'(3) shape1 [OF var'(2)] by simp
    ultimately show "\<exists>var' row'. variables nc1 name' = Some var'
           \<and> ''iteration'' \<notin> set (tl (var_dimensions var'))
           \<and> nc_convert f32 (var_type var') (row_shape nc1 var') v' = Inr row'"
      using var'(2) by blast
  qed
  from Cons.IH [OF d pre] obtain nc' where run: "assign_all f32 nc1 (int n) kvs = Inr nc'"
    and a: "assigned f32 n kvs nc1 nc'" by blast
  note a1 = assignedD(1) [OF a] and a2 = assignedD(2) [OF a] and a3 = assignedD(3) [OF a]
    and a4 = assignedD(4) [OF a] and a5 = assignedD(5,6) [OF a]
  have res: "assign_all f32 nc (int n) (kv # kvs) = Inr nc'"
    using kv step run by simp
  have c1: "variables nc' name' = variables nc name'" if "name' \<notin> fst ` set (kv # kvs)" for name'
  proof -
    from that have "name' \<noteq> name" "name' \<notin> fst ` set kvs" using kv by simp_all
    then show ?thesis using a1 [of name'] vars1 [of name'] by simp
  qed
  have c2: "variables nc' name' = Some (written_row n row' var')"
    if mem: "(name', v') \<in> set (kv # kvs)" and va: "variables nc name' = Some var'"
      and co: "nc_convert f32 (var_type var') (row_shape nc var') v' = Inr row'"
    for name' v' var' row'
  proof (cases "(name', v') = kv")
    case True
    then have e: "name' = name" "v' = v" using kv by simp_all
    with va co var have "var' = var" "row' = row" by simp_all
    moreover have "variables nc' name = variables nc1 name" using a1 [OF notin] .
    moreover have "variables nc1 name = Some (written_row n row var)" by (simp add: nc1_def)
    ultimately show ?thesis using e by simp
  next
    case False
    then have mem': "(name', v') \<in> set kvs" using mem by simp
    then have ne: "name' \<noteq> name" using notin by force
    from Cons.prems(2) mem' va have it: "''iteration'' \<notin> set (tl (var_dimensions var'))"
      by auto
    have "nc_convert f32 (var_type var') (row_shape nc1 var') v' = Inr row'"
      using co shape1 [OF it] by simp
    moreover have "variables nc1 name' = Some var'" using va vars1 [OF ne] by simp
    ultimately show ?thesis using a2 [OF mem'] by simp
  qed
  have c3: "dimensions nc' d = dimensions nc d" if "d \<noteq> ''iteration''" for d
    using a3 [OF that] that by (simp add: nc1_def)
  have s1: "dimension_size nc1 ''iteration'' = k" by (simp add: dimension_size_def nc1_def)
  have c4: "dimension_size nc' ''iteration'' = max (dimension_size nc ''iteration'') (n + 1)"
  proof (cases "kvs = []")
    case True
    then have "nc' = nc1" using run by simp
    then show ?thesis using s1 k_def by simp
  next
    case False
    then show ?thesis using a4 s1 k_def by simp
  qed
  have c5: "grp_thermodynamic_states nc' = grp_thermodynamic_states nc"
    "grp_options nc' = grp_options nc"
    using a5 by (simp_all add: nc1_def)
  have "assigned f32 n (kv # kvs) nc nc'"
    by (rule assignedI) (use c1 c2 c3 c4 c5 in blast)+
  with res show ?case by blast
qed


lemma repex_dataset_var:
  assumes "repex_dataset nc R A" and "(name, ty, dims) \<in> set series"
  shows "\<exists>var. variables nc name = Some var \<and> var_type var = ty \<and> var_dimensions var = dims"
proof -
  from assms(1) have "list_all (\<lambda>(name, ty, dims).
        case variables nc name of None \<Rightarrow> False
        | Some var \<Rightarrow> var_type var = ty \<and> var_dimensions var = dims) series"
    by (simp add: repex_dataset_def)
  with assms(2) have "case variables nc name of None \<Rightarrow> False
        | Some var \<Rightarrow> var_type var = ty \<and> var_dimensions var = dims"
    unfolding list_all_iff by fast
  then show ?thesis by (cases "variables nc name") simp_all
qed

lemma repex_dataset_dims:
  assumes "repex_dataset nc R A"
  shows "dimension_size nc ''replica'' = R" "dimension_size nc ''atom'' = A"
    "dimension_size nc ''spatial'' = 3"
  using assms by (simp_all add: repex_dataset_def dimension_size_def)

lemma has_shape_Arr:
  "has_shape (k # ns) a \<Longrightarrow> \<exists>xs. a = Arr xs \<and> length xs = k"
  by (cases a) simp_all

lemma nc_read_written:
  assumes "variables nc name = Some (written_row n (Numeric a) var)"
    and "dimension_size nc ''iteration'' = n + 1"
  shows "nc_read nc name (int n) = Inr a"
proof -
  let ?xs = "var_data var @ replicate (n + 1 - length (var_data var)) Fill"
  have len: "n < length ?xs" by simp
  then have "?xs[n := Numeric a] ! n = Numeric a" by (rule nth_list_update_eq)
  moreover have "length (?xs[n := Numeric a]) = length ?xs" by simp
  ultimately show ?thesis
    using assms len by (simp add: nc_read_def written_row_def del: length_append length_replicate)
qed

lemma read_replicas_ok:
  assumes "nc_read nc name i = Inr (Arr xs)" and "\<forall>r \<in> set rs. r < length xs"
  shows "read_replicas nc name i rs = Inr (map ((!) xs) rs)"
  using assms(2) by (induction rs) (simp_all add: assms(1))

lemma read_replicas_all:
  assumes "nc_read nc name i = Inr (Arr xs)"
  shows "read_replicas nc name i [0..<length xs] = Inr xs"
  using read_replicas_ok [OF assms, of "[0..<length xs]"] by (simp add: map_nth)

lemma rel_array_cast:
  assumes "\<forall>x. tol (f32 x) x"
  shows "rel_array tol (cast_array f32 a) a"
proof (induction a)
  case (Num x)
  then show ?case using assms by simp
next
  case (Arr xs)
  then show ?case by (simp add: list_all2_conv_all_nth)
qed


lemma output_iteration_ok:
  assumes ds: "repex_dataset nc R A"
    and shapes: "has_shape [R, A, 3] c" "has_shape [R, 3, 3] b" "has_shape [R] vol"
      "has_shape [R] st" "has_shape [R, R] e" "has_shape [R, R] p" "has_shape [R, R] a"
  shows "\<exists>nc'.
       output_iteration f32 nc (iteration_kwargs (int n) c b vol st e p a t :: string \<rightharpoonup> 'u py_value) = Inr nc'
     \<and> variables nc' ''positions'' =
          Some (written_row n (Numeric (cast_array f32 c)) (the (variables nc ''positions'')))
     \<and> variables nc' ''box_vectors'' =
          Some (written_row n (Numeric (cast_array f32 b)) (the (variables nc ''box_vectors'')))
     \<and> variables nc' ''energies'' =
          Some (written_row n (Numeric (cast_array f32 e)) (the (variables nc ''energies'')))
     \<and> variables nc' ''states'' =
          Some (written_row n (Numeric st) (the (variables nc ''states'')))
     \<and> dimension_size nc' ''iteration'' = max (dimension_size nc ''iteration'') (n + 1)
     \<and> (\<forall>d. d \<noteq> ''iteration'' \<longrightarrow> dimensions nc' d = dimensions nc d)
     \<and> grp_thermodynamic_states nc' = grp_thermodynamic_states nc
     \<and> grp_options nc' = grp_options nc"
proof -
  let ?kwargs = "iteration_kwargs (int n) c b vol st e p a t :: string \<rightharpoonup> 'u py_value"
  let ?kvs = "[(''positions'', PyArray c), (''box_vectors'', PyArray b), (''volumes'', PyArray vol),
     (''states'', PyArray st), (''energies'', PyArray e), (''proposed'', PyArray p),
     (''accepted'', PyArray a), (''timestamp'', PyStr t)] :: (string \<times> 'u py_value) list"
  note dims = repex_dataset_dims [OF ds]
  obtain pos where pos: "variables nc ''positions'' = Some pos" "var_type pos = NC_FLOAT"
      "var_dimensions pos = [''iteration'', ''replica'', ''atom'', ''spatial'']"
    using repex_dataset_var [OF ds, of "''positions''"] by (auto simp: series_def)
  obtain sts where sts: "variables nc ''states'' = Some sts" "var_type sts = NC_INT"
      "var_dimensions sts = [''iteration'', ''replica'']"
    using repex_dataset_var [OF ds, of "''states''"] by (auto simp: series_def)
  obtain en where en: "variables nc ''energies'' = Some en" "var_type en = NC_FLOAT"
      "var_dimensions en = [''iteration'', ''replica'', ''replica'']"
    using repex_dataset_var [OF ds, of "''energies''"] by (auto simp: series_def)
  obtain pr where pr: "variables nc ''proposed'' = Some pr" "var_type pr = NC_INT"
      "var_dimensions pr = [''iteration'', ''replica'', ''replica'']"
    using repex_dataset_var [OF ds, of "''proposed''"] by (auto simp: series_def)
  obtain ac where ac: "variables nc ''accepted'' = Some ac" "var_type ac = NC_INT"
      "var_dimensions ac = [''iteration'', ''replica'', ''replica'']"
    using repex_dataset_var [OF ds, of "''accepted''"] by (auto simp: series_def)
  obtain box where box: "variables nc ''box_vectors'' = Some box" "var_type box = NC_FLOAT"
      "var_dimensions box = [''iteration'', ''replica'', ''spatial'', ''spatial'']"
    using repex_dataset_var [OF ds, of "''box_vectors''"] by (auto simp: series_def)
  obtain vo where vo: "variables nc ''volumes'' = Some vo" "var_type vo = NC_FLOAT"
      "var_dimensions vo = [''iteration'', ''replica'']"
    using repex_dataset_var [OF ds, of "''volumes''"] by (auto simp: series_def)
  obtain ts where ts: "variables nc ''timestamp'' = Some ts" "var_type ts = NC_STRING"
      "var_dimensions ts = [''iteration'']"
    using repex_dataset_var [OF ds, of "''timestamp''"] by (auto simp: series_def)
  have rs: "row_shape nc pos = [R, A, 3]" "row_shape nc sts = [R]" "row_shape nc en = [R, R]"
    "row_shape nc pr = [R, R]" "row_shape nc ac = [R, R]" "row_shape nc box = [R, 3, 3]"
    "row_shape nc vo = [R]" "row_shape nc ts = []"
    using pos sts en pr ac box vo ts dims by (simp_all add: row_shape_def var_shape_def)
  have conv: "nc_convert f32 (var_type pos) (row_shape nc pos) (PyArray c :: 'u py_value) = Inr (Numeric (cast_array f32 c))"
    "nc_convert f32 (var_type box) (row_shape nc box) (PyArray b :: 'u py_value) = Inr (Numeric (cast_array f32 b))"
    "nc_convert f32 (var_type vo) (row_shape nc vo) (PyArray vol :: 'u py_value) = Inr (Numeric (cast_array f32 vol))"
    "nc_convert f32 (var_type sts) (row_shape nc sts) (PyArray st :: 'u py_value) = Inr (Numeric st)"
    "nc_convert f32 (var_type en) (row_shape nc en) (PyArray e :: 'u py_value) = Inr (Numeric (cast_array f32 e))"
    "nc_convert f32 (var_type pr) (row_shape nc pr) (PyArray p :: 'u py_value) = Inr (Numeric p)"
    "nc_convert f32 (var_type ac) (row_shape nc ac) (PyArray a :: 'u py_value) = Inr (Numeric a)"
    "nc_convert f32 (var_type ts) (row_shape nc ts) (PyStr t :: 'u py_value) = Inr (Text t)"
    unfolding rs using shapes pos(2) box(2) vo(2) sts(2) en(2) pr(2) ac(2) ts(2)
    by (simp_all add: nc_convert_def)
  have keys: "set required_keys = dom ?kwargs"
    by (auto simp: required_keys_def iteration_kwargs_def)
  have out: "output_iteration f32 nc ?kwargs = assign_all f32 nc (int n) ?kvs"
    unfolding output_iteration_def using keys by (simp add: iteration_kwargs_def)
  have d: "distinct (map fst ?kvs)" by simp
  have pre: "\<forall>(name, v) \<in> set ?kvs. \<exists>var row. variables nc name = Some var
           \<and> ''iteration'' \<notin> set (tl (var_dimensions var))
           \<and> nc_convert f32 (var_type var) (row_shape nc var) v = Inr row"
    using pos(1,3) box(1,3) vo(1,3) sts(1,3) en(1,3) pr(1,3) ac(1,3) ts(1,3) conv by simp
  from assign_all_ok [OF d pre, of n] obtain nc' where run: "assign_all f32 nc (int n) ?kvs = Inr nc'"
    and as: "assigned f32 n ?kvs nc nc'" by blast
  have w1: "variables nc' ''positions'' = Some (written_row n (Numeric (cast_array f32 c)) pos)"
    by (rule assignedD(2) [OF as _ pos(1) conv(1)]) simp
  have w2: "variables nc' ''box_vectors'' = Some (written_row n (Numeric (cast_array f32 b)) box)"
    by (rule assignedD(2) [OF as _ box(1) conv(2)]) simp
  have w3: "variables nc' ''energies'' = Some (written_row n (Numeric (cast_array f32 e)) en)"
    by (rule assignedD(2) [OF as _ en(1) conv(5)]) simp
  have w4: "variables nc' ''states'' = Some (written_row n (Numeric st) sts)"
    by (rule assignedD(2) [OF as _ sts(1) conv(4)]) simp
  have sz: "dimension_size nc' ''iteration'' = max (dimension_size nc ''iteration'') (n + 1)"
    by (rule assignedD(4) [OF as]) simp
  have dm: "\<forall>d. d \<noteq> ''iteration'' \<longrightarrow> dimensions nc' d = dimensions nc d"
    using assignedD(3) [OF as] by blast
  note g = assignedD(5,6) [OF as]
  have res: "output_iteration f32 nc ?kwargs = Inr nc'" using out run by simp
  show ?thesis
    by (intro exI [of _ nc'] conjI)
      (use res w1 w2 w3 w4 sz dm g pos(1) box(1) en(1) sts(1) in simp_all)
qed


lemma load_last_iteration_ok:
  assumes "variables nc ''positions'' = Some pos"
    and "var_dimensions pos = [''iteration'', ''replica'', ''atom'', ''spatial'']"
    and "dimension_size nc ''replica'' = R"
    and "dimension_size nc ''iteration'' = m + 1"
    and "nc_read nc ''positions'' (int m) = Inr (Arr ps)" and "length ps = R"
    and "nc_read nc ''box_vectors'' (int m) = Inr (Arr bs)" and "length bs = R"
    and "nc_read nc ''states'' (int m) = Inr st"
    and "nc_read nc ''energies'' (int m) = Inr en"
  shows "load_last_iteration nc = Inr (ps, bs, en, int m + 1)"
proof -
  have sh: "var_shape nc pos = [Suc m, R, dimension_size nc ''atom'', dimension_size nc ''spatial'']"
    using assms(2,3,4) by (simp add: var_shape_def)
  have it: "int (Suc m) - 1 = int m" by simp
  have r1: "read_replicas nc ''positions'' (int m) [0..<R] = Inr ps"
    using read_replicas_all [OF assms(5)] assms(6) by simp
  have r2: "read_replicas nc ''box_vectors'' (int m) [0..<R] = Inr bs"
    using read_replicas_all [OF assms(7)] assms(8) by simp
  show ?thesis
    unfolding load_last_iteration_def
    by (simp only: assms(1) sh it r1 r2 assms(9,10) Let_def option.case list.case sum.case)
qed

text \<open>
  Claim C3. On a dataset with the time series of \<open>_initialize_netcdf\<close>, write a record
  with \<open>output_iteration\<close> at the index of the next unwritten row, with arrays of the
  shapes of the variables. The call succeeds, and \<open>_load_last_iteration\<close> on the file then
  returns, for every replica, the positions and the box vectors that were written, and
  the energy matrix that was written, each number rounded to a 32-bit float (\<open>f32\<close>);
  whatever closeness \<open>tol\<close> the rounding guarantees for a number holds for every entry read
  back. The iteration it reports is the written index plus one.
\<close>

theorem output_iteration_round_trip:
  assumes "repex_dataset nc R A"
    and "dimension_size nc ''iteration'' = n"
    and "has_shape [R, A, 3] c" and "has_shape [R, 3, 3] b" and "has_shape [R] vol"
    and "has_shape [R] st" and "has_shape [R, R] e" and "has_shape [R, R] p"
    and "has_shape [R, R] a"
    and "\<forall>x. tol (f32 x) x"
  shows "\<exists>nc' replica_coordinates replica_box_vectors energies.
       output_iteration f32 nc (iteration_kwargs (int n) c b vol st e p a t :: string \<rightharpoonup> 'u py_value) = Inr nc'
     \<and> load_last_iteration nc' = Inr (replica_coordinates, replica_box_vectors, energies, int n + 1)
     \<and> replica_coordinates = map (cast_array f32) (frames c)
     \<and> replica_box_vectors = map (cast_array f32) (frames b)
     \<and> energies = cast_array f32 e
     \<and> list_all2 (rel_array tol) replica_coordinates (frames c)
     \<and> list_all2 (rel_array tol) replica_box_vectors (frames b)
     \<and> rel_array tol energies e"
proof -
  obtain pos where pos: "variables nc ''positions'' = Some pos"
      "var_dimensions pos = [''iteration'', ''replica'', ''atom'', ''spatial'']"
    using repex_dataset_var [OF assms(1), of "''positions''"] by (auto simp: series_def)
  let ?box = "the (variables nc ''box_vectors'')"
  let ?en = "the (variables nc ''energies'')"
  let ?sts = "the (variables nc ''states'')"
  from output_iteration_ok [OF assms(1,3-9), of f32 n t, where ?'u = 'u]
  obtain nc' where o0:
    "output_iteration f32 nc (iteration_kwargs (int n) c b vol st e p a t :: string \<rightharpoonup> 'u py_value) = Inr nc'
     \<and> variables nc' ''positions'' =
          Some (written_row n (Numeric (cast_array f32 c)) (the (variables nc ''positions'')))
     \<and> variables nc' ''box_vectors'' = Some (written_row n (Numeric (cast_array f32 b)) ?box)
     \<and> variables nc' ''energies'' = Some (written_row n (Numeric (cast_array f32 e)) ?en)
     \<and> variables nc' ''states'' = Some (written_row n (Numeric st) ?sts)
     \<and> dimension_size nc' ''iteration'' = max (dimension_size nc ''iteration'') (n + 1)
     \<and> (\<forall>d. d \<noteq> ''iteration'' \<longrightarrow> dimensions nc' d = dimensions nc d)
     \<and> grp_thermodynamic_states nc' = grp_thermodynamic_states nc
     \<and> grp_options nc' = grp_options nc" ..
  note o1 = o0 [THEN conjunct1]
  note o4' = o0 [THEN conjunct2, THEN conjunct1]
  note o5 = o0 [THEN conjunct2, THEN conjunct2, THEN conjunct1]
  note o6 = o0 [THEN conjunct2, THEN conjunct2, THEN conjunct2, THEN conjunct1]
  note o7 = o0 [THEN conjunct2, THEN conjunct2, THEN conjunct2, THEN conjunct2, THEN conjunct1]
  note o8 = o0 [THEN conjunct2, THEN conjunct2, THEN conjunct2, THEN conjunct2, THEN conjunct2,
      THEN conjunct1]
  note o9 = o0 [THEN conjunct2, THEN conjunct2, THEN conjunct2, THEN conjunct2, THEN conjunct2,
      THEN conjunct2, THEN conjunct1]
  have o4: "variables nc' ''positions'' = Some (written_row n (Numeric (cast_array f32 c)) pos)"
    using o4' pos(1) by simp
  have sz: "dimension_size nc' ''iteration'' = n + 1" using o8 assms(2) by simp
  have "dimensions nc' ''replica'' = dimensions nc ''replica''" using o9 by simp
  then have rep: "dimension_size nc' ''replica'' = R"
    using repex_dataset_dims(1) [OF assms(1)] by (simp add: dimension_size_def)
  obtain cs where cs: "c = Arr cs" "length cs = R" using has_shape_Arr [OF assms(3)] by blast
  obtain bs where bs: "b = Arr bs" "length bs = R" using has_shape_Arr [OF assms(4)] by blast
  have pd: "var_dimensions (written_row n (Numeric (cast_array f32 c)) pos)
            = [''iteration'', ''replica'', ''atom'', ''spatial'']"
    using pos(2) by (simp add: written_row_def)
  have r1: "nc_read nc' ''positions'' (int n) = Inr (Arr (map (cast_array f32) cs))"
    using nc_read_written [OF o4 sz] cs by simp
  have r2: "nc_read nc' ''box_vectors'' (int n) = Inr (Arr (map (cast_array f32) bs))"
    using nc_read_written [OF o5 sz] bs by simp
  have r3: "nc_read nc' ''states'' (int n) = Inr st" by (rule nc_read_written [OF o7 sz])
  have r4: "nc_read nc' ''energies'' (int n) = Inr (cast_array f32 e)"
    by (rule nc_read_written [OF o6 sz])
  have load: "load_last_iteration nc' =
      Inr (map (cast_array f32) cs, map (cast_array f32) bs, cast_array f32 e, int n + 1)"
    by (rule load_last_iteration_ok [OF o4 pd rep sz r1 _ r2 _ r3 r4]) (simp_all add: cs bs)
  have rc: "rel_array tol (cast_array f32 x) x" for x
    by (rule rel_array_cast [where tol = tol and ?f32.0 = f32, OF assms(10)])
  have t1: "list_all2 (rel_array tol) (map (cast_array f32) cs) cs"
    using rc by (simp add: list_all2_conv_all_nth)
  have t2: "list_all2 (rel_array tol) (map (cast_array f32) bs) bs"
    using rc by (simp add: list_all2_conv_all_nth)
  have t3: "rel_array tol (cast_array f32 e) e" by (rule rc)
  have fr: "frames c = cs" "frames b = bs" by (simp_all add: cs bs)
  show ?thesis
    unfolding fr
    by (intro exI [of _ nc'] exI [of _ "map (cast_array f32) cs"]
        exI [of _ "map (cast_array f32) bs"] exI [of _ "cast_array f32 e"] conjI refl)
      (fact o1 load t1 t2 t3)+
qed

lemma has_shape_cast [simp]: "has_shape shp (cast_array f a) = has_shape shp a"
  by (induction shp a rule: has_shape.induct) simp_all

lemma stored_row_written:
  assumes "variables nc name = Some (written_row n row var)"
  shows "stored_row nc name n = row"
proof -
  let ?xs = "var_data var @ replicate (n + 1 - length (var_data var)) Fill"
  have len: "n < length ?xs" by simp
  then have "?xs[n := row] ! n = row" by (rule nth_list_update_eq)
  moreover have "length (?xs[n := row]) = length ?xs" by simp
  ultimately show ?thesis
    using assms len by (simp add: stored_row_def written_row_def del: length_append length_replicate)
qed

lemma output_iteration_completes_row:
  assumes ds: "repex_dataset nc R A"
    and shapes: "has_shape [R, A, 3] c" "has_shape [R, 3, 3] b" "has_shape [R] vol"
      "has_shape [R] st" "has_shape [R, R] e" "has_shape [R, R] p" "has_shape [R, R] a"
  shows "\<exists>nc'.
       output_iteration f32 nc (iteration_kwargs (int n) c b vol st e p a t :: string \<rightharpoonup> 'u py_value) = Inr nc'
     \<and> complete_row nc' n
     \<and> stored_row nc' ''positions'' n = Numeric (cast_array f32 c)
     \<and> stored_row nc' ''box_vectors'' n = Numeric (cast_array f32 b)
     \<and> stored_row nc' ''energies'' n = Numeric (cast_array f32 e)"
proof -
  let ?kwargs = "iteration_kwargs (int n) c b vol st e p a t :: string \<rightharpoonup> 'u py_value"
  let ?kvs = "[(''positions'', PyArray c), (''box_vectors'', PyArray b), (''volumes'', PyArray vol),
     (''states'', PyArray st), (''energies'', PyArray e), (''proposed'', PyArray p),
     (''accepted'', PyArray a), (''timestamp'', PyStr t)] :: (string \<times> 'u py_value) list"
  note dims = repex_dataset_dims [OF ds]
  obtain pos where pos: "variables nc ''positions'' = Some pos" "var_type pos = NC_FLOAT"
      "var_dimensions pos = [''iteration'', ''replica'', ''atom'', ''spatial'']"
    using repex_dataset_var [OF ds, of "''positions''"] by (auto simp: series_def)
  obtain sts where sts: "variables nc ''states'' = Some sts" "var_type sts = NC_INT"
      "var_dimensions sts = [''iteration'', ''replica'']"
    using repex_dataset_var [OF ds, of "''states''"] by (auto simp: series_def)
  obtain en where en: "variables nc ''energies'' = Some en" "var_type en = NC_FLOAT"
      "var_dimensions en = [''iteration'', ''replica'', ''replica'']"
    using repex_dataset_var [OF ds, of "''energies''"] by (auto simp: series_def)
  obtain pr where pr: "variables nc ''proposed'' = Some pr" "var_type pr = NC_INT"
      "var_dimensions pr = [''iteration'', ''replica'', ''replica'']"
    using repex_dataset_var [OF ds, of "''proposed''"] by (auto simp: series_def)
  obtain ac where ac: "variables nc ''accepted'' = Some ac" "var_type ac = NC_INT"
      "var_dimensions ac = [''iteration'', ''replica'', ''replica'']"
    using repex_dataset_var [OF ds, of "''accepted''"] by (auto simp: series_def)
  obtain box where box: "variables nc ''box_vectors'' = Some box" "var_type box = NC_FLOAT"
      "var_dimensions box = [''iteration'', ''replica'', ''spatial'', ''spatial'']"
    using repex_dataset_var [OF ds, of "''box_vectors''"] by (auto simp: series_def)
  obtain vo where vo: "variables nc ''volumes'' = Some vo" "var_type vo = NC_FLOAT"
      "var_dimensions vo = [''iteration'', ''replica'']"
    using repex_dataset_var [OF ds, of "''volumes''"] by (auto simp: series_def)
  obtain ts where ts: "variables nc ''timestamp'' = Some ts" "var_type ts = NC_STRING"
      "var_dimensions ts = [''iteration'']"
    using repex_dataset_var [OF ds, of "''timestamp''"] by (auto simp: series_def)
  have rs: "row_shape nc pos = [R, A, 3]" "row_shape nc sts = [R]" "row_shape nc en = [R, R]"
    "row_shape nc pr = [R, R]" "row_shape nc ac = [R, R]" "row_shape nc box = [R, 3, 3]"
    "row_shape nc vo = [R]" "row_shape nc ts = []"
    using pos sts en pr ac box vo ts dims by (simp_all add: row_shape_def var_shape_def)
  have conv: "nc_convert f32 (var_type pos) (row_shape nc pos) (PyArray c :: 'u py_value) = Inr (Numeric (cast_array f32 c))"
    "nc_convert f32 (var_type box) (row_shape nc box) (PyArray b :: 'u py_value) = Inr (Numeric (cast_array f32 b))"
    "nc_convert f32 (var_type vo) (row_shape nc vo) (PyArray vol :: 'u py_value) = Inr (Numeric (cast_array f32 vol))"
    "nc_convert f32 (var_type sts) (row_shape nc sts) (PyArray st :: 'u py_value) = Inr (Numeric st)"
    "nc_convert f32 (var_type en) (row_shape nc en) (PyArray e :: 'u py_value) = Inr (Numeric (cast_array f32 e))"
    "nc_convert f32 (var_type pr) (row_shape nc pr) (PyArray p :: 'u py_value) = Inr (Numeric p)"
    "nc_convert f32 (var_type ac) (row_shape nc ac) (PyArray a :: 'u py_value) = Inr (Numeric a)"
    "nc_convert f32 (var_type ts) (row_shape nc ts) (PyStr t :: 'u py_value) = Inr (Text t)"
    unfolding rs using shapes pos(2) box(2) vo(2) sts(2) en(2) pr(2) ac(2) ts(2)
    by (simp_all add: nc_convert_def)
  have keys: "set required_keys = dom ?kwargs"
    by (auto simp: required_keys_def iteration_kwargs_def)
  have out: "output_iteration f32 nc ?kwargs = assign_all f32 nc (int n) ?kvs"
    unfolding output_iteration_def using keys by (simp add: iteration_kwargs_def)
  have d: "distinct (map fst ?kvs)" by simp
  have pre: "\<forall>(name, v) \<in> set ?kvs. \<exists>var row. variables nc name = Some var
           \<and> ''iteration'' \<notin> set (tl (var_dimensions var))
           \<and> nc_convert f32 (var_type var) (row_shape nc var) v = Inr row"
    using pos(1,3) box(1,3) vo(1,3) sts(1,3) en(1,3) pr(1,3) ac(1,3) ts(1,3) conv by simp
  from assign_all_ok [OF d pre, of n] obtain nc' where run: "assign_all f32 nc (int n) ?kvs = Inr nc'"
    and as: "assigned f32 n ?kvs nc nc'" by blast
  have w1: "stored_row nc' ''positions'' n = Numeric (cast_array f32 c)"
    by (rule stored_row_written, rule assignedD(2) [OF as _ pos(1) conv(1)]) simp
  have w2: "stored_row nc' ''box_vectors'' n = Numeric (cast_array f32 b)"
    by (rule stored_row_written, rule assignedD(2) [OF as _ box(1) conv(2)]) simp
  have w3: "stored_row nc' ''volumes'' n = Numeric (cast_array f32 vol)"
    by (rule stored_row_written, rule assignedD(2) [OF as _ vo(1) conv(3)]) simp
  have w4: "stored_row nc' ''states'' n = Numeric st"
    by (rule stored_row_written, rule assignedD(2) [OF as _ sts(1) conv(4)]) simp
  have w5: "stored_row nc' ''energies'' n = Numeric (cast_array f32 e)"
    by (rule stored_row_written, rule assignedD(2) [OF as _ en(1) conv(5)]) simp
  have w6: "stored_row nc' ''proposed'' n = Numeric p"
    by (rule stored_row_written, rule assignedD(2) [OF as _ pr(1) conv(6)]) simp
  have w7: "stored_row nc' ''accepted'' n = Numeric a"
    by (rule stored_row_written, rule assignedD(2) [OF as _ ac(1) conv(7)]) simp
  have w8: "stored_row nc' ''timestamp'' n = Text t"
    by (rule stored_row_written, rule assignedD(2) [OF as _ ts(1) conv(8)]) simp
  have dm: "dimension_size nc' ''replica'' = R" "dimension_size nc' ''atom'' = A"
    "dimension_size nc' ''spatial'' = 3"
    using assignedD(3) [OF as, of "''replica''"] assignedD(3) [OF as, of "''atom''"]
      assignedD(3) [OF as, of "''spatial''"] dims
    by (simp_all add: dimension_size_def)
  have comp: "complete_row nc' n"
    unfolding complete_row_def series_def
    by (simp add: w1 w2 w3 w4 w5 w6 w7 w8 dm shapes)
  have res: "output_iteration f32 nc ?kwargs = Inr nc'" using out run by simp
  show ?thesis
    by (intro exI [of _ nc'] conjI) (fact res comp w1 w2 w5)+
qed

lemma stored_row_read:
  assumes "stored_row nc name k = Numeric a" and "k < dimension_size nc ''iteration''"
  shows "nc_read nc name (int k) = Inr a"
proof (cases "variables nc name")
  case None
  with assms(1) show ?thesis by (simp add: stored_row_def)
next
  case (Some var)
  with assms(1) have "k < length (var_data var)" "var_data var ! k = Numeric a"
    by (simp_all add: stored_row_def split: if_splits)
  with Some assms(2) show ?thesis by (simp add: nc_read_def)
qed

lemma complete_rowD:
  assumes "complete_row nc k" and "(name, ty, dims) \<in> set series" and "ty \<noteq> NC_STRING"
  shows "\<exists>a. stored_row nc name k = Numeric a \<and> has_shape (map (dimension_size nc) (tl dims)) a"
proof -
  from assms(1,2) have "case stored_row nc name k of
          Fill \<Rightarrow> False
        | Text s \<Rightarrow> ty = NC_STRING
        | Numeric a \<Rightarrow> ty \<noteq> NC_STRING \<and> has_shape (map (dimension_size nc) (tl dims)) a"
    unfolding complete_row_def list_all_iff by fast
  with assms(3) show ?thesis by (cases "stored_row nc name k") simp_all
qed

text \<open>
  Claim C4. On resume, \<open>_load_last_iteration\<close> returns the row of index \<open>n - 1\<close> of the
  time series, where \<open>n > 0\<close> is the size of the dimension \<open>iteration\<close>. When that row is
  complete (every time series holds a written row at that index, which is what a
  completed call of \<open>output_iteration\<close> leaves: \<open>output_iteration_completes_row\<close>), the
  positions and box vectors returned for every replica and the energy matrix returned
  are the ones stored in that row, and the iteration reported is that index plus one;
  \<open>restore_database\<close> stores these in the database object, with the thermodynamic states
  and the options. The code does not check the last row, so its completeness is a
  hypothesis.
\<close>

theorem restore_database_last_row:
  assumes "repex_dataset nc R A"
    and "dimension_size nc ''iteration'' = n" and "0 < n"
    and "complete_row nc (n - 1)"
    and "load_thermodynamic_states nc = Inr states"
    and "load_options eval_unit nc = Inr opts"
    and "db_ncfile self = nc"
  shows "\<exists>ps bs en.
       stored_row nc ''positions'' (n - 1) = Numeric (Arr ps)
     \<and> stored_row nc ''box_vectors'' (n - 1) = Numeric (Arr bs)
     \<and> stored_row nc ''energies'' (n - 1) = Numeric en
     \<and> length ps = R \<and> length bs = R
     \<and> load_last_iteration nc = Inr (ps, bs, en, int (n - 1) + 1)
     \<and> restore_database eval_unit self =
         Inr (self\<lparr>db_thermodynamic_states := states, db_options := opts,
                   db_coordinates := ps, db_replica_box_vectors := bs,
                   db_u_kl := Some en, db_iteration := Some (int (n - 1) + 1)\<rparr>)"
proof -
  obtain pos where pos: "variables nc ''positions'' = Some pos"
      "var_dimensions pos = [''iteration'', ''replica'', ''atom'', ''spatial'']"
    using repex_dataset_var [OF assms(1), of "''positions''"] by (auto simp: series_def)
  note dims = repex_dataset_dims [OF assms(1)]
  have lt: "n - 1 < dimension_size nc ''iteration''" using assms(2,3) by simp
  have sz: "dimension_size nc ''iteration'' = (n - 1) + 1" using assms(2,3) by simp
  from complete_rowD [OF assms(4), of "''positions''" NC_FLOAT "[''iteration'', ''replica'', ''atom'', ''spatial'']"]
  obtain a where a: "stored_row nc ''positions'' (n - 1) = Numeric a" "has_shape [R, A, 3] a"
    using dims by (auto simp: series_def)
  from complete_rowD [OF assms(4), of "''box_vectors''" NC_FLOAT "[''iteration'', ''replica'', ''spatial'', ''spatial'']"]
  obtain b where b: "stored_row nc ''box_vectors'' (n - 1) = Numeric b" "has_shape [R, 3, 3] b"
    using dims by (auto simp: series_def)
  from complete_rowD [OF assms(4), of "''states''" NC_INT "[''iteration'', ''replica'']"]
  obtain st where st: "stored_row nc ''states'' (n - 1) = Numeric st"
    by (auto simp: series_def)
  from complete_rowD [OF assms(4), of "''energies''" NC_FLOAT "[''iteration'', ''replica'', ''replica'']"]
  obtain en where en: "stored_row nc ''energies'' (n - 1) = Numeric en"
    by (auto simp: series_def)
  obtain ps where ps: "a = Arr ps" "length ps = R" using has_shape_Arr [OF a(2)] by blast
  obtain bs where bs: "b = Arr bs" "length bs = R" using has_shape_Arr [OF b(2)] by blast
  have r1: "nc_read nc ''positions'' (int (n - 1)) = Inr (Arr ps)"
    using stored_row_read [OF a(1) lt] ps(1) by simp
  have r2: "nc_read nc ''box_vectors'' (int (n - 1)) = Inr (Arr bs)"
    using stored_row_read [OF b(1) lt] bs(1) by simp
  have r3: "nc_read nc ''states'' (int (n - 1)) = Inr st" by (rule stored_row_read [OF st lt])
  have r4: "nc_read nc ''energies'' (int (n - 1)) = Inr en" by (rule stored_row_read [OF en lt])
  have load: "load_last_iteration nc = Inr (ps, bs, en, int (n - 1) + 1)"
    by (rule load_last_iteration_ok [OF pos dims(1) sz r1 ps(2) r2 bs(2) r3 r4])
  have rest: "restore_database eval_unit self =
         Inr (self\<lparr>db_thermodynamic_states := states, db_options := opts,
                   db_coordinates := ps, db_replica_box_vectors := bs,
                   db_u_kl := Some en, db_iteration := Some (int (n - 1) + 1)\<rparr>)"
    using load assms(5,6,7) by (simp add: restore_database_def)
  have s1: "stored_row nc ''positions'' (n - 1) = Numeric (Arr ps)" using a(1) ps(1) by simp
  have s2: "stored_row nc ''box_vectors'' (n - 1) = Numeric (Arr bs)" using b(1) bs(1) by simp
  show ?thesis
    by (intro exI [of _ ps] exI [of _ bs] exI [of _ en] conjI) (fact s1 s2 en ps(2) bs(2) load rest)+
qed


lemma example_f32_close: "\<forall>x. \<bar>example_f32 x - x\<bar> \<le> 1 / 1024"
proof
  fix x :: real
  have "real_of_int \<lfloor>x * 1024\<rfloor> \<le> x * 1024" "x * 1024 < real_of_int \<lfloor>x * 1024\<rfloor> + 1"
    by linarith+
  then show "\<bar>example_f32 x - x\<bar> \<le> 1 / 1024"
    unfolding example_f32_def by (simp add: field_simps abs_le_iff)
qed

lemma example_dataset_ok: "repex_dataset example_dataset 2 1"
  by (simp add: repex_dataset_def example_dataset_def series_def)

theorem output_iteration_round_trip_witness:
  "\<exists>nc'. output_iteration example_f32 example_dataset
            (iteration_kwargs 1 example_coordinates example_box_vectors (Arr [Num 8, Num 8])
               (Arr [Num 1, Num 0]) example_energies example_counts example_counts
               ''Wed Nov  4 12:05:00 2026'' :: string \<rightharpoonup> string py_value) = Inr nc'
     \<and> load_last_iteration nc' =
         Inr (map (cast_array example_f32) (frames example_coordinates),
              map (cast_array example_f32) (frames example_box_vectors),
              cast_array example_f32 example_energies, 2)
     \<and> list_all2 (rel_array (\<lambda>y x. \<bar>y - x\<bar> \<le> 1 / 1024))
          (map (cast_array example_f32) (frames example_coordinates)) (frames example_coordinates)"
proof -
  have sz: "dimension_size example_dataset ''iteration'' = 1"
    by (simp add: dimension_size_def example_dataset_def)
  have sh: "has_shape [2, 1, 3] example_coordinates" "has_shape [2, 3, 3] example_box_vectors"
    "has_shape [2] (Arr [Num 8, Num 8])" "has_shape [2] (Arr [Num 1, Num 0])"
    "has_shape [2, 2] example_energies" "has_shape [2, 2] example_counts"
    by (simp_all add: example_coordinates_def example_box_vectors_def example_energies_def
        example_counts_def)
  have fr: "frames example_coordinates = frames example_coordinates" ..
  from output_iteration_round_trip [where tol = "\<lambda>y x. \<bar>y - x\<bar> \<le> 1 / 1024" and ?f32.0 = example_f32
      and t = "''Wed Nov  4 12:05:00 2026''" and ?'u = string,
      OF example_dataset_ok sz sh(1,2,3,4,5,6,6) example_f32_close]
  show ?thesis by (simp only: of_nat_1 one_add_one) blast
qed


lemma second_keys:
  "set required_keys = dom (iteration_kwargs 1 example_coordinates example_box_vectors (Arr [Num 8, Num 8])
        (Arr [Num 1, Num 0]) example_energies example_counts example_counts
        ''Wed Nov  4 12:05:00 2026'' :: string \<rightharpoonup> string py_value)"
  by (auto simp: required_keys_def iteration_kwargs_def)

lemma output_iteration_two_rows:
  "output_iteration example_f32 example_dataset
     (iteration_kwargs 1 example_coordinates example_box_vectors (Arr [Num 8, Num 8])
        (Arr [Num 1, Num 0]) example_energies example_counts example_counts
        ''Wed Nov  4 12:05:00 2026'' :: string \<rightharpoonup> string py_value) = Inr two_row_dataset"
  unfolding output_iteration_def
  by (simp add: second_keys)
    (simp add: iteration_kwargs_def
      nc_assign_def nc_convert_def nc_index_def dimension_size_def row_shape_def var_shape_def
      example_dataset_def two_row_dataset_def written_row_def example_energies_def example_counts_def
      example_coordinates_def example_box_vectors_def numeral_2_eq_2)

lemma two_row_dataset_ok: "repex_dataset two_row_dataset 2 1"
  by (simp add: repex_dataset_def two_row_dataset_def example_dataset_def series_def written_row_def)

lemma two_row_dataset_complete: "complete_row two_row_dataset 1"
  by (simp add: complete_row_def stored_row_def two_row_dataset_def example_dataset_def series_def
      written_row_def dimension_size_def example_coordinates_def example_box_vectors_def
      example_energies_def example_counts_def)

lemma half_written_rows:
  "complete_row half_written_dataset 0" "\<not> complete_row half_written_dataset 1"
  by (simp_all add: complete_row_def stored_row_def half_written_dataset_def example_dataset_def series_def
      written_row_def dimension_size_def example_coordinates_def example_box_vectors_def)

lemma half_written_load:
  "load_last_iteration half_written_dataset =
     Inr (map (cast_array example_f32) (frames example_coordinates),
          map (cast_array example_f32) (frames example_box_vectors),
          Arr [Arr [Num nc_fill_float, Num nc_fill_float], Arr [Num nc_fill_float, Num nc_fill_float]], 2)"
  by (simp add: load_last_iteration_def half_written_dataset_def example_dataset_def
      var_shape_def dimension_size_def written_row_def nc_read_def nc_index_def row_shape_def
      example_coordinates_def example_box_vectors_def upt_rec numeral_2_eq_2)

theorem restore_database_last_row_witness:
  "output_iteration example_f32 example_dataset
     (iteration_kwargs 1 example_coordinates example_box_vectors (Arr [Num 8, Num 8])
        (Arr [Num 1, Num 0]) example_energies example_counts example_counts
        ''Wed Nov  4 12:05:00 2026'' :: string \<rightharpoonup> string py_value) = Inr two_row_dataset
   \<and> stored_row two_row_dataset ''energies'' 0 = Numeric (Arr [Arr [Num 4, Num 3], Arr [Num 5, Num 4]])
   \<and> stored_row two_row_dataset ''energies'' 1 = Numeric (Arr [Arr [Num (7 / 2), Num 3], Arr [Num 5, Num (9 / 2)]])
   \<and> load_last_iteration two_row_dataset =
       Inr (map (cast_array example_f32) (frames example_coordinates),
            map (cast_array example_f32) (frames example_box_vectors),
            Arr [Arr [Num (7 / 2), Num 3], Arr [Num 5, Num (9 / 2)]], 2)
   \<and> (\<exists>db. restore_database (\<lambda>name. Inr name)
          \<lparr>db_options = Map.empty, db_ncfile = two_row_dataset, db_title = ''No Title.'',
           db_thermodynamic_states = [], db_coordinates = [], db_replica_box_vectors = [],
           db_u_kl = None, db_iteration = None\<rparr> = Inr (db :: (unit, string) NetCDFDatabase)
        \<and> db_iteration db = Some 2
        \<and> db_u_kl db = Some (Arr [Arr [Num (7 / 2), Num 3], Arr [Num 5, Num (9 / 2)]]))"
proof -
  let ?self = "\<lparr>db_options = Map.empty, db_ncfile = two_row_dataset, db_title = ''No Title.'',
           db_thermodynamic_states = [], db_coordinates = [], db_replica_box_vectors = [],
           db_u_kl = None, db_iteration = None\<rparr> :: (unit, string) NetCDFDatabase"
  have sz: "dimension_size two_row_dataset ''iteration'' = 2"
    by (simp add: dimension_size_def two_row_dataset_def)
  have st: "load_thermodynamic_states two_row_dataset =
      Inr [\<lparr>temperature = 300, pressure = None, system = ()\<rparr>,
           \<lparr>temperature = 400, pressure = None, system = ()\<rparr>]"
    by (simp add: load_thermodynamic_states_def two_row_dataset_def example_dataset_def upt_rec)
  have op: "load_options (\<lambda>name. Inr name) two_row_dataset = Inr (Map.empty :: string \<rightharpoonup> string py_value)"
    by (simp add: load_options_def two_row_dataset_def example_dataset_def)
  have s1: "stored_row two_row_dataset ''positions'' (2 - 1) = Numeric (cast_array example_f32 example_coordinates)"
    "stored_row two_row_dataset ''box_vectors'' (2 - 1) = Numeric (cast_array example_f32 example_box_vectors)"
    "stored_row two_row_dataset ''energies'' (2 - 1) = Numeric (Arr [Arr [Num (7 / 2), Num 3], Arr [Num 5, Num (9 / 2)]])"
    by (simp_all add: stored_row_def two_row_dataset_def example_dataset_def written_row_def
        example_energies_def example_f32_def)
  have s0: "stored_row two_row_dataset ''energies'' 0 = Numeric (Arr [Arr [Num 4, Num 3], Arr [Num 5, Num 4]])"
    by (simp add: stored_row_def two_row_dataset_def example_dataset_def written_row_def)
  have c: "complete_row two_row_dataset (2 - 1)" using two_row_dataset_complete by simp
  from restore_database_last_row [OF two_row_dataset_ok sz _ c st op, of ?self]
  obtain ps bs en where r:
    "stored_row two_row_dataset ''positions'' (2 - 1) = Numeric (Arr ps)"
    "stored_row two_row_dataset ''box_vectors'' (2 - 1) = Numeric (Arr bs)"
    "stored_row two_row_dataset ''energies'' (2 - 1) = Numeric en"
    "load_last_iteration two_row_dataset = Inr (ps, bs, en, int (2 - 1) + 1)"
    "restore_database (\<lambda>name. Inr name) ?self =
         Inr (?self\<lparr>db_thermodynamic_states := [\<lparr>temperature = 300, pressure = None, system = ()\<rparr>,
           \<lparr>temperature = 400, pressure = None, system = ()\<rparr>], db_options := Map.empty,
                   db_coordinates := ps, db_replica_box_vectors := bs,
                   db_u_kl := Some en, db_iteration := Some (int (2 - 1) + 1)\<rparr>)"
    by auto
  have ps: "ps = map (cast_array example_f32) (frames example_coordinates)"
    using r(1) s1(1) by (simp add: example_coordinates_def)
  have bs: "bs = map (cast_array example_f32) (frames example_box_vectors)"
    using r(2) s1(2) by (simp add: example_box_vectors_def)
  have en: "en = Arr [Arr [Num (7 / 2), Num 3], Arr [Num 5, Num (9 / 2)]]"
    using r(3) s1(3) by simp
  have l: "load_last_iteration two_row_dataset =
       Inr (map (cast_array example_f32) (frames example_coordinates),
            map (cast_array example_f32) (frames example_box_vectors),
            Arr [Arr [Num (7 / 2), Num 3], Arr [Num 5, Num (9 / 2)]], 2)"
    using r(4) ps bs en by simp
  have s1': "stored_row two_row_dataset ''energies'' 1 = Numeric (Arr [Arr [Num (7 / 2), Num 3], Arr [Num 5, Num (9 / 2)]])"
    using s1(3) by simp
  show ?thesis
    using output_iteration_two_rows s0 s1' l r(5) en by simp
qed


lemma interrupted_keys: "set required_keys = dom interrupted_kwargs"
  by (auto simp: required_keys_def interrupted_kwargs_def iteration_kwargs_def)

lemma output_iteration_interrupted: "output_iteration example_f32 example_dataset interrupted_kwargs
     = Inl (TypeError ''cannot store this value in the variable'', half_written_dataset)"
  unfolding output_iteration_def
  by (simp add: interrupted_keys)
    (simp add: interrupted_kwargs_def iteration_kwargs_def
      nc_assign_def nc_convert_def nc_index_def dimension_size_def row_shape_def var_shape_def
      example_dataset_def half_written_dataset_def written_row_def
      example_coordinates_def example_box_vectors_def numeral_2_eq_2)

text \<open>
  A call of \<open>output_iteration\<close> that raises part of the way leaves a last row that is not
  complete. Here the energies of the second iteration are \<open>None\<close>: the positions, box
  vectors, volumes and states of row 1 are written, and the dimension \<open>iteration\<close> has
  grown to 2, when the assignment of the energies raises. \<open>_load_last_iteration\<close> on that
  file returns the new positions with an energy matrix of fill values and reports
  iteration 2, while the last complete row is row 0, with the energies of the first
  iteration.
\<close>

theorem load_last_iteration_half_written:
  "output_iteration example_f32 example_dataset interrupted_kwargs
     = Inl (TypeError ''cannot store this value in the variable'', half_written_dataset)
   \<and> complete_row half_written_dataset 0
   \<and> \<not> complete_row half_written_dataset 1
   \<and> stored_row half_written_dataset ''energies'' 0 = Numeric (Arr [Arr [Num 4, Num 3], Arr [Num 5, Num 4]])
   \<and> load_last_iteration half_written_dataset =
       Inr (map (cast_array example_f32) (frames example_coordinates),
            map (cast_array example_f32) (frames example_box_vectors),
            Arr [Arr [Num nc_fill_float, Num nc_fill_float], Arr [Num nc_fill_float, Num nc_fill_float]], 2)"
proof -
  have e0: "stored_row half_written_dataset ''energies'' 0 = Numeric (Arr [Arr [Num 4, Num 3], Arr [Num 5, Num 4]])"
    by (simp add: stored_row_def half_written_dataset_def example_dataset_def)
  show ?thesis using output_iteration_interrupted half_written_rows e0 half_written_load by simp
qed


section \<open>Resuming from a file without its static records\<close>

text \<open>
  Claim C6. Constructing the database on an existing file (the way a run is resumed, with
  no states and no coordinates) fails when the file lacks the group of thermodynamic
  states or the group of options: no database object is returned. The exception is the
  \<open>ValueError\<close> of \<open>load_thermodynamic_states\<close> when the first group is missing, and the
  \<open>ValueError\<close> of \<open>load_options\<close> when the states can be read and the second group is
  missing. These are what the code raises for a file it cannot resume from.
\<close>

theorem resume_missing_group:
  assumes "grp_thermodynamic_states nc = None \<or> grp_options nc = None"
  shows "\<exists>e. NetCDFDatabase_init f32 unit_str eval_unit process_kwargs is_compatible_with
              (Dataset nc) None None kwargs = Inl e
     \<and> (grp_thermodynamic_states nc = None
          \<longrightarrow> e = ValueError ''thermodynamics_states not found in database!'')
     \<and> (\<forall>states. load_thermodynamic_states nc = Inr states
          \<longrightarrow> e = ValueError ''Options not found in NetCDF file!'')"
proof (cases "grp_thermodynamic_states nc")
  case None
  then have "load_thermodynamic_states nc = Inl (ValueError ''thermodynamics_states not found in database!'')"
    by (simp add: load_thermodynamic_states_def)
  then show ?thesis
    by (simp add: NetCDFDatabase_init_def restore_database_def Let_def)
next
  case (Some grp)
  with assms have o: "load_options eval_unit nc = Inl (ValueError ''Options not found in NetCDF file!'')"
    by (simp add: load_options_def)
  show ?thesis
  proof (cases "load_thermodynamic_states nc")
    case (Inl e)
    then show ?thesis using Some
      by (simp add: NetCDFDatabase_init_def restore_database_def Let_def)
  next
    case (Inr states)
    then show ?thesis using Some o
      by (simp add: NetCDFDatabase_init_def restore_database_def Let_def)
  qed
qed

theorem resume_missing_group_witness:
  "grp_thermodynamic_states (empty_dataset :: unit ncfile) = None
   \<and> NetCDFDatabase_init (\<lambda>x. x) (\<lambda>u. u) (\<lambda>name. Inr name) (\<lambda>kwargs. kwargs) (\<lambda>s t. True)
        (Dataset (empty_dataset :: unit ncfile)) None None (Map.empty :: string \<rightharpoonup> string py_value)
      = Inl (ValueError ''thermodynamics_states not found in database!'')
   \<and> grp_options no_options_dataset = None
   \<and> (\<exists>states. load_thermodynamic_states no_options_dataset = Inr states)
   \<and> NetCDFDatabase_init (\<lambda>x. x) (\<lambda>u. u) (\<lambda>name. Inr name) (\<lambda>kwargs. kwargs) (\<lambda>s t. True)
        (Dataset no_options_dataset) None None (Map.empty :: string \<rightharpoonup> string py_value)
      = Inl (ValueError ''Options not found in NetCDF file!'')"
proof -
  have a: "grp_thermodynamic_states (empty_dataset :: unit ncfile) = None"
    by (simp add: empty_dataset_def)
  have b: "grp_options no_options_dataset = None" by (simp add: no_options_dataset_def)
  have c: "load_thermodynamic_states no_options_dataset =
      Inr [\<lparr>temperature = 300, pressure = None, system = ()\<rparr>,
           \<lparr>temperature = 400, pressure = None, system = ()\<rparr>]"
    by (simp add: load_thermodynamic_states_def no_options_dataset_def example_dataset_def upt_rec)
  from resume_missing_group [of "empty_dataset :: unit ncfile" "\<lambda>x. x" "\<lambda>u. u" "\<lambda>name. Inr name"
      "\<lambda>kwargs. kwargs" "\<lambda>s t. True" "Map.empty :: string \<rightharpoonup> string py_value"] a
  have r1: "NetCDFDatabase_init (\<lambda>x. x) (\<lambda>u. u) (\<lambda>name. Inr name) (\<lambda>kwargs. kwargs) (\<lambda>s t. True)
        (Dataset (empty_dataset :: unit ncfile)) None None (Map.empty :: string \<rightharpoonup> string py_value)
      = Inl (ValueError ''thermodynamics_states not found in database!'')"
    by auto
  from resume_missing_group [of no_options_dataset "\<lambda>x. x" "\<lambda>u. u" "\<lambda>name. Inr name"
      "\<lambda>kwargs. kwargs" "\<lambda>s t. True" "Map.empty :: string \<rightharpoonup> string py_value"] b c
  have r2: "NetCDFDatabase_init (\<lambda>x. x) (\<lambda>u. u) (\<lambda>name. Inr name) (\<lambda>kwargs. kwargs) (\<lambda>s t. True)
        (Dataset no_options_dataset) None None (Map.empty :: string \<rightharpoonup> string py_value)
      = Inl (ValueError ''Options not found in NetCDF file!'')"
    by auto
  show ?thesis using a b c r1 r2 by simp
qed

section \<open>Creating a fresh run\<close>

text \<open>
  The constructor of the database rejects a number of states that differs from the number
  of coordinate sets, by an \<open>assert\<close>, before it opens the file.
\<close>

lemma NetCDFDatabase_init_length_mismatch:
  assumes "length states \<noteq> length coords"
  shows "\<exists>msg. NetCDFDatabase_init f32 unit_str eval_unit process_kwargs is_compatible_with
              file (Some states) (Some coords) kwargs = Inl (AssertionError msg)"
  using assms by (cases "file") (simp_all add: NetCDFDatabase_init_def Let_def)

lemma initialize_database_states:
  assumes "initialize_database f32 unit_str self (Some states) (Some coords) = Inr self1"
  shows "db_thermodynamic_states self1 = states"
  using assms
  by (auto simp: initialize_database_def initialize_netcdf_def Let_def
      split: list.splits ndarray.splits if_splits sum.splits)

text \<open>
  It rejects states that are not all compatible with the first one: when the file has
  been initialised, the loop at the end of the constructor raises \<open>ValueError\<close>; when
  the initialisation itself fails, that exception is raised.
\<close>

lemma NetCDFDatabase_init_incompatible:
  assumes "file = Absent \<or> file = EmptyFile"
    and "\<exists>s \<in> set states. \<not> is_compatible_with s (hd states)"
  shows "\<exists>e. NetCDFDatabase_init f32 unit_str eval_unit process_kwargs is_compatible_with
              file (Some states) (Some coords) kwargs = Inl e"
proof -
  let ?self = "\<lparr>db_options = process_kwargs kwargs, db_ncfile = empty_dataset, db_title = ''No Title.'',
       db_thermodynamic_states = [], db_coordinates = [],
       db_replica_box_vectors = [], db_u_kl = None, db_iteration = None\<rparr>"
  let ?msg = "''Provided ThermodynamicState states must all be from the same thermodynamic ensemble.''"
  show ?thesis
  proof (cases "length states = length coords")
    case False
    then show ?thesis using NetCDFDatabase_init_length_mismatch [OF False] by blast
  next
    case True
    show ?thesis
    proof (cases "initialize_database f32 unit_str ?self (Some states) (Some coords)")
      case (Inl e)
      then show ?thesis using assms(1) True
        by (auto simp: NetCDFDatabase_init_def Let_def)
    next
      case (Inr self1)
      then have st: "db_thermodynamic_states self1 = states" by (rule initialize_database_states)
      have "for_each (\<lambda>state. if \<not> is_compatible_with state (hd states)
                               then Inl (ValueError ?msg) else Inr ()) states = Inl (ValueError ?msg)"
        using assms(2) by (intro for_each_const_error) auto
      then show ?thesis using assms(1) True Inr st
        by (auto simp: NetCDFDatabase_init_def Let_def)
    qed
  qed
qed

text \<open>
  On two compatible states with one coordinate set each, the constructor returns a
  database whose file has the time series, no iteration yet, and the states and options.
\<close>

lemma NetCDFDatabase_init_fresh:
  "\<exists>db. NetCDFDatabase_init (\<lambda>x. x) (\<lambda>u. u) example_eval_unit (\<lambda>kwargs. kwargs) (\<lambda>s t. True)
      Absent (Some hex_states) (Some example_replica_coordinates) example_options = Inr db
    \<and> repex_dataset (db_ncfile db) 2 1
    \<and> dimension_size (db_ncfile db) ''iteration'' = 0
    \<and> load_thermodynamic_states (db_ncfile db) = Inr hex_states
    \<and> load_options example_eval_unit (db_ncfile db) = Inr example_options"
  by (simp add: NetCDFDatabase_init_def initialize_database_def initialize_netcdf_def
      store_thermodynamic_states_def store_options_def options_to_store_def store_option_def
      strip_units_def example_options_def hex_states_def example_replica_coordinates_def
      empty_dataset_def empty_variable_def series_def repex_dataset_def dimension_size_def
      load_thermodynamic_states_def load_options_def load_option_def py_construct_def
      example_eval_unit_def int64_def Let_def upt_rec fun_eq_iff)

text \<open>
  Claim C8, as the code has it. \<open>ParallelTempering.create\<close> never gets to the database:
  once the temperatures are settled it calls \<open>replica_exchange.validate_coordinates\<close>
  through a name that the module does not bind, and raises \<open>NameError\<close>. Here it is called
  with a temperature range, two coordinate sets and a file name.
\<close>

theorem create_raises_NameError:
  "create () example_replica_coordinates ''repex.nc'' (Some 273) (Some 600) None (Some 2) None
     = Inl (NameError ''replica_exchange'')"
  by (simp add: create_def create_temperatures_def temperature_ladder_def Let_def)

end
